theory Spec2Isabelle
  imports Complex_Main
begin

section \<open>JavaScript strings and numbers\<close>

text \<open>
  The collection scripts are JavaScript. A JavaScript string is modelled as a
  \<^typ>\<open>string\<close>; text outside ASCII is written as its UTF-8 bytes. Equality,
  \<open>includes\<close> and concatenation agree with JavaScript on well-formed text, and
  \<open>length\<close> agrees on ASCII text, which is all the alias tables that compare lengths hold.
  \<open>toLowerCase\<close>, \<open>trim\<close> and the class \<open>\s\<close> are modelled on ASCII text: on a string
  of ASCII characters they give what JavaScript gives, and the properties of a
  normalizer that lowers or trims an arbitrary label are stated for ASCII labels.
  \<open>asciiText\<close> tells that every character of a string is below 128.
\<close>

definition asciiText :: "string \<Rightarrow> bool" where
  "asciiText s = list_all (\<lambda>c. \<not> digit7 c) s"

definition toLowerCase_char :: "char \<Rightarrow> char" where
  "toLowerCase_char c =
     (case map_of (zip ''ABCDEFGHIJKLMNOPQRSTUVWXYZ'' ''abcdefghijklmnopqrstuvwxyz'') c of
        Some l \<Rightarrow> l
      | None \<Rightarrow> c)"

definition toLowerCase :: "string \<Rightarrow> string" where
  "toLowerCase s = map toLowerCase_char s"

text \<open>The white space of \<open>trim\<close> and of the regular expression class \<open>\s\<close>, in ASCII.\<close>

definition isSpace :: "char \<Rightarrow> bool" where
  "isSpace c = (c \<in> set [CHR '' '', CHR 0x09, CHR 0x0A, CHR 0x0B, CHR 0x0C, CHR 0x0D])"

definition trim :: "string \<Rightarrow> string" where
  "trim s = rev (dropWhile isSpace (rev (dropWhile isSpace s)))"

text \<open>\<open>s.replace(/\s+/g, ' ')\<close>: every maximal run of white space becomes one blank.\<close>

fun collapseFrom :: "bool \<Rightarrow> string \<Rightarrow> string" where
  "collapseFrom inRun [] = []"
| "collapseFrom inRun (c # cs) =
     (if isSpace c then (if inRun then collapseFrom True cs else CHR '' '' # collapseFrom True cs)
      else c # collapseFrom False cs)"

definition collapseSpaces :: "string \<Rightarrow> string" where
  "collapseSpaces s = collapseFrom False s"

text \<open>\<open>s.includes(t)\<close>: \<open>t\<close> occurs in \<open>s\<close> as a contiguous substring.\<close>

fun startsWith :: "string \<Rightarrow> string \<Rightarrow> bool" where
  "startsWith s [] = True"
| "startsWith [] (t # ts) = False"
| "startsWith (c # cs) (t # ts) = (c = t \<and> startsWith cs ts)"

fun str_includes :: "string \<Rightarrow> string \<Rightarrow> bool" where
  "str_includes [] t = (t = [])"
| "str_includes (c # cs) t = (startsWith (c # cs) t \<or> str_includes cs t)"

definition isDigit :: "char \<Rightarrow> bool" where
  "isDigit c = (c \<in> set ''0123456789'')"

definition digitVal :: "char \<Rightarrow> nat" where
  "digitVal c = (case map_of (zip ''0123456789'' [0, 1, 2, 3, 4, 5, 6, 7, 8, 9]) c of Some d \<Rightarrow> d | None \<Rightarrow> 0)"

text \<open>
  \<open>parseInt(s, 10)\<close>: leading white space is skipped, a sign is read, then the longest
  run of decimal digits; with no digit the result is \<open>NaN\<close>, here \<open>None\<close>.
\<close>

definition digitsVal :: "string \<Rightarrow> int" where
  "digitsVal ds = foldl (\<lambda>acc c. 10 * acc + int (digitVal c)) 0 ds"

definition parseInt :: "string \<Rightarrow> int option" where
  "parseInt s =
     (let t = dropWhile isSpace s;
          neg = (t \<noteq> [] \<and> hd t = CHR ''-'');
          u = (if t \<noteq> [] \<and> (hd t = CHR ''-'' \<or> hd t = CHR ''+'') then tl t else t);
          ds = takeWhile isDigit u
      in if ds = [] then None
         else Some (if neg then - digitsVal ds else digitsVal ds))"

text \<open>A number printed in decimal, as a template literal or \<open>String(n)\<close> does for an integer.\<close>

definition digitChar :: "nat \<Rightarrow> char" where
  "digitChar d = ''0123456789'' ! d"

function string_of_nat :: "nat \<Rightarrow> string" where
  "string_of_nat n =
     (if n < 10 then [digitChar n] else string_of_nat (n div 10) @ [digitChar (n mod 10)])"
  by pat_completeness auto
termination
  by (relation "measure id") auto

declare string_of_nat.simps [simp del]

definition string_of_int :: "int \<Rightarrow> string" where
  "string_of_int i = (if i < 0 then CHR ''-'' # string_of_nat (nat (- i)) else string_of_nat (nat i))"

text \<open>\<open>s.padStart(2, '0')\<close>.\<close>

definition padStart2 :: "string \<Rightarrow> string" where
  "padStart2 s = replicate (2 - length s) CHR ''0'' @ s"

section \<open>Month keys (scripts/util.js)\<close>

text \<open>
  \<open>new Date()\<close> is read once; \<open>fullYear\<close> is \<open>getFullYear()\<close> and \<open>monthIndex\<close> is
  \<open>getMonth()\<close>, which JavaScript counts from 0 to 11.
\<close>

record wall_clock =
  fullYear :: int
  monthIndex :: int

record month_info =
  m_year :: int
  m_month :: int
  m_code :: string

definition monthCode :: "int \<Rightarrow> int \<Rightarrow> string" where
  "monthCode y m = string_of_int y @ ''-'' @ padStart2 (string_of_int m)"

definition monthsOfYear :: "wall_clock \<Rightarrow> int \<Rightarrow> month_info list" where
  "monthsOfYear now y =
     (let currentYear = fullYear now;
          currentMonth = monthIndex now + 1;
          endMonth = (if y = currentYear then currentMonth else 12)
      in map (\<lambda>m. \<lparr>m_year = y, m_month = m, m_code = monthCode y m\<rparr>) [1..endMonth])"

definition getMonthsSinceStart :: "wall_clock \<Rightarrow> int \<Rightarrow> month_info list" where
  "getMonthsSinceStart now startYear =
     concat (map (monthsOfYear now) [startYear..fullYear now])"

text \<open>The position of a month on the calendar, counted in months.\<close>

definition monthOrdinal :: "month_info \<Rightarrow> int" where
  "monthOrdinal m = 12 * m_year m + (m_month m - 1)"

section \<open>JavaScript objects\<close>

text \<open>
  An object literal used as a dictionary is an association list in insertion order.
  Reading a key that the object does not own falls through to \<open>Object.prototype\<close>:
  for the names below the read returns the inherited member, which is truthy and is
  not a string.
\<close>

type_synonym 'v js_object = "(string \<times> 'v) list"

datatype js_member = Str string | Inherited string

definition objectPrototypeMembers :: "string list" where
  "objectPrototypeMembers =
     [''constructor'', ''__proto__'', ''hasOwnProperty'', ''isPrototypeOf'',
      ''propertyIsEnumerable'', ''toLocaleString'', ''toString'', ''valueOf'',
      ''__defineGetter__'', ''__defineSetter__'', ''__lookupGetter__'', ''__lookupSetter__'']"

text \<open>\<open>mapping[key] || fallback\<close> on an object literal of strings.\<close>

definition lookupOr :: "string js_object \<Rightarrow> string \<Rightarrow> string \<Rightarrow> js_member" where
  "lookupOr mapping key fallback =
     (case map_of mapping key of
        Some v \<Rightarrow> (if v = [] then Str fallback else Str v)
      | None \<Rightarrow> (if key \<in> set objectPrototypeMembers then Inherited key else Str fallback))"

text \<open>
  \<open>obj[key] = v\<close>: an owned key keeps its place, a new key goes last.
  \<open>Object.entries\<close> lists the keys that are array indices first, in ascending
  numeric order, then the other keys in insertion order.
\<close>

fun objPut :: "'v js_object \<Rightarrow> string \<Rightarrow> 'v \<Rightarrow> 'v js_object" where
  "objPut [] k v = [(k, v)]"
| "objPut ((k', v') # rest) k v = (if k' = k then (k, v) # rest else (k', v') # objPut rest k v)"

definition isArrayIndex :: "string \<Rightarrow> bool" where
  "isArrayIndex k =
     (k \<noteq> [] \<and> list_all isDigit k \<and> (k = ''0'' \<or> hd k \<noteq> CHR ''0'') \<and> digitsVal k < 4294967295)"

definition objectEntries :: "'v js_object \<Rightarrow> (string \<times> 'v) list" where
  "objectEntries obj =
     sort_key (\<lambda>kv. digitsVal (fst kv)) (filter (\<lambda>kv. isArrayIndex (fst kv)) obj)
     @ filter (\<lambda>kv. \<not> isArrayIndex (fst kv)) obj"

section \<open>Fuel taxonomy normalizers\<close>

text \<open>
  A fuel table maps a code to its aliases, as \<open>FRENCH_FUEL_MAP\<close> does; the loops
  \<open>for (const [code, aliases] of Object.entries(MAP)) for (const alias of aliases)\<close>
  visit the pairs of \<open>aliasPairs\<close> in order.
\<close>

type_synonym fuel_table = "(string \<times> string list) list"

definition aliasPairs :: "fuel_table \<Rightarrow> (string \<times> string) list" where
  "aliasPairs table = concat (map (\<lambda>(code, aliases). map (\<lambda>alias. (code, alias)) aliases) table)"

subsection \<open>France (scripts/parsers/FR.js)\<close>

definition FRENCH_FUEL_MAP :: fuel_table where
  "FRENCH_FUEL_MAP =
     [(''DIESEL'', [''Gazole (thermique)'', ''Diesel'']),
      (''GASOLINE'', [''Essence (thermique)'', ''Essence'']),
      (''HYBRID'', [''hybride gazole non rechargeable'', ''hybride essence non rechargeable'',
                    ''gazole (y compris hybrides non rechargeables)'',
                    ''essence (y compris hybrides non rechargeables)'']),
      (''PHEV'', [''hybride rechargeable'']),
      (''BEV'', [''Electrique'', ''Electric'', ''BEV'']),
      (''OTHER'', [''Gaz & ND'', ''LPG'', ''CNG''])]"

definition cleanLabel :: "string \<Rightarrow> string" where
  "cleanLabel label = collapseSpaces (toLowerCase (trim label))"

definition cleanAlias :: "string \<Rightarrow> string" where
  "cleanAlias alias = collapseSpaces (toLowerCase alias)"

text \<open>
  The loop of \<open>normalizeFrenchFuel\<close> with its two variables \<open>best\<close> and \<open>bestLen\<close>;
  an alias equal to the label returns at once, and \<open>best || 'OTHER'\<close> ends it.
\<close>

fun longestAliasLoop :: "string \<Rightarrow> (string \<times> string) list \<Rightarrow> string option \<Rightarrow> nat \<Rightarrow> string" where
  "longestAliasLoop clean [] best bestLen =
     (case best of None \<Rightarrow> ''OTHER'' | Some code \<Rightarrow> (if code = [] then ''OTHER'' else code))"
| "longestAliasLoop clean ((code, alias) # rest) best bestLen =
     (let aliasClean = cleanAlias alias
      in if clean = aliasClean then code
         else if str_includes clean aliasClean \<and> length aliasClean > bestLen
              then longestAliasLoop clean rest (Some code) (length aliasClean)
              else longestAliasLoop clean rest best bestLen)"

text \<open>The body of \<open>normalizeFrenchFuel\<close> with the table it iterates as a parameter.\<close>

definition normalizeLongest :: "fuel_table \<Rightarrow> string option \<Rightarrow> string" where
  "normalizeLongest table label =
     (case label of
        None \<Rightarrow> ''UNKNOWN''
      | Some l \<Rightarrow>
          (if l = [] then ''UNKNOWN''
           else longestAliasLoop (cleanLabel l) (aliasPairs table) None 0))"

definition normalizeFrenchFuel :: "string option \<Rightarrow> string" where
  "normalizeFrenchFuel label = normalizeLongest FRENCH_FUEL_MAP label"

subsection \<open>Germany and ACEA: the first key contained in the label\<close>

definition germanMapping :: "string js_object" where
  "germanMapping =
     [(''elektro'', ''BEV''), (''elektrisch'', ''BEV''), (''benzin'', ''GASOLINE''),
      (''diesel'', ''DIESEL''), (''hybrid'', ''HYBRID''), (''plug-in-hybrid'', ''PHEV''),
      (''plug-in hybrid'', ''PHEV''), (''erdgas'', ''LPG_CNG_OTHER''), (''cng'', ''LPG_CNG_OTHER''),
      (''fl'' @ [CHR 0xC3, CHR 0x83, CHR 0xC2, CHR 0xBC] @ ''ssiggas'', ''LPG_CNG_OTHER''),
      (''lpg'', ''LPG_CNG_OTHER''), (''wasserstoff'', ''LPG_CNG_OTHER''), (''sonstige'', ''OTHER'')]"

definition aceaMapping :: "string js_object" where
  "aceaMapping =
     [(''electric'', ''BEV''), (''bev'', ''BEV''), (''battery electric'', ''BEV''),
      (''plug-in hybrid'', ''PHEV''), (''phev'', ''PHEV''), (''hybrid electric'', ''HYBRID''),
      (''hev'', ''HYBRID''), (''hybrid'', ''HYBRID''), (''diesel'', ''DIESEL''),
      (''petrol'', ''GASOLINE''), (''gasoline'', ''GASOLINE''), (''lpg'', ''LPG_CNG_OTHER''),
      (''cng'', ''LPG_CNG_OTHER''), (''other'', ''OTHER'')]"

text \<open>\<open>for (const [key, value] of Object.entries(mapping)) if (normalized.includes(key)) return value\<close>.\<close>

fun firstIncludedKey :: "string \<Rightarrow> string js_object \<Rightarrow> string option" where
  "firstIncludedKey normalized [] = None"
| "firstIncludedKey normalized ((key, v) # rest) =
     (if str_includes normalized key then Some v else firstIncludedKey normalized rest)"

definition mapByFirstKey :: "string js_object \<Rightarrow> string option \<Rightarrow> string" where
  "mapByFirstKey mapping fuelName =
     (case fuelName of
        None \<Rightarrow> ''UNKNOWN''
      | Some n \<Rightarrow>
          (if n = [] then ''UNKNOWN''
           else (case firstIncludedKey (trim (toLowerCase n)) mapping of
                   Some v \<Rightarrow> v
                 | None \<Rightarrow> ''UNKNOWN'')))"

definition mapGermanFuelType :: "string option \<Rightarrow> string" where
  "mapGermanFuelType fuelName = mapByFirstKey germanMapping fuelName"

definition mapAceaFuelType :: "string option \<Rightarrow> string" where
  "mapAceaFuelType fuelName = mapByFirstKey aceaMapping fuelName"

subsection \<open>Sweden: an alias equal to the label\<close>

definition SWEDISH_FUEL_MAP :: fuel_table where
  "SWEDISH_FUEL_MAP =
     [(''DIESEL'', [''diesel'']), (''GASOLINE'', [''petrol'']), (''HYBRID'', [''electric hybrid'']),
      (''PHEV'', [''plug-in hybrid'']), (''BEV'', [''electricity'']),
      (''OTHER'', [''gas/gas flex'', ''ethanol/ethanol flexifuel'', ''other fuels''])]"

fun equalAliasLoop :: "string \<Rightarrow> (string \<times> string) list \<Rightarrow> string" where
  "equalAliasLoop clean [] = ''OTHER''"
| "equalAliasLoop clean ((code, alias) # rest) =
     (if clean = toLowerCase alias then code else equalAliasLoop clean rest)"

definition normalizeSwedishFuel :: "string option \<Rightarrow> string" where
  "normalizeSwedishFuel label =
     (case label of
        None \<Rightarrow> ''UNKNOWN''
      | Some l \<Rightarrow>
          (if l = [] then ''UNKNOWN''
           else equalAliasLoop (toLowerCase (trim l)) (aliasPairs SWEDISH_FUEL_MAP)))"

subsection \<open>China: the first alias contained in the label\<close>

definition CHINESE_FUEL_MAP :: fuel_table where
  "CHINESE_FUEL_MAP =
     [(''BEV'', [[CHR 0xE7, CHR 0xBA, CHR 0xAF, CHR 0xE7, CHR 0x94, CHR 0xB5, CHR 0xE5, CHR 0x8A, CHR 0xA8],
                 [CHR 0xE7, CHR 0xBA, CHR 0xAF, CHR 0xE7, CHR 0x94, CHR 0xB5, CHR 0xE5, CHR 0x8A, CHR 0xA8,
                  CHR 0xE6, CHR 0xB1, CHR 0xBD, CHR 0xE8, CHR 0xBD, CHR 0xA6],
                 ''BEV'']),
      (''PHEV'', [[CHR 0xE6, CHR 0x8F, CHR 0x92, CHR 0xE7, CHR 0x94, CHR 0xB5, CHR 0xE5, CHR 0xBC, CHR 0x8F,
                   CHR 0xE6, CHR 0xB7, CHR 0xB7, CHR 0xE5, CHR 0x90, CHR 0x88, CHR 0xE5, CHR 0x8A, CHR 0xA8,
                   CHR 0xE5, CHR 0x8A, CHR 0x9B],
                  [CHR 0xE6, CHR 0x8F, CHR 0x92, CHR 0xE7, CHR 0x94, CHR 0xB5, CHR 0xE5, CHR 0xBC, CHR 0x8F,
                   CHR 0xE6, CHR 0xB7, CHR 0xB7, CHR 0xE5, CHR 0x90, CHR 0x88, CHR 0xE5, CHR 0x8A, CHR 0xA8,
                   CHR 0xE5, CHR 0x8A, CHR 0x9B, CHR 0xE6, CHR 0xB1, CHR 0xBD, CHR 0xE8, CHR 0xBD, CHR 0xA6],
                  ''PHEV'']),
      (''FCEV'', [[CHR 0xE7, CHR 0x87, CHR 0x83, CHR 0xE6, CHR 0x96, CHR 0x99, CHR 0xE7, CHR 0x94, CHR 0xB5,
                   CHR 0xE6, CHR 0xB1, CHR 0xA0],
                  [CHR 0xE7, CHR 0x87, CHR 0x83, CHR 0xE6, CHR 0x96, CHR 0x99, CHR 0xE7, CHR 0x94, CHR 0xB5,
                   CHR 0xE6, CHR 0xB1, CHR 0xA0, CHR 0xE6, CHR 0xB1, CHR 0xBD, CHR 0xE8, CHR 0xBD, CHR 0xA6],
                  ''FCEV'']),
      (''HYBRID'', [[CHR 0xE6, CHR 0xB7, CHR 0xB7, CHR 0xE5, CHR 0x90, CHR 0x88, CHR 0xE5, CHR 0x8A, CHR 0xA8,
                     CHR 0xE5, CHR 0x8A, CHR 0x9B],
                    ''HEV'']),
      (''GASOLINE'', [[CHR 0xE6, CHR 0xB1, CHR 0xBD, CHR 0xE6, CHR 0xB2, CHR 0xB9],
                      [CHR 0xE6, CHR 0xB1, CHR 0xBD, CHR 0xE6, CHR 0xB2, CHR 0xB9, CHR 0xE8, CHR 0xBD, CHR 0xA6]]),
      (''DIESEL'', [[CHR 0xE6, CHR 0x9F, CHR 0xB4, CHR 0xE6, CHR 0xB2, CHR 0xB9],
                    [CHR 0xE6, CHR 0x9F, CHR 0xB4, CHR 0xE6, CHR 0xB2, CHR 0xB9, CHR 0xE8, CHR 0xBD, CHR 0xA6]])]"

fun includedAliasLoop :: "string \<Rightarrow> (string \<times> string) list \<Rightarrow> string" where
  "includedAliasLoop clean [] = ''OTHER''"
| "includedAliasLoop clean ((code, alias) # rest) =
     (if str_includes clean alias then code else includedAliasLoop clean rest)"

definition normalizeChineseFuel :: "string option \<Rightarrow> string" where
  "normalizeChineseFuel label =
     (case label of
        None \<Rightarrow> ''UNKNOWN''
      | Some l \<Rightarrow>
          (if l = [] then ''UNKNOWN''
           else includedAliasLoop (trim l) (aliasPairs CHINESE_FUEL_MAP)))"

subsection \<open>Netherlands and Norway: a key of an object literal\<close>

definition dutchMapping :: "string js_object" where
  "dutchMapping =
     [(''Elektriciteit'', ''BEV''), (''Benzine'', ''GASOLINE''), (''Diesel'', ''DIESEL''),
      (''LPG'', ''LPG_CNG_OTHER''), (''CNG'', ''LPG_CNG_OTHER''), (''LNG'', ''LPG_CNG_OTHER''),
      (''Waterstof'', ''LPG_CNG_OTHER''), (''Alcohol'', ''LPG_CNG_OTHER'')]"

text \<open>An absent argument reads the key \<open>undefined\<close>.\<close>

definition keyOfArgument :: "string option \<Rightarrow> string" where
  "keyOfArgument a = (case a of None \<Rightarrow> ''undefined'' | Some k \<Rightarrow> k)"

definition mapFuelType_NL :: "string option \<Rightarrow> js_member" where
  "mapFuelType_NL brandstof = lookupOr dutchMapping (keyOfArgument brandstof) ''OTHER''"

definition norwegianMapping :: "string js_object" where
  "norwegianMapping = [(''19'', ''BEV''), (''20'', ''FOSSIL''), (''21'', ''HYBRID''), (''6'', ''OTHER'')]"

definition mapFuelType_NO :: "string option \<Rightarrow> js_member" where
  "mapFuelType_NO code = lookupOr norwegianMapping (keyOfArgument code) ''UNKNOWN''"

section \<open>Canonical record files and the store\<close>

text \<open>
  A record file is the object handed to \<open>JSON.stringify\<close>. The fields \<open>region\<close> and
  \<open>type\<close> are optional here because one writer leaves them out.
\<close>

record fuel_entry =
  marque :: string
  modele :: string
  total :: int
  energie :: string

record record_file =
  rec_year :: int
  rec_month :: int
  rec_data :: "fuel_entry list"
  rec_region :: "string option"
  rec_type :: "string option"

text \<open>
  The store is the \<open>data\<close> directory: a file is addressed by the country code of its
  directory \<open>data/<country>/ev\<close> and by its file name.
\<close>

type_synonym store = "string \<times> string \<Rightarrow> record_file option"

definition existsSync :: "store \<Rightarrow> string \<Rightarrow> string \<Rightarrow> bool" where
  "existsSync st outDir fileName = (st (outDir, fileName) \<noteq> None)"

definition writeFileSync :: "store \<Rightarrow> string \<Rightarrow> string \<Rightarrow> record_file \<Rightarrow> store" where
  "writeFileSync st outDir fileName content = st((outDir, fileName) \<mapsto> content)"

definition defaultFileNamer :: "month_info \<Rightarrow> string" where
  "defaultFileNamer m = m_code m @ ''.json''"

text \<open>
  A call returns or throws. \<open>ensureDir\<close> of util.js creates the directory when it is
  missing, and \<open>fs.mkdirSync\<close> throws when it cannot: \<open>disk dir\<close> tells whether the
  directory \<open>data/<dir>/ev\<close> exists or can be created. A write into a directory that
  exists is taken to succeed.
\<close>

datatype outcome = Returned | Threw

type_synonym disk = "string \<Rightarrow> bool"

definition ensureDir :: "disk \<Rightarrow> string \<Rightarrow> outcome" where
  "ensureDir disk dirPath = (if disk dirPath then Returned else Threw)"

text \<open>\<open>filterMissingMonths\<close> calls \<open>ensureDir\<close> first; \<open>None\<close> when that call throws.\<close>

definition filterMissingMonths ::
  "disk \<Rightarrow> month_info list \<Rightarrow> string \<Rightarrow> (month_info \<Rightarrow> string) \<Rightarrow> store \<Rightarrow> month_info list option" where
  "filterMissingMonths disk months outDir fileNamer st =
     (case ensureDir disk outDir of
        Threw \<Rightarrow> None
      | Returned \<Rightarrow> Some (filter (\<lambda>m. \<not> existsSync st outDir (fileNamer m)) months))"

section \<open>Spreadsheet extraction (fetchAndProcessExcel)\<close>

text \<open>
  \<open>sheet_to_json(ws, {header: 1})\<close> gives each row as an array of cells: a string, a
  number, or a hole. Reading past the end of a row gives \<open>undefined\<close>, a hole as well.
\<close>

datatype cell = CStr string | CNum int | CEmpty

definition cellAt :: "cell list \<Rightarrow> nat \<Rightarrow> cell" where
  "cellAt row j = (if j < length row then row ! j else CEmpty)"

definition cellTruthy :: "cell \<Rightarrow> bool" where
  "cellTruthy c = (case c of CStr s \<Rightarrow> s \<noteq> [] | CNum n \<Rightarrow> n \<noteq> 0 | CEmpty \<Rightarrow> False)"

definition cellToString :: "cell \<Rightarrow> string" where
  "cellToString c = (case c of CStr s \<Rightarrow> s | CNum n \<Rightarrow> string_of_int n | CEmpty \<Rightarrow> ''undefined'')"

text \<open>\<open>parseInt(cell, 10) || 0\<close>.\<close>

definition cellParseIntOr0 :: "cell \<Rightarrow> int" where
  "cellParseIntOr0 c = (case parseInt (cellToString c) of None \<Rightarrow> 0 | Some n \<Rightarrow> n)"

definition hasFuelRef_FR :: "cell list \<Rightarrow> bool" where
  "hasFuelRef_FR row =
     list_ex (\<lambda>c. case c of
                 CStr s \<Rightarrow> s \<noteq> [] \<and> (str_includes (toLowerCase s) ''gazole''
                                     \<or> str_includes (toLowerCase s) ''essence''
                                     \<or> str_includes (toLowerCase s) ''electrique'')
               | _ \<Rightarrow> False) row"

definition hasFuelRef_CN :: "cell list \<Rightarrow> bool" where
  "hasFuelRef_CN row =
     list_ex (\<lambda>c. case c of
                 CStr s \<Rightarrow> s \<noteq> [] \<and> normalizeChineseFuel (Some s) \<noteq> ''OTHER''
                                 \<and> normalizeChineseFuel (Some s) \<noteq> ''UNKNOWN''
               | _ \<Rightarrow> False) row"

text \<open>The index of the first row that refers to a fuel, or \<open>-1\<close>, here \<open>None\<close>.\<close>

fun findHeaderFrom :: "(cell list \<Rightarrow> bool) \<Rightarrow> cell list list \<Rightarrow> nat \<Rightarrow> nat option" where
  "findHeaderFrom hasFuelRef [] i = None"
| "findHeaderFrom hasFuelRef (row # rows) i =
     (if hasFuelRef row then Some i else findHeaderFrom hasFuelRef rows (Suc i))"

text \<open>\<open>colMapping\<close>: the columns of the header row whose text normalizes to a fuel code.\<close>

definition headerColMapping :: "(string option \<Rightarrow> string) \<Rightarrow> cell list \<Rightarrow> (nat \<times> string) list" where
  "headerColMapping normalizer row =
     List.map_filter
       (\<lambda>j. case row ! j of
               CStr s \<Rightarrow> (let fuelCode = normalizer (Some s)
                          in if fuelCode \<noteq> ''OTHER'' \<and> fuelCode \<noteq> ''UNKNOWN''
                             then Some (j, fuelCode) else None)
             | _ \<Rightarrow> None)
       [0 ..< length row]"

text \<open>\<open>/^\d{4}_\d{2}$/\<close> and \<open>/^\d{4}[-\/]\d{2}$/\<close>.\<close>

definition isPeriod :: "string \<Rightarrow> string \<Rightarrow> bool" where
  "isPeriod separators s =
     (length s = 7 \<and> list_all isDigit (take 4 s) \<and> s ! 4 \<in> set separators
      \<and> list_all isDigit (drop 5 s))"

text \<open>
  The totals of one data row by fuel code: a value that is not positive is skipped,
  and two columns with one code are added up.
\<close>

fun aggregateColumns :: "(nat \<times> string) list \<Rightarrow> cell list \<Rightarrow> int js_object \<Rightarrow> int js_object" where
  "aggregateColumns [] row aggregated = aggregated"
| "aggregateColumns ((colIdx, fuelCode) # rest) row aggregated =
     (let val = cellParseIntOr0 (cellAt row colIdx)
      in if val > 0
         then aggregateColumns rest row
                (objPut aggregated fuelCode
                   ((case map_of aggregated fuelCode of None \<Rightarrow> 0 | Some t \<Rightarrow> t) + val))
         else aggregateColumns rest row aggregated)"

definition entriesOf :: "string \<Rightarrow> string \<Rightarrow> int js_object \<Rightarrow> fuel_entry list" where
  "entriesOf brand model totals =
     map (\<lambda>(fuelCode, t). \<lparr>marque = brand, modele = model, total = t, energie = fuelCode\<rparr>)
       (objectEntries totals)"

record sheet_layout =
  hasFuelRef :: "cell list \<Rightarrow> bool"
  normalizeHeader :: "string option \<Rightarrow> string"
  separators :: string
  brandText :: string
  modelText :: string
  regionCode :: string

text \<open>One iteration of the loop over the rows below the header.\<close>

definition processDataRow :: "sheet_layout \<Rightarrow> (nat \<times> string) list \<Rightarrow> bool \<Rightarrow> cell list \<Rightarrow> store \<Rightarrow> store" where
  "processDataRow layout colMapping colDateFound row st =
     (if \<not> colDateFound \<or> \<not> cellTruthy (cellAt row 0) then st
      else let dateStr = trim (cellToString (cellAt row 0))
           in if \<not> isPeriod (separators layout) dateStr then st
              else let yStr = take 4 dateStr;
                       mStr = drop 5 dateStr;
                       yearNum = (case parseInt yStr of Some n \<Rightarrow> n | None \<Rightarrow> 0);
                       monthNum = (case parseInt mStr of Some n \<Rightarrow> n | None \<Rightarrow> 0);
                       entries = entriesOf (brandText layout) (modelText layout)
                                   (aggregateColumns colMapping row []);
                       fileName = string_of_int yearNum @ ''-'' @ mStr @ ''.json''
                   in if entries = [] then st
                      else if existsSync st (regionCode layout) fileName then st
                      else writeFileSync st (regionCode layout) fileName
                             \<lparr>rec_year = yearNum, rec_month = monthNum, rec_data = entries,
                              rec_region = Some (regionCode layout), rec_type = Some ''all''\<rparr>)"

definition processSheet :: "sheet_layout \<Rightarrow> cell list list \<Rightarrow> store \<Rightarrow> store" where
  "processSheet layout rows st =
     (case findHeaderFrom (hasFuelRef layout) rows 0 of
        None \<Rightarrow> st
      | Some headerIndex \<Rightarrow>
          (let header = rows ! headerIndex;
               colMapping = headerColMapping (normalizeHeader layout) header;
               colDateFound = (map_of colMapping 0 = None)
           in fold (processDataRow layout colMapping colDateFound) (drop (Suc headerIndex) rows) st))"

definition frenchLayout :: sheet_layout where
  "frenchLayout =
     \<lparr>hasFuelRef = hasFuelRef_FR, normalizeHeader = normalizeFrenchFuel, separators = ''_'',
      brandText = ''Toutes marques'', modelText = ''Tous mod'' @ [CHR 0xC3, CHR 0xA8] @ ''les'',
      regionCode = ''FR''\<rparr>"

definition chineseLayout :: sheet_layout where
  "chineseLayout =
     \<lparr>hasFuelRef = hasFuelRef_CN, normalizeHeader = normalizeChineseFuel, separators = ''-/'',
      brandText = [CHR 0xE6, CHR 0x89, CHR 0x80, CHR 0xE6, CHR 0x9C, CHR 0x89, CHR 0xE5, CHR 0x93,
                   CHR 0x81, CHR 0xE7, CHR 0x89, CHR 0x8C],
      modelText = [CHR 0xE6, CHR 0x89, CHR 0x80, CHR 0xE6, CHR 0x9C, CHR 0x89, CHR 0xE8, CHR 0xBD,
                   CHR 0xA6, CHR 0xE5, CHR 0x9E, CHR 0x8B],
      regionCode = ''CN''\<rparr>"

text \<open>
  What the network gave \<open>fetchAndProcessExcel\<close> of FR.js, step by step: no statistics
  page found, the page could not be fetched, no download link on it, the workbook
  could not be fetched, or the rows of its first sheet. A failed \<open>fetchFile\<close> rejects,
  and nothing in the function or in \<open>fetchAllEVData\<close> catches it.
\<close>

datatype excel_source = NoPage | PageFetchFails | NoLink | WorkbookFetchFails | Sheet "cell list list"

definition fetchAllEVData_FR :: "excel_source \<Rightarrow> store \<Rightarrow> outcome \<times> store" where
  "fetchAllEVData_FR src st =
     (case src of
        NoPage \<Rightarrow> (Returned, st)
      | PageFetchFails \<Rightarrow> (Threw, st)
      | NoLink \<Rightarrow> (Returned, st)
      | WorkbookFetchFails \<Rightarrow> (Threw, st)
      | Sheet rows \<Rightarrow> (Returned, processSheet frenchLayout rows st))"

section \<open>ACEA press-release PDFs\<close>

text \<open>
  \<open>page.getTextContent()\<close> gives the text fragments of a page with their transforms;
  \<open>item_x\<close> is \<open>transform[4]\<close> and \<open>item_y\<close> is \<open>transform[5]\<close>. A document is the
  list of its pages.
\<close>

record text_item =
  item_str :: string
  item_x :: rat
  item_y :: rat

type_synonym pdf = "text_item list list"

definition countryNames :: "(string \<times> string list) list" where
  "countryNames =
     [(''FR'', [''France'', ''FRANCE'']),
      (''DE'', [''Germany'', ''GERMANY'', ''Deutschland'']),
      (''ES'', [''Spain'', ''SPAIN'', ''Espa'' @ [CHR 0xC3, CHR 0xB1] @ ''a'', ''Espana'']),
      (''IT'', [''Italy'', ''ITALY'', ''Italia'']),
      (''NL'', [''Netherlands'', ''NETHERLANDS'', ''Nederland'', ''The Netherlands'']),
      (''BE'', [''Belgium'', ''BELGIUM'', ''Belgique'', ''Belgi'' @ [CHR 0xC3, CHR 0xAB]]),
      (''PT'', [''Portugal'', ''PORTUGAL'']),
      (''SE'', [''Sweden'', ''SWEDEN'', ''Sverige'']),
      (''NO'', [''Norway'', ''NORWAY'', ''Norge'']),
      (''PL'', [''Poland'', ''POLAND'', ''Polska'']),
      (''AT'', [''Austria'', ''AUSTRIA'', [CHR 0xC3, CHR 0x96] @ ''sterreich'', ''Osterreich'']),
      (''DK'', [''Denmark'', ''DENMARK'', ''Danmark'']),
      (''FI'', [''Finland'', ''FINLAND'', ''Suomi'']),
      (''IE'', [''Ireland'', ''IRELAND'']),
      (''GR'', [''Greece'', ''GREECE'']),
      (''CZ'', [''Czech Republic'', ''CZECH REPUBLIC'', ''Czechia'']),
      (''RO'', [''Romania'', ''ROMANIA'']),
      (''HU'', [''Hungary'', ''HUNGARY'']),
      (''SK'', [''Slovakia'', ''SLOVAKIA'']),
      (''BG'', [''Bulgaria'', ''BULGARIA'']),
      (''HR'', [''Croatia'', ''CROATIA'']),
      (''LT'', [''Lithuania'', ''LITHUANIA'']),
      (''LV'', [''Latvia'', ''LATVIA'']),
      (''EE'', [''Estonia'', ''ESTONIA'']),
      (''SI'', [''Slovenia'', ''SLOVENIA''])]"

text \<open>\<open>countryNames[countryCode] || [countryCode]\<close>.\<close>

definition countryVariations :: "string \<Rightarrow> string list" where
  "countryVariations countryCode =
     (case map_of countryNames countryCode of Some names \<Rightarrow> names | None \<Rightarrow> [countryCode])"

datatype pdf_error = CountryNotFound string | InsufficientData string nat

text \<open>\<open>numbers[i] || 0\<close>: an index past the end reads \<open>undefined\<close>.\<close>

definition numberAt :: "int list \<Rightarrow> nat \<Rightarrow> int" where
  "numberAt numbers i = (if i < length numbers then numbers ! i else 0)"

definition sixEntries :: "int \<Rightarrow> int \<Rightarrow> int \<Rightarrow> int \<Rightarrow> int \<Rightarrow> int \<Rightarrow> (string \<times> int) list" where
  "sixEntries bev phev hybrid diesel gasoline other =
     [(''BEV'', bev), (''PHEV'', phev), (''HYBRID'', hybrid), (''DIESEL'', diesel),
      (''GASOLINE'', gasoline), (''OTHER'', other)]"

subsection \<open>The extractor that works on coordinates (ACEA part of scripts/parsers/FR.js)\<close>

text \<open>\<open>Math.round\<close> rounds a half upwards.\<close>

definition mathRound :: "rat \<Rightarrow> int" where
  "mathRound v = \<lfloor>v + 1 / 2\<rfloor>"

text \<open>
  \<open>rowMap\<close>: the fragments whose text is not blank, grouped by their rounded
  \<open>y\<close>, the rows in the order of their first fragment.
\<close>

fun rowMapPush :: "(int \<times> (string \<times> rat) list) list \<Rightarrow> int \<Rightarrow> string \<times> rat \<Rightarrow> (int \<times> (string \<times> rat) list) list" where
  "rowMapPush [] yKey it = [(yKey, [it])]"
| "rowMapPush ((k, its) # rest) yKey it =
     (if k = yKey then (k, its @ [it]) # rest else (k, its) # rowMapPush rest yKey it)"

definition buildRowMap :: "text_item list \<Rightarrow> (int \<times> (string \<times> rat) list) list" where
  "buildRowMap items =
     foldl (\<lambda>rowMap item.
              let text = trim (item_str item)
              in if text = [] then rowMap
                 else rowMapPush rowMap (mathRound (item_y item)) (text, item_x item))
       [] items"

fun joinWith :: "string \<Rightarrow> string list \<Rightarrow> string" where
  "joinWith sep [] = []"
| "joinWith sep [s] = s"
| "joinWith sep (s # t # rest) = s @ sep @ joinWith sep (t # rest)"

definition removeCommas :: "string \<Rightarrow> string" where
  "removeCommas s = filter (\<lambda>c. c \<noteq> CHR '','') s"

definition hasSignOrPercent :: "string \<Rightarrow> bool" where
  "hasSignOrPercent text = (CHR ''+'' \<in> set text \<or> CHR ''-'' \<in> set text \<or> CHR ''%'' \<in> set text)"

text \<open>A token that counts as a number without sign: \<open>!isNaN(num) && num >= 0\<close>.\<close>

definition unsignedNumber :: "string \<Rightarrow> int option" where
  "unsignedNumber text =
     (case parseInt (removeCommas text) of
        Some num \<Rightarrow> (if num \<ge> 0 then Some num else None)
      | None \<Rightarrow> None)"

definition isDataRow :: "(string \<times> rat) list \<Rightarrow> bool" where
  "isDataRow items =
     (length (filter (\<lambda>it. \<not> hasSignOrPercent (fst it) \<and> unsignedNumber (fst it) \<noteq> None) items) \<ge> 4)"

text \<open>
  The rows of a page in the order of \<open>rowMap\<close>, each sorted from left to right; the
  country row is the first row whose text contains a name of the country and that
  is a data row.
\<close>

definition sortedRows :: "text_item list \<Rightarrow> (string \<times> rat) list list" where
  "sortedRows items = map (\<lambda>(k, its). sort_key snd its) (buildRowMap items)"

definition isCountryRow :: "string list \<Rightarrow> (string \<times> rat) list \<Rightarrow> bool" where
  "isCountryRow names items =
     (let rowText = joinWith '' '' (map fst items)
      in list_ex (\<lambda>name. str_includes rowText name \<and> isDataRow items) names)"

definition findCountryRow :: "pdf \<Rightarrow> string list \<Rightarrow> (string \<times> rat) list option" where
  "findCountryRow pages names = List.find (isCountryRow names) (concat (map sortedRows pages))"

text \<open>
  The dash glyphs of \<open>/^[...]+$/\<close> (U+2013, U+2014, U+2212, U+2010, U+2011, U+2012,
  U+2015, U+2043, U+A7F7), each three bytes long in UTF-8.
\<close>

definition dashGlyphs :: "string list" where
  "dashGlyphs =
     [[CHR 0xE2, CHR 0x80, CHR 0x93], [CHR 0xE2, CHR 0x80, CHR 0x94], [CHR 0xE2, CHR 0x88, CHR 0x92],
      [CHR 0xE2, CHR 0x80, CHR 0x90], [CHR 0xE2, CHR 0x80, CHR 0x91], [CHR 0xE2, CHR 0x80, CHR 0x92],
      [CHR 0xE2, CHR 0x80, CHR 0x95], [CHR 0xE2, CHR 0x81, CHR 0x83], [CHR 0xEA, CHR 0x9F, CHR 0xB7]]"

fun isDashRun :: "string \<Rightarrow> bool" where
  "isDashRun (a # b # c # rest) = ([a, b, c] \<in> set dashGlyphs \<and> (rest = [] \<or> isDashRun rest))"
| "isDashRun _ = False"

definition rowNumbers :: "string list \<Rightarrow> (string \<times> rat) list \<Rightarrow> int list" where
  "rowNumbers names countryRow =
     List.map_filter
       (\<lambda>it. let text = fst it
             in if list_ex (\<lambda>name. str_includes text name) names then None
                else if hasSignOrPercent text then None
                else if isDashRun text then None
                else unsignedNumber text)
       countryRow"

text \<open>
  The slots by position. With fewer than 14 numbers the hybrid pair is taken to be
  missing, and the later pairs are read two places earlier.
\<close>

definition assignSlots :: "int list \<Rightarrow> (string \<times> int) list" where
  "assignSlots numbers =
     (let hasHybridData = (length numbers \<ge> 14)
      in if hasHybridData
         then sixEntries (numberAt numbers 0) (numberAt numbers 2) (numberAt numbers 4)
                (numberAt numbers 10) (numberAt numbers 8) (numberAt numbers 6)
         else sixEntries (numberAt numbers 0) (numberAt numbers 2) 0
                (numberAt numbers 8) (numberAt numbers 6) (numberAt numbers 4))"

definition parsePdfData :: "pdf \<Rightarrow> string \<Rightarrow> pdf_error + (string \<times> int) list" where
  "parsePdfData pages countryCode =
     (let names = countryVariations countryCode
      in case findCountryRow pages names of
           None \<Rightarrow> Inl (CountryNotFound countryCode)
         | Some countryRow \<Rightarrow>
             (let numbers = rowNumbers names countryRow
              in if length numbers < 6 then Inl (InsufficientData countryCode (length numbers))
                 else Inr (assignSlots numbers)))"

subsection \<open>The extractor that works on the joined text (src/unnamed/part\_006)\<close>

text \<open>The text of the document: the fragments of each page joined by blanks, a blank after each page.\<close>

definition pdfText :: "pdf \<Rightarrow> string" where
  "pdfText pages = concat (map (\<lambda>items. joinWith '' '' (map item_str items) @ '' '') pages)"

fun indexOfFrom :: "string \<Rightarrow> string \<Rightarrow> nat \<Rightarrow> nat option" where
  "indexOfFrom [] t i = (if t = [] then Some i else None)"
| "indexOfFrom (c # cs) t i = (if startsWith (c # cs) t then Some i else indexOfFrom cs t (Suc i))"

text \<open>The position of the first name, in the order of the list, that the text contains.\<close>

fun firstNameIndex :: "string \<Rightarrow> string list \<Rightarrow> nat option" where
  "firstNameIndex text [] = None"
| "firstNameIndex text (name # names) =
     (case indexOfFrom text name 0 of Some idx \<Rightarrow> Some idx | None \<Rightarrow> firstNameIndex text names)"

text \<open>
  One match of \<open>/[+\-]?\s*\d{1,3}(?:,\d{3})*(?:\.\d+)?/\<close> at the start of a string:
  a sign, blanks, one to three digits, groups of a comma and three digits, and a
  decimal part. Every part after the first digit is optional and greedy, so the
  match never backtracks once a digit is found.
\<close>

fun commaGroups :: "nat \<Rightarrow> string \<Rightarrow> string" where
  "commaGroups 0 s = []"
| "commaGroups (Suc fuel) s =
     (if length s \<ge> 4 \<and> hd s = CHR '','' \<and> list_all isDigit (take 3 (tl s))
      then take 4 s @ commaGroups fuel (drop 4 s) else [])"

definition decimalPart :: "string \<Rightarrow> string" where
  "decimalPart s =
     (if length s \<ge> 2 \<and> hd s = CHR ''.'' \<and> isDigit (s ! 1)
      then CHR ''.'' # takeWhile isDigit (tl s) else [])"

definition numberMatchAt :: "string \<Rightarrow> string option" where
  "numberMatchAt s =
     (let sign = (if s \<noteq> [] \<and> (hd s = CHR ''+'' \<or> hd s = CHR ''-'') then [hd s] else []);
          afterSign = drop (length sign) s;
          blanks = takeWhile isSpace afterSign;
          afterBlanks = drop (length blanks) afterSign;
          digits = take 3 (takeWhile isDigit afterBlanks)
      in if digits = [] then None
         else (let afterDigits = drop (length digits) afterBlanks;
                   groups = commaGroups (length afterDigits) afterDigits;
                   afterGroups = drop (length groups) afterDigits
               in Some (sign @ blanks @ digits @ groups @ decimalPart afterGroups)))"

text \<open>\<open>text.match(pattern)\<close> with the flag \<open>g\<close>: all matches from left to right, without overlap.\<close>

function numberMatches :: "string \<Rightarrow> string list" where
  "numberMatches [] = []"
| "numberMatches (c # cs) =
     (case numberMatchAt (c # cs) of
        None \<Rightarrow> numberMatches cs
      | Some m \<Rightarrow> m # numberMatches (drop (max 1 (length m)) (c # cs)))"
  by pat_completeness auto
termination
  by (relation "measure length") auto

definition stripNumber :: "string \<Rightarrow> string" where
  "stripNumber m = filter (\<lambda>c. c \<noteq> CHR ''+'' \<and> c \<noteq> CHR ''-'' \<and> c \<noteq> CHR '','' \<and> \<not> isSpace c) m"

definition textNumbers :: "string \<Rightarrow> int list" where
  "textNumbers contextText =
     List.map_filter (\<lambda>m. parseInt (stripNumber m))
       (filter (\<lambda>m. CHR ''.'' \<notin> set m) (numberMatches contextText))"

text \<open>The slots by position, always at the even places 0 to 10.\<close>

definition assignSlots_text :: "int list \<Rightarrow> (string \<times> int) list" where
  "assignSlots_text numbers =
     sixEntries (numberAt numbers 0) (numberAt numbers 2) (numberAt numbers 4)
       (numberAt numbers 10) (numberAt numbers 8) (numberAt numbers 6)"

definition parsePdfData_text :: "pdf \<Rightarrow> string \<Rightarrow> pdf_error + (string \<times> int) list" where
  "parsePdfData_text pages countryCode =
     (let text = pdfText pages
      in case firstNameIndex text (countryVariations countryCode) of
           None \<Rightarrow> Inl (CountryNotFound countryCode)
         | Some countryIndex \<Rightarrow>
             (let contextText = take 500 (drop countryIndex text);
                  numbers = textNumbers contextText
              in if length numbers < 12 then Inl (InsufficientData countryCode (length numbers))
                 else Inr (assignSlots_text numbers)))"

subsection \<open>Processing a month and collecting a country\<close>

text \<open>
  \<open>fetchAceaPdf\<close> tries its URL patterns and throws when none answers; \<open>acea_fetch\<close>
  gives the document of a month, or \<open>None\<close> for that failure. \<open>processAceaMonth\<close>
  catches every error and writes the file without a check for an existing one.
\<close>

type_synonym acea_fetch = "int \<Rightarrow> int \<Rightarrow> pdf option"

definition aceaOutput :: "int \<Rightarrow> int \<Rightarrow> (string \<times> int) list \<Rightarrow> record_file" where
  "aceaOutput yearNum monthNum rawData =
     \<lparr>rec_year = yearNum, rec_month = monthNum,
      rec_data = map (\<lambda>(fuel, t). \<lparr>marque = ''Toutes marques'',
                                   modele = ''Tous mod'' @ [CHR 0xC3, CHR 0xA8] @ ''les'',
                                   total = t, energie = fuel\<rparr>) rawData,
      rec_region = None, rec_type = None\<rparr>"

definition processAceaMonth ::
  "(pdf \<Rightarrow> string \<Rightarrow> pdf_error + (string \<times> int) list) \<Rightarrow> acea_fetch \<Rightarrow>
   int \<Rightarrow> int \<Rightarrow> string \<Rightarrow> string \<Rightarrow> store \<Rightarrow> store" where
  "processAceaMonth parser fetchAceaPdf yearNum monthNum countryCode outDir st =
     (let monthCode = monthCode yearNum monthNum
      in case fetchAceaPdf yearNum monthNum of
           None \<Rightarrow> st
         | Some pdfBuffer \<Rightarrow>
             (case parser pdfBuffer countryCode of
                Inl err \<Rightarrow> st
              | Inr rawData \<Rightarrow>
                  writeFileSync st outDir (monthCode @ ''.json'')
                    (aceaOutput yearNum monthNum rawData)))"

text \<open>
  \<open>collectAceaData\<close> calls \<open>ensureDir\<close> and \<open>filterMissingMonths\<close> before its loop and
  outside any \<open>try\<close>; \<open>processAceaMonth\<close> catches what happens inside a month.
\<close>

definition collectAceaData ::
  "disk \<Rightarrow> (pdf \<Rightarrow> string \<Rightarrow> pdf_error + (string \<times> int) list) \<Rightarrow> acea_fetch \<Rightarrow> wall_clock \<Rightarrow>
   string \<Rightarrow> int \<Rightarrow> store \<Rightarrow> outcome \<times> store" where
  "collectAceaData disk parser fetchAceaPdf now countryCode startYear st =
     (let outDir = countryCode
      in case ensureDir disk outDir of
           Threw \<Rightarrow> (Threw, st)
         | Returned \<Rightarrow>
             (let allMonths = getMonthsSinceStart now startYear
              in case filterMissingMonths disk allMonths outDir defaultFileNamer st of
                   None \<Rightarrow> (Threw, st)
                 | Some missingMonths \<Rightarrow>
                     (Returned,
                      fold (\<lambda>m. processAceaMonth parser fetchAceaPdf (m_year m) (m_month m)
                                   countryCode outDir)
                        missingMonths st)))"

section \<open>Example documents\<close>

text \<open>
  The sheet of the specification's extraction example, and the same sheet with the
  diesel column under the header that \<open>FRENCH_FUEL_MAP\<close> registers.
\<close>

definition exampleSheet :: "cell list list" where
  "exampleSheet =
     [[CStr ''Period'', CStr ''Gazole'', CStr ''Essence'', CStr ''Electrique''],
      [CStr ''2023_05'', CStr ''100'', CStr ''50'', CStr ''25'']]"

definition exampleSheetRegistered :: "cell list list" where
  "exampleSheetRegistered =
     [[CStr ''Period'', CStr ''Gazole (thermique)'', CStr ''Essence'', CStr ''Electrique''],
      [CStr ''2023_05'', CStr ''100'', CStr ''50'', CStr ''25'']]"

text \<open>
  A row of the ACEA table as one line of fragments, from left to right: the country,
  then for BEV, PHEV, HEV, others, petrol, diesel and the total the current value, the
  previous value and the change in percent. In the degraded row the three
  fragments of the hybrid columns are en dashes.
\<close>

definition lineOfFragments :: "string list \<Rightarrow> text_item list" where
  "lineOfFragments texts =
     map (\<lambda>(i, t). \<lparr>item_str = t, item_x = of_nat i * 40, item_y = 500\<rparr>) (enumerate 0 texts)"

definition enDash :: string where
  "enDash = [CHR 0xE2, CHR 0x80, CHR 0x93]"

definition fullRowExample :: pdf where
  "fullRowExample =
     [lineOfFragments
        [''France'', ''25,000'', ''20,000'', ''+25.0'', ''9,000'', ''10,000'', ''-10.0'',
         ''40,000'', ''35,000'', ''+14.3'', ''3,000'', ''2,500'', ''+20.0'',
         ''30,000'', ''38,000'', ''-21.1'', ''8,000'', ''12,000'', ''-33.3'',
         ''115,000'', ''117,500'', ''-2.1'']]"

definition degradedRowExample :: pdf where
  "degradedRowExample =
     [lineOfFragments
        [''France'', ''25,000'', ''20,000'', ''+25.0'', ''9,000'', ''10,000'', ''-10.0'',
         enDash, enDash, enDash, ''3,000'', ''2,500'', ''+20.0'',
         ''30,000'', ''38,000'', ''-21.1'', ''8,000'', ''12,000'', ''-33.3'',
         ''75,000'', ''82,500'', ''-9.1'']]"

definition exampleSheetZero :: "cell list list" where
  "exampleSheetZero =
     [[CStr ''Period'', CStr ''Diesel'', CStr ''Essence'', CStr ''Electrique''],
      [CStr ''2023_05'', CStr ''100'', CStr ''0'', CStr ''25'']]"

text \<open>The entries of a record file as pairs of fuel code and total.\<close>

definition fuelTotals :: "record_file \<Rightarrow> (string \<times> int) list" where
  "fuelTotals f = map (\<lambda>e. (energie e, total e)) (rec_data f)"

section \<open>The two shapes of a write\<close>

text \<open>
  Every writer in the scripts has one of two shapes. \<open>writeStep\<close>: the file of an item
  is written without a check, or nothing happens when the item gave no data; the
  items were filtered by \<open>filterMissingMonths\<close> before. \<open>writeIfAbsent\<close>: the file
  is written only after \<open>fs.existsSync\<close> said that it is not there.
\<close>

definition writeStep :: "('m \<Rightarrow> 'v option) \<Rightarrow> ('m \<Rightarrow> 'k) \<Rightarrow> 'm \<Rightarrow> ('k \<Rightarrow> 'v option) \<Rightarrow> 'k \<Rightarrow> 'v option" where
  "writeStep f key m st = (case f m of None \<Rightarrow> st | Some v \<Rightarrow> st(key m \<mapsto> v))"

definition writeIfAbsent :: "('r \<Rightarrow> ('k \<times> 'v) option) \<Rightarrow> 'r \<Rightarrow> ('k \<Rightarrow> 'v option) \<Rightarrow> 'k \<Rightarrow> 'v option" where
  "writeIfAbsent g r st =
     (case g r of
        None \<Rightarrow> st
      | Some (k, v) \<Rightarrow> (if st k = None then st(k \<mapsto> v) else st))"

section \<open>Per-country collection runs\<close>

text \<open>
  A run of a parser takes the store and gives the new store and whether the function
  returned or threw. What the network answered is a parameter of each run.
\<close>

type_synonym parser_run = "store \<Rightarrow> outcome \<times> store"

subsection \<open>ACEA\<close>

text \<open>What \<open>processAceaMonth\<close> has to write for a month, if anything.\<close>

definition aceaMonthFile ::
  "(pdf \<Rightarrow> string \<Rightarrow> pdf_error + (string \<times> int) list) \<Rightarrow> acea_fetch \<Rightarrow> string \<Rightarrow> month_info \<Rightarrow> record_file option" where
  "aceaMonthFile parser fetchAceaPdf countryCode m =
     (case fetchAceaPdf (m_year m) (m_month m) of
        None \<Rightarrow> None
      | Some doc \<Rightarrow> (case parser doc countryCode of
                       Inl err \<Rightarrow> None
                     | Inr rawData \<Rightarrow> Some (aceaOutput (m_year m) (m_month m) rawData)))"

subsection \<open>Germany (KBA part of scripts/parsers/FR.js)\<close>

text \<open>
  \<open>parseKbaExcel\<close> finds the header row and the total row of the workbook and reads
  the total row with \<open>safeNumber\<close> at the columns the header gave. A reading holds
  these numbers, \<open>None\<close> where the header has no such column; the counts are whole
  numbers, so \<open>Math.round\<close> leaves the difference as it is.
\<close>

record kba_reading =
  kba_TOTAL :: "int option"
  kba_DIESEL :: "int option"
  kba_BEV :: "int option"
  kba_PHEV :: "int option"
  kba_HYBRID :: "int option"
  kba_ALL_HYBRIDS :: "int option"

definition putIfPositive :: "int js_object \<Rightarrow> string \<Rightarrow> int option \<Rightarrow> int js_object" where
  "putIfPositive fuelData name col =
     (case col of
        None \<Rightarrow> fuelData
      | Some n \<Rightarrow> (if n > 0 then objPut fuelData name n else fuelData))"

text \<open>\<open>fuelData.BEV || 0\<close>.\<close>

definition objGetOr0 :: "int js_object \<Rightarrow> string \<Rightarrow> int" where
  "objGetOr0 obj k = (case map_of obj k of Some v \<Rightarrow> v | None \<Rightarrow> 0)"

definition parseKbaTotals :: "kba_reading \<Rightarrow> int js_object" where
  "parseKbaTotals r =
     (let fuelData = putIfPositive (putIfPositive (putIfPositive (putIfPositive []
                       ''BEV'' (kba_BEV r)) ''DIESEL'' (kba_DIESEL r)) ''PHEV'' (kba_PHEV r))
                       ''HYBRID'' (kba_HYBRID r);
          totalAll = (case kba_TOTAL r of Some t \<Rightarrow> t | None \<Rightarrow> 0);
          bev = objGetOr0 fuelData ''BEV'';
          diesel = objGetOr0 fuelData ''DIESEL'';
          allHybrids = (case kba_ALL_HYBRIDS r of
                          Some a \<Rightarrow> a
                        | None \<Rightarrow> bev + diesel + objGetOr0 fuelData ''PHEV'' + objGetOr0 fuelData ''HYBRID'');
          gasoline = totalAll - diesel - allHybrids - bev
      in if gasoline > 0 then objPut fuelData ''GASOLINE'' gasoline else fuelData)"

text \<open>
  \<open>fetchMonthData\<close> tries the four URLs of the month; an entry of the list is the
  reading of one URL, \<open>None\<close> when the download failed or \<open>parseKbaExcel\<close> gave
  \<open>null\<close>. The first non-empty \<open>fuelData\<close> is returned, else \<open>null\<close>.
\<close>

type_synonym kba_fetch = "int \<Rightarrow> int \<Rightarrow> kba_reading option list"

fun firstFuelData :: "kba_reading option list \<Rightarrow> int js_object option" where
  "firstFuelData [] = None"
| "firstFuelData (None # rest) = firstFuelData rest"
| "firstFuelData (Some r # rest) =
     (if parseKbaTotals r \<noteq> [] then Some (parseKbaTotals r) else firstFuelData rest)"

definition fetchMonthData_DE :: "kba_fetch \<Rightarrow> int \<Rightarrow> int \<Rightarrow> int js_object option" where
  "fetchMonthData_DE kba yearNum monthNum = firstFuelData (kba yearNum monthNum)"

definition monthlyFile :: "string \<Rightarrow> string \<Rightarrow> string \<Rightarrow> int \<Rightarrow> int \<Rightarrow> int js_object \<Rightarrow> record_file" where
  "monthlyFile brand model reg yearNum monthNum fuelData =
     \<lparr>rec_year = yearNum, rec_month = monthNum, rec_data = entriesOf brand model fuelData,
      rec_region = Some reg, rec_type = Some ''all''\<rparr>"

definition saveMonthlyData_DE :: "int \<Rightarrow> int \<Rightarrow> int js_object \<Rightarrow> store \<Rightarrow> store" where
  "saveMonthlyData_DE yearNum monthNum fuelData st =
     writeFileSync st ''DE'' (monthCode yearNum monthNum @ ''.json'')
       (monthlyFile ''Alle Marken'' ''Alle Modelle'' ''DE'' yearNum monthNum fuelData)"

definition processMonth_DE :: "kba_fetch \<Rightarrow> month_info \<Rightarrow> store \<Rightarrow> store" where
  "processMonth_DE kba monthInfo st =
     (case fetchMonthData_DE kba (m_year monthInfo) (m_month monthInfo) of
        None \<Rightarrow> st
      | Some fuelData \<Rightarrow>
          (if fuelData \<noteq> [] then saveMonthlyData_DE (m_year monthInfo) (m_month monthInfo) fuelData st
           else st))"

definition fetchAllEVData_DE :: "disk \<Rightarrow> kba_fetch \<Rightarrow> wall_clock \<Rightarrow> parser_run" where
  "fetchAllEVData_DE disk kba now st =
     (let allMonths = getMonthsSinceStart now 2021
      in case filterMissingMonths disk allMonths ''DE'' defaultFileNamer st of
           None \<Rightarrow> (Threw, st)
         | Some missingMonths \<Rightarrow> (Returned, fold (processMonth_DE kba) missingMonths st))"

subsection \<open>Netherlands (scripts/parsers/NL.js)\<close>

text \<open>
  \<open>fetchMonthData\<close> pages through the registry, looks the fuel of every vehicle up in
  batches and counts the mapped fuel types; every request that fails is caught inside.
  \<open>rdw monthCode\<close> is the list of the \<open>brandstof_omschrijving\<close> fields of the records
  that arrived, \<open>None\<close> for a record without the field. The text that an inherited
  member of \<open>Object.prototype\<close> turns into when it is used as a key is left to the
  engine, \<open>memberText\<close>.
\<close>

type_synonym rdw_fetch = "string \<Rightarrow> string option list"

definition memberKey :: "(string \<Rightarrow> string) \<Rightarrow> js_member \<Rightarrow> string" where
  "memberKey memberText v = (case v of Str s \<Rightarrow> s | Inherited name \<Rightarrow> memberText name)"

definition fetchMonthData_NL :: "(string \<Rightarrow> string) \<Rightarrow> rdw_fetch \<Rightarrow> string \<Rightarrow> int js_object" where
  "fetchMonthData_NL memberText rdw code =
     foldl (\<lambda>fuelCounts brandstof.
              let fuelType = memberKey memberText (mapFuelType_NL brandstof)
              in objPut fuelCounts fuelType (objGetOr0 fuelCounts fuelType + 1))
       [] (rdw code)"

text \<open>\<open>parseInt(s)\<close> of a part of a month code; \<open>NaN\<close> is printed as \<open>null\<close>, here 0.\<close>

definition parseIntOr0 :: "string \<Rightarrow> int" where
  "parseIntOr0 s = (case parseInt s of Some n \<Rightarrow> n | None \<Rightarrow> 0)"

definition splitOnce :: "char \<Rightarrow> string \<Rightarrow> string \<times> string" where
  "splitOnce sep s = (takeWhile (\<lambda>c. c \<noteq> sep) s, takeWhile (\<lambda>c. c \<noteq> sep) (drop 1 (dropWhile (\<lambda>c. c \<noteq> sep) s)))"

definition saveMonthlyData_NL :: "string \<Rightarrow> int js_object \<Rightarrow> store \<Rightarrow> store" where
  "saveMonthlyData_NL code fuelData st =
     (let (yearStr, monthStr) = splitOnce CHR ''-'' code
      in writeFileSync st ''NL'' (code @ ''.json'')
           (monthlyFile ''ALL'' ''ALL'' ''NL'' (parseIntOr0 yearStr) (parseIntOr0 monthStr) fuelData))"

definition processMonth_NL :: "(string \<Rightarrow> string) \<Rightarrow> rdw_fetch \<Rightarrow> month_info \<Rightarrow> store \<Rightarrow> store" where
  "processMonth_NL memberText rdw monthInfo st =
     (let fuelData = fetchMonthData_NL memberText rdw (m_code monthInfo)
      in if fuelData \<noteq> [] then saveMonthlyData_NL (m_code monthInfo) fuelData st else st)"

definition fetchAllEVData_NL :: "disk \<Rightarrow> (string \<Rightarrow> string) \<Rightarrow> rdw_fetch \<Rightarrow> wall_clock \<Rightarrow> parser_run" where
  "fetchAllEVData_NL disk memberText rdw now st =
     (let allMonths = getMonthsSinceStart now 2019
      in case filterMissingMonths disk allMonths ''NL'' defaultFileNamer st of
           None \<Rightarrow> (Threw, st)
         | Some missingMonths \<Rightarrow> (Returned, fold (processMonth_NL memberText rdw) missingMonths st))"

subsection \<open>Sweden (src/unnamed/part\_003)\<close>

record csv_row =
  csv_region :: string
  csv_fuel :: string
  csv_month :: string
  csv_count :: string

datatype csv_source = ZipFetchFails | NoCsvEntry | Records "csv_row list"

text \<open>\<open>/^(\d{4})M(\d{2})$/\<close>.\<close>

definition isMonthCodeM :: "string \<Rightarrow> bool" where
  "isMonthCodeM s = isPeriod ''M'' s"

record month_totals =
  mt_year :: int
  mt_month :: int
  mt_byFuel :: "int js_object"

definition addSwedishRow :: "month_totals js_object \<Rightarrow> csv_row \<Rightarrow> month_totals js_object" where
  "addSwedishRow monthlyData row =
     (let cnt = parseIntOr0 (csv_count row)
      in if \<not> str_includes (csv_region row) ''00 Sweden'' then monthlyData
         else if \<not> isMonthCodeM (csv_month row) then monthlyData
         else let yearNum = parseIntOr0 (take 4 (csv_month row));
                  monthNum = parseIntOr0 (drop 5 (csv_month row));
                  key = string_of_int yearNum @ ''-'' @ padStart2 (string_of_int monthNum);
                  entry = (case map_of monthlyData key of
                             Some e \<Rightarrow> e
                           | None \<Rightarrow> \<lparr>mt_year = yearNum, mt_month = monthNum, mt_byFuel = []\<rparr>);
                  fuelCode = normalizeSwedishFuel (Some (csv_fuel row))
              in if fuelCode \<noteq> ''OTHER'' \<and> fuelCode \<noteq> ''UNKNOWN''
                 then objPut monthlyData key
                        (entry\<lparr>mt_byFuel := objPut (mt_byFuel entry) fuelCode
                                                (objGetOr0 (mt_byFuel entry) fuelCode + cnt)\<rparr>)
                 else objPut monthlyData key entry)"

definition swedishFile :: "string \<times> month_totals \<Rightarrow> ((string \<times> string) \<times> record_file) option" where
  "swedishFile km =
     (let key = fst km;
          entries = filter (\<lambda>e. total e > 0)
                      (entriesOf ''Toutes marques'' (''Tous mod'' @ [CHR 0xC3, CHR 0xA8] @ ''les'')
                         (mt_byFuel (snd km)));
          (yearStr, monthStr) = splitOnce CHR ''-'' key
      in if entries = [] then None
         else Some ((''SE'', key @ ''.json''),
                    \<lparr>rec_year = parseIntOr0 yearStr, rec_month = parseIntOr0 monthStr,
                     rec_data = entries, rec_region = Some ''SE'', rec_type = Some ''all''\<rparr>))"

definition fetchAllEVData_SE :: "csv_source \<Rightarrow> parser_run" where
  "fetchAllEVData_SE src st =
     (case src of
        ZipFetchFails \<Rightarrow> (Threw, st)
      | NoCsvEntry \<Rightarrow> (Returned, st)
      | Records records \<Rightarrow>
          (Returned,
           fold (writeIfAbsent swedishFile) (objectEntries (foldl addSwedishRow [] records)) st))"

subsection \<open>Norway (src/unnamed/part\_005)\<close>

text \<open>
  A JSON-stat response: \<open>id\<close> declares the order of the dimensions, \<open>size\<close> their
  cardinalities in that order, \<open>value\<close> the flat array (\<open>null\<close> is \<open>None\<close>) and
  \<open>dimension\<close> maps the name of a dimension to its \<open>category.index\<close>, the position
  of each category code. \<open>parseJsonStat\<close> never reads \<open>id\<close>.
\<close>

record json_stat =
  js_id :: "string list"
  js_size :: "nat list option"
  js_value :: "int option list option"
  js_dimension :: "nat js_object js_object option"

datatype stat_error = InvalidStructure | MissingDimension

text \<open>The codes of a dimension in the order of their positions.\<close>

definition codesInOrder :: "nat js_object \<Rightarrow> string list" where
  "codesInOrder categoryIndex = map fst (sort_key snd (objectEntries categoryIndex))"

text \<open>An array read at an index: past the end the code is \<open>undefined\<close> and the value absent.\<close>

definition codeAt :: "string list \<Rightarrow> nat \<Rightarrow> string" where
  "codeAt codes i = (if i < length codes then codes ! i else ''undefined'')"

definition valueOr0 :: "int option list \<Rightarrow> nat \<Rightarrow> int" where
  "valueOr0 vs n = (if n < length vs then (case vs ! n of Some v \<Rightarrow> v | None \<Rightarrow> 0) else 0)"

text \<open>\<open>results[monthCode][fuelCode] = val\<close>, after \<open>results[monthCode] = {}\<close> where it is missing.\<close>

definition resultsPut :: "int js_object js_object \<Rightarrow> string \<Rightarrow> string \<Rightarrow> int \<Rightarrow> int js_object js_object" where
  "resultsPut results mCode fCode v =
     objPut results mCode
       (objPut (case map_of results mCode of Some byFuel \<Rightarrow> byFuel | None \<Rightarrow> []) fCode v)"

text \<open>
  The four nested loops visit the pairs \<open>(iFuel, iTime)\<close> in this order, and
  \<open>valueIndex\<close> counts the visits.
\<close>

definition loopCells :: "nat \<Rightarrow> nat \<Rightarrow> nat \<Rightarrow> nat \<Rightarrow> (nat \<times> nat) list" where
  "loopCells sizeTypeReg sizeFuel sizeContents sizeTime =
     concat (map (\<lambda>iTypeReg.
       concat (map (\<lambda>iFuel.
         concat (map (\<lambda>iContents.
           map (\<lambda>iTime. (iFuel, iTime)) [0 ..< sizeTime])
         [0 ..< sizeContents]))
       [0 ..< sizeFuel]))
     [0 ..< sizeTypeReg])"

definition fillResults :: "string list \<Rightarrow> string list \<Rightarrow> int option list \<Rightarrow> (nat \<times> nat) list \<Rightarrow> int js_object js_object" where
  "fillResults fuelTypes months vs cells =
     foldl (\<lambda>results (valueIndex, (iFuel, iTime)).
              resultsPut results (codeAt months iTime) (codeAt fuelTypes iFuel) (valueOr0 vs valueIndex))
       [] (enumerate 0 cells)"

definition parseJsonStat :: "json_stat \<Rightarrow> stat_error + int js_object js_object" where
  "parseJsonStat response =
     (case (js_dimension response, js_value response, js_size response) of
        (Some dimension, Some vs, Some sizes) \<Rightarrow>
          (case (map_of dimension ''DrivstoffType'', map_of dimension ''Tid'') of
             (Some fuelTypeIndex, Some tidIndex) \<Rightarrow>
               (let fuelTypes = codesInOrder fuelTypeIndex;
                    months = codesInOrder tidIndex
                in case sizes of
                     sizeTypeReg # sizeFuel # sizeContents # sizeTime # further \<Rightarrow>
                       Inr (fillResults fuelTypes months vs
                              (loopCells sizeTypeReg sizeFuel sizeContents sizeTime))
                   | _ \<Rightarrow> Inr [])
           | _ \<Rightarrow> Inl MissingDimension)
      | _ \<Rightarrow> Inl InvalidStructure)"

text \<open>The value that \<open>results[monthCode][fuelCode]\<close> reads.\<close>

definition resultAt :: "int js_object js_object \<Rightarrow> string \<Rightarrow> string \<Rightarrow> int option" where
  "resultAt results mCode fCode =
     (case map_of results mCode of None \<Rightarrow> None | Some byFuel \<Rightarrow> map_of byFuel fCode)"

text \<open>
  \<open>ssb codes\<close> is the response to the request for a batch of months, \<open>None\<close> when the
  request fails. \<open>fetchMonthsBatch\<close> throws then, and when \<open>parseJsonStat\<close> throws.
\<close>

type_synonym ssb_fetch = "string list \<Rightarrow> json_stat option"

definition fetchMonthsBatch :: "ssb_fetch \<Rightarrow> string list \<Rightarrow> int js_object js_object option" where
  "fetchMonthsBatch ssb monthCodes =
     (case ssb monthCodes of
        None \<Rightarrow> None
      | Some response \<Rightarrow> (case parseJsonStat response of Inl err \<Rightarrow> None | Inr results \<Rightarrow> Some results))"

definition norwegianFile :: "(string \<Rightarrow> string) \<Rightarrow> string \<Rightarrow> int js_object \<Rightarrow> ((string \<times> string) \<times> record_file) option" where
  "norwegianFile memberText code fuelData =
     (if \<not> isMonthCodeM code then None
      else let yearNum = parseIntOr0 (take 4 code);
               monthNum = parseIntOr0 (drop 5 code);
               monthStr = drop 5 code;
               entries = map (\<lambda>(fuelCode, t).
                                \<lparr>marque = ''Toutes marques'',
                                 modele = ''Tous mod'' @ [CHR 0xC3, CHR 0x83, CHR 0xC2, CHR 0xA8] @ ''les'',
                                 total = t,
                                 energie = memberKey memberText (mapFuelType_NO (Some fuelCode))\<rparr>)
                           (filter (\<lambda>(fuelCode, t). t > 0) (objectEntries fuelData))
           in if entries = [] then None
              else Some ((''NO'', string_of_int yearNum @ ''-'' @ monthStr @ ''.json''),
                         \<lparr>rec_year = yearNum, rec_month = monthNum, rec_data = entries,
                          rec_region = Some ''NO'', rec_type = Some ''all''\<rparr>))"

definition saveMonthlyData_NO :: "(string \<Rightarrow> string) \<Rightarrow> string \<Rightarrow> int js_object \<Rightarrow> store \<Rightarrow> store" where
  "saveMonthlyData_NO memberText code fuelData st =
     (case norwegianFile memberText code fuelData of
        None \<Rightarrow> st
      | Some ((dir, fileName), content) \<Rightarrow> writeFileSync st dir fileName content)"

definition saveFromResults :: "(string \<Rightarrow> string) \<Rightarrow> int js_object js_object \<Rightarrow> string \<Rightarrow> store \<Rightarrow> store" where
  "saveFromResults memberText results code st =
     (case map_of results code of
        None \<Rightarrow> st
      | Some fuelData \<Rightarrow> saveMonthlyData_NO memberText code fuelData st)"

definition fetchSingle_NO :: "(string \<Rightarrow> string) \<Rightarrow> ssb_fetch \<Rightarrow> string \<Rightarrow> store \<Rightarrow> store" where
  "fetchSingle_NO memberText ssb code st =
     (case fetchMonthsBatch ssb [code] of
        None \<Rightarrow> st
      | Some results \<Rightarrow> saveFromResults memberText results code st)"

definition processBatch_NO :: "(string \<Rightarrow> string) \<Rightarrow> ssb_fetch \<Rightarrow> string list \<Rightarrow> store \<Rightarrow> store" where
  "processBatch_NO memberText ssb monthCodes st =
     (case fetchMonthsBatch ssb monthCodes of
        Some results \<Rightarrow> fold (saveFromResults memberText results) monthCodes st
      | None \<Rightarrow> fold (fetchSingle_NO memberText ssb) monthCodes st)"

fun chunksOf :: "nat \<Rightarrow> nat \<Rightarrow> 'a list \<Rightarrow> 'a list list" where
  "chunksOf fuel n [] = []"
| "chunksOf 0 n xs = []"
| "chunksOf (Suc fuel) n xs = take n xs # chunksOf fuel n (drop n xs)"

definition norwegianCode :: "month_info \<Rightarrow> string" where
  "norwegianCode m = string_of_int (m_year m) @ ''M'' @ padStart2 (string_of_int (m_month m))"

definition fetchAllEVData_NO :: "disk \<Rightarrow> (string \<Rightarrow> string) \<Rightarrow> ssb_fetch \<Rightarrow> wall_clock \<Rightarrow> parser_run" where
  "fetchAllEVData_NO disk memberText ssb now st =
     (let allMonths = map (\<lambda>m. m\<lparr>m_code := norwegianCode m\<rparr>) (getMonthsSinceStart now 2011)
      in case filterMissingMonths disk allMonths ''NO''
                (\<lambda>m. monthCode (m_year m) (m_month m) @ ''.json'') st of
           None \<Rightarrow> (Threw, st)
         | Some missingMonths \<Rightarrow>
             (let batches = chunksOf (length missingMonths) 36 (map m_code missingMonths)
              in (Returned, fold (processBatch_NO memberText ssb) batches st)))"

subsection \<open>China (src/unnamed/part\_004)\<close>

text \<open>
  An item of \<open>monthlyData\<close>: what \<open>findLatestDataFromCnEVPost\<close> read in one article.
  That function is given the set of existing month files and catches its own errors.
\<close>

record nev_item =
  nev_year :: int
  nev_month :: int
  nev_NEV :: "int option"
  nev_BEV :: "int option"
  nev_PHEV :: "int option"
  nev_TOTAL :: "int option"

text \<open>A number or \<open>null\<close> used as a condition.\<close>

definition truthy :: "int option \<Rightarrow> bool" where
  "truthy v = (case v of Some n \<Rightarrow> n \<noteq> 0 | None \<Rightarrow> False)"

definition chineseEntry :: "int \<Rightarrow> string \<Rightarrow> fuel_entry" where
  "chineseEntry t fuel =
     \<lparr>marque = [CHR 0xE6, CHR 0x89, CHR 0x80, CHR 0xE6, CHR 0x9C, CHR 0x89, CHR 0xE5, CHR 0x93,
                CHR 0x81, CHR 0xE7, CHR 0x89, CHR 0x8C],
      modele = [CHR 0xE6, CHR 0x89, CHR 0x80, CHR 0xE6, CHR 0x9C, CHR 0x89, CHR 0xE8, CHR 0xBD,
                CHR 0xA6, CHR 0xE5, CHR 0x9E, CHR 0x8B],
      total = t, energie = fuel\<rparr>"

definition chineseEntries :: "nev_item \<Rightarrow> fuel_entry list" where
  "chineseEntries item =
     (if truthy (nev_BEV item) then [chineseEntry (the (nev_BEV item)) ''BEV''] else [])
     @ (if truthy (nev_PHEV item) then [chineseEntry (the (nev_PHEV item)) ''PHEV''] else [])
     @ (if truthy (nev_TOTAL item) \<and> truthy (nev_NEV item) \<and> the (nev_TOTAL item) > the (nev_NEV item)
        then [chineseEntry (the (nev_TOTAL item) - the (nev_NEV item)) ''FOSSIL''] else [])
     @ (if truthy (nev_NEV item) \<and> \<not> truthy (nev_BEV item) \<and> \<not> truthy (nev_PHEV item)
        then [chineseEntry (the (nev_NEV item)) ''BEV''] else [])"

definition chineseFile :: "nev_item \<Rightarrow> record_file option" where
  "chineseFile item =
     (if chineseEntries item = [] then None
      else Some \<lparr>rec_year = nev_year item, rec_month = nev_month item,
                 rec_data = chineseEntries item, rec_region = Some ''CN'', rec_type = Some ''all''\<rparr>)"

definition chineseKey :: "nev_item \<Rightarrow> string \<times> string" where
  "chineseKey item = (''CN'', monthCode (nev_year item) (nev_month item) @ ''.json'')"

text \<open>The month files that exist, as \<open>existingFiles\<close> holds them: the names without \<open>.json\<close>.\<close>

definition hasMonthFile :: "store \<Rightarrow> string \<Rightarrow> string \<Rightarrow> bool" where
  "hasMonthFile st dir name = existsSync st dir (name @ ''.json'')"

definition recentMonths :: "wall_clock \<Rightarrow> string list" where
  "recentMonths now =
     [monthCode (fullYear now) (monthIndex now + 1),
      (if monthIndex now = 0 then string_of_int (fullYear now - 1) @ ''-12''
       else monthCode (fullYear now) (monthIndex now)),
      (if monthIndex now \<le> 1 then monthCode (fullYear now - 1) (12 + monthIndex now - 1)
       else monthCode (fullYear now) (monthIndex now - 1))]"

type_synonym cnevpost_fetch = "(string \<Rightarrow> bool) \<Rightarrow> nev_item list"

datatype cn_source = Posts cnevpost_fetch | Workbook "cell list list option"

definition fetchAllEVData_CN :: "cn_source \<Rightarrow> wall_clock \<Rightarrow> parser_run" where
  "fetchAllEVData_CN src now st =
     (case src of
        Workbook None \<Rightarrow> (Threw, st)
      | Workbook (Some rows) \<Rightarrow> (Returned, processSheet chineseLayout rows st)
      | Posts cnevpost \<Rightarrow>
          (if list_all (hasMonthFile st ''CN'') (recentMonths now) then (Returned, st)
           else let monthlyData = cnevpost (hasMonthFile st ''CN'');
                    newMonthlyData = filter (\<lambda>item. st (chineseKey item) = None) monthlyData
                in (Returned, fold (writeStep chineseFile chineseKey) newMonthlyData st)))"

section \<open>The orchestrator (src/unnamed/part\_002, scripts/collect\_all.js)\<close>

text \<open>
  \<open>zones\<close> is the \<open>zones\<close> object of config/zones.yaml: a zone code maps to the
  parsers of the zone, \<open>None\<close> for a zone without the key \<open>parsers\<close>; a parser names
  a script and a function of that script. \<open>modules script\<close> is what \<open>require\<close> gives
  for \<open>./parsers/<script>.js\<close>, \<open>None\<close> when the file does not exist; an export that
  is missing cannot be called, which throws.
\<close>

record parser_info =
  pi_script :: string
  pi_function :: string

type_synonym zone_config = "parser_info js_object option js_object"

type_synonym modules = "string \<Rightarrow> (string \<Rightarrow> parser_run option) option"

record run_state =
  rs_store :: store
  rs_started :: "(string \<times> string) list"
  rs_warnings :: "string list"

text \<open>The parsers to call, in the order of the two loops.\<close>

definition parserCalls :: "zone_config \<Rightarrow> (string \<times> string \<times> parser_info) list" where
  "parserCalls zonesToProcess =
     concat (map (\<lambda>(zoneCode, parsers).
                    case parsers of
                      None \<Rightarrow> []
                    | Some ps \<Rightarrow> map (\<lambda>(category, info). (zoneCode, category, info)) (objectEntries ps))
               (objectEntries zonesToProcess))"

text \<open>
  The calls one after the other; \<open>await\<close> rethrows the error of a parser, which
  leaves both loops.
\<close>

fun runCalls :: "modules \<Rightarrow> (string \<times> string \<times> parser_info) list \<Rightarrow> run_state \<Rightarrow> outcome \<times> run_state" where
  "runCalls mods [] s = (Returned, s)"
| "runCalls mods ((zoneCode, category, info) # rest) s =
     (case mods (pi_script info) of
        None \<Rightarrow> runCalls mods rest (s\<lparr>rs_warnings := rs_warnings s @ [pi_script info]\<rparr>)
      | Some exports \<Rightarrow>
          (let s1 = s\<lparr>rs_started := rs_started s @ [(category, zoneCode)]\<rparr>
           in case exports (pi_function info) of
                None \<Rightarrow> (Threw, s1)
              | Some parser \<Rightarrow>
                  (case parser (rs_store s1) of
                     (Threw, st') \<Rightarrow> (Threw, s1\<lparr>rs_store := st'\<rparr>)
                   | (Returned, st') \<Rightarrow> runCalls mods rest (s1\<lparr>rs_store := st'\<rparr>))))"

text \<open>
  \<open>runAllParsers\<close> and the two handlers after it: the exit code of the process and
  the state at exit. \<open>targetZone\<close> is \<open>process.argv[2]\<close>. \<open>zones[targetZone]\<close> of a
  name that \<open>zones\<close> inherits from \<open>Object.prototype\<close> is a function or an object
  without the key \<open>parsers\<close>: the zone is taken as found and no parser is run for it.
\<close>

definition runAllParsers :: "zone_config \<Rightarrow> modules \<Rightarrow> string option \<Rightarrow> store \<Rightarrow> nat \<times> run_state" where
  "runAllParsers zones mods targetZone st =
     (let s0 = \<lparr>rs_store = st, rs_started = [], rs_warnings = []\<rparr>;
          target = (case targetZone of None \<Rightarrow> None | Some z \<Rightarrow> if z = [] then None else Some z)
      in case target of
           None \<Rightarrow>
             (case runCalls mods (parserCalls zones) s0 of
                (Returned, s) \<Rightarrow> (0, s)
              | (Threw, s) \<Rightarrow> (1, s))
         | Some z \<Rightarrow>
             (case map_of zones z of
                None \<Rightarrow> (if z \<in> set objectPrototypeMembers then (0, s0) else (1, s0))
              | Some zone \<Rightarrow>
                  (case runCalls mods (parserCalls [(z, zone)]) s0 of
                     (Returned, s) \<Rightarrow> (0, s)
                   | (Threw, s) \<Rightarrow> (1, s))))"

section \<open>What each run writes for one item\<close>

text \<open>
  The file, if any, that a loop body has for one month or one row, apart from the
  store. The loop bodies above are \<open>writeStep\<close> or \<open>writeIfAbsent\<close> of these.
\<close>

definition germanMonthFile :: "kba_fetch \<Rightarrow> month_info \<Rightarrow> record_file option" where
  "germanMonthFile kba m =
     (case fetchMonthData_DE kba (m_year m) (m_month m) of
        None \<Rightarrow> None
      | Some fuelData \<Rightarrow>
          (if fuelData \<noteq> []
           then Some (monthlyFile ''Alle Marken'' ''Alle Modelle'' ''DE'' (m_year m) (m_month m) fuelData)
           else None))"

definition dutchMonthFile :: "(string \<Rightarrow> string) \<Rightarrow> rdw_fetch \<Rightarrow> month_info \<Rightarrow> record_file option" where
  "dutchMonthFile memberText rdw m =
     (let fuelData = fetchMonthData_NL memberText rdw (m_code m);
          (yearStr, monthStr) = splitOnce CHR ''-'' (m_code m)
      in if fuelData \<noteq> []
         then Some (monthlyFile ''ALL'' ''ALL'' ''NL'' (parseIntOr0 yearStr) (parseIntOr0 monthStr) fuelData)
         else None)"

definition sheetRowFile :: "sheet_layout \<Rightarrow> (nat \<times> string) list \<Rightarrow> bool \<Rightarrow> cell list \<Rightarrow> ((string \<times> string) \<times> record_file) option" where
  "sheetRowFile layout colMapping colDateFound row =
     (if \<not> colDateFound \<or> \<not> cellTruthy (cellAt row 0) then None
      else let dateStr = trim (cellToString (cellAt row 0))
           in if \<not> isPeriod (separators layout) dateStr then None
              else let yStr = take 4 dateStr;
                       mStr = drop 5 dateStr;
                       yearNum = (case parseInt yStr of Some n \<Rightarrow> n | None \<Rightarrow> 0);
                       monthNum = (case parseInt mStr of Some n \<Rightarrow> n | None \<Rightarrow> 0);
                       entries = entriesOf (brandText layout) (modelText layout)
                                   (aggregateColumns colMapping row [])
                   in if entries = [] then None
                      else Some ((regionCode layout, string_of_int yearNum @ ''-'' @ mStr @ ''.json''),
                                 \<lparr>rec_year = yearNum, rec_month = monthNum, rec_data = entries,
                                  rec_region = Some (regionCode layout), rec_type = Some ''all''\<rparr>))"

text \<open>
  Norway: the \<open>fuelData\<close> that reaches \<open>saveMonthlyData\<close> for a month of a batch, from
  the answer to the batch or, when that request threw, from the answer to the request
  for the month alone; and the file written for it.
\<close>

definition norwegianData :: "ssb_fetch \<Rightarrow> string list \<Rightarrow> string \<Rightarrow> int js_object option" where
  "norwegianData ssb monthCodes code =
     (case fetchMonthsBatch ssb monthCodes of
        Some results \<Rightarrow> map_of results code
      | None \<Rightarrow> (case fetchMonthsBatch ssb [code] of
                  Some results \<Rightarrow> map_of results code
                | None \<Rightarrow> None))"

definition norwegianMonthFile ::
  "(string \<Rightarrow> string) \<Rightarrow> ssb_fetch \<Rightarrow> string list \<Rightarrow> string \<Rightarrow> ((string \<times> string) \<times> record_file) option" where
  "norwegianMonthFile memberText ssb monthCodes code =
     (case norwegianData ssb monthCodes code of
        None \<Rightarrow> None
      | Some fuelData \<Rightarrow> norwegianFile memberText code fuelData)"

text \<open>The path of the file that \<open>saveMonthlyData\<close> writes for a month code.\<close>

definition norwegianKey :: "string \<Rightarrow> string \<times> string" where
  "norwegianKey code =
     (''NO'', string_of_int (parseIntOr0 (take 4 code)) @ ''-'' @ drop 5 code @ ''.json'')"

section \<open>Row-major order as the response declares it\<close>

text \<open>
  This definition follows the words of the specification (4.8) and not the code: the
  flat array is in row-major order of the dimensions in the order that the response
  declares in \<open>id\<close>, so the coordinate of the flat index \<open>n\<close> in the dimension at
  position \<open>j\<close> is \<open>n\<close> divided by the product of the later sizes, modulo the size of
  the dimension. \<open>spec_rowMajorCell\<close> is the period, the fuel type and the value that
  belong to a flat index.
\<close>

definition coordinateOf :: "nat list \<Rightarrow> nat \<Rightarrow> nat \<Rightarrow> nat" where
  "coordinateOf sizes j n = (n div prod_list (drop (Suc j) sizes)) mod (sizes ! j)"

fun positionOf :: "string \<Rightarrow> string list \<Rightarrow> nat option" where
  "positionOf name [] = None"
| "positionOf name (d # ds) =
     (if d = name then Some 0 else map_option Suc (positionOf name ds))"

definition spec_rowMajorCell :: "json_stat \<Rightarrow> nat \<Rightarrow> (string \<times> string \<times> int) option" where
  "spec_rowMajorCell response n =
     (case (js_dimension response, js_value response, js_size response) of
        (Some dimension, Some vs, Some sizes) \<Rightarrow>
          (case (positionOf ''Tid'' (js_id response), positionOf ''DrivstoffType'' (js_id response),
                 map_of dimension ''Tid'', map_of dimension ''DrivstoffType'') of
             (Some pTime, Some pFuel, Some tidIndex, Some fuelTypeIndex) \<Rightarrow>
               (if n < prod_list sizes
                then Some (codeAt (codesInOrder tidIndex) (coordinateOf sizes pTime n),
                           codeAt (codesInOrder fuelTypeIndex) (coordinateOf sizes pFuel n),
                           valueOr0 vs n)
                else None)
           | _ \<Rightarrow> None)
      | _ \<Rightarrow> None)"

text \<open>
  The response of the specification's example, \<open>size = [1, 2, 1, 3]\<close> with six values,
  and a response that declares the period first.
\<close>

definition exampleResponse :: json_stat where
  "exampleResponse =
     \<lparr>js_id = [''TypeRegistrering'', ''DrivstoffType'', ''ContentsCode'', ''Tid''],
      js_size = Some [1, 2, 1, 3],
      js_value = Some [Some 10, Some 20, Some 30, Some 40, Some 50, Some 60],
      js_dimension = Some [(''TypeRegistrering'', [(''N'', 0)]),
                           (''DrivstoffType'', [(''19'', 0), (''20'', 1)]),
                           (''ContentsCode'', [(''Personbiler'', 0)]),
                           (''Tid'', [(''2024M01'', 0), (''2024M02'', 1), (''2024M03'', 2)])]\<rparr>"

definition periodFirstResponse :: json_stat where
  "periodFirstResponse =
     \<lparr>js_id = [''Tid'', ''DrivstoffType'', ''TypeRegistrering'', ''ContentsCode''],
      js_size = Some [3, 2, 1, 1],
      js_value = Some [Some 10, Some 20, Some 30, Some 40, Some 50, Some 60],
      js_dimension = Some [(''Tid'', [(''2024M01'', 0), (''2024M02'', 1), (''2024M03'', 2)]),
                           (''DrivstoffType'', [(''19'', 0), (''20'', 1)]),
                           (''TypeRegistrering'', [(''N'', 0)]),
                           (''ContentsCode'', [(''Personbiler'', 0)])]\<rparr>"

section \<open>An example configuration\<close>

text \<open>
  A configuration with two zones, France before the Netherlands, and the modules of
  their scripts: the French workbook cannot be downloaded, and the Dutch registry has
  one petrol car for every month.
\<close>

definition exampleZones :: zone_config where
  "exampleZones =
     [(''FR'', Some [(''ev'', \<lparr>pi_script = ''FR'', pi_function = ''fetchAllEVData''\<rparr>)]),
      (''NL'', Some [(''ev'', \<lparr>pi_script = ''NL'', pi_function = ''fetchAllEVData''\<rparr>)])]"

definition exampleClock :: wall_clock where
  "exampleClock = \<lparr>fullYear = 2019, monthIndex = 0\<rparr>"

definition exampleModules :: modules where
  "exampleModules script =
     (if script = ''FR''
      then Some (\<lambda>name. if name = ''fetchAllEVData''
                         then Some (fetchAllEVData_FR WorkbookFetchFails) else None)
      else if script = ''NL''
      then Some (\<lambda>name. if name = ''fetchAllEVData''
                         then Some (fetchAllEVData_NL (\<lambda>dir. True) (\<lambda>member. member)
                                      (\<lambda>code. [Some ''Benzine'']) exampleClock)
                         else None)
      else None)"


chapter \<open>Properties\<close>

section \<open>Month keys\<close>

lemma map_shift_upto: "map (\<lambda>m. a + (m - 1)) [1..e] = [a .. a + e - 1]"
proof (induction "nat e" arbitrary: e)
  case 0
  then show ?case by simp
next
  case (Suc n)
  then have e: "1 \<le> e" and n: "n = nat (e - 1)" by linarith+
  have "[1..e] = [1..e - 1] @ [e]" using e by (simp add: upto_rec2)
  moreover have "[a .. a + e - 1] = [a .. a + (e - 1) - 1] @ [a + e - 1]"
    using e upto_rec2 [of a "a + e - 1"] by (simp add: algebra_simps)
  ultimately show ?case using Suc.hyps(1) [OF n] by simp
qed

lemma monthsOfYear_ordinals:
  "map monthOrdinal (monthsOfYear now y) =
     [12 * y .. 12 * y + (if y = fullYear now then monthIndex now + 1 else 12) - 1]"
  by (simp add: monthsOfYear_def monthOrdinal_def Let_def o_def map_shift_upto)

lemma monthsOfYear_early:
  "y \<noteq> fullYear now \<Longrightarrow> map monthOrdinal (monthsOfYear now y) = [12 * y .. 12 * y + 11]"
  by (simp add: monthsOfYear_ordinals add.commute)

lemma monthsOfYear_current:
  "map monthOrdinal (monthsOfYear now (fullYear now)) =
     [12 * fullYear now .. 12 * fullYear now + monthIndex now]"
  by (simp add: monthsOfYear_ordinals)

lemma full_years_ordinals:
  "s \<le> c + 1 \<Longrightarrow> concat (map (\<lambda>y. [12 * y .. 12 * y + 11]) [s..c]) = [12 * s .. 12 * c + 11]"
proof (induction "nat (c + 1 - s)" arbitrary: c)
  case 0
  then have "c = s - 1" by linarith
  then show ?case by simp
next
  case (Suc n)
  then have sc: "s \<le> c" and n: "n = nat ((c - 1) + 1 - s)" by linarith+
  have ih: "concat (map (\<lambda>y. [12 * y .. 12 * y + 11]) [s..c - 1]) = [12 * s .. 12 * (c - 1) + 11]"
    using Suc.hyps(1) [OF n] sc by simp
  have "[s..c] = [s..c - 1] @ [c]" using sc by (simp add: upto_rec2)
  moreover have "[12 * s .. 12 * c + 11] = [12 * s .. 12 * c - 1] @ [12 * c .. 12 * c + 11]"
    using sc upto_split1 [of "12 * s" "12 * c" "12 * c + 11"] by simp
  ultimately show ?case using ih by (simp add: algebra_simps)
qed

lemma getMonthsSinceStart_ordinals:
  assumes "0 \<le> monthIndex now" "monthIndex now \<le> 11"
  shows "map monthOrdinal (getMonthsSinceStart now s) = [12 * s .. 12 * fullYear now + monthIndex now]"
proof (cases "s \<le> fullYear now")
  case False
  then show ?thesis using assms by (simp add: getMonthsSinceStart_def)
next
  case True
  let ?c = "fullYear now"
  let ?f = "\<lambda>y. map monthOrdinal (monthsOfYear now y)"
  have split: "[s..?c] = [s..?c - 1] @ [?c]" using True by (simp add: upto_rec2)
  have early: "map ?f [s..?c - 1] = map (\<lambda>y. [12 * y .. 12 * y + 11]) [s..?c - 1]"
    by (rule map_cong [OF refl]) (simp add: monthsOfYear_early)
  have "map monthOrdinal (getMonthsSinceStart now s) = concat (map ?f [s..?c])"
    by (simp add: getMonthsSinceStart_def map_concat o_def)
  also have "\<dots> = concat (map ?f [s..?c - 1]) @ ?f ?c"
    unfolding split by simp
  also have "\<dots> = [12 * s .. 12 * (?c - 1) + 11] @ [12 * ?c .. 12 * ?c + monthIndex now]"
    unfolding early monthsOfYear_current using True by (simp only: full_years_ordinals)
  also have "\<dots> = [12 * s .. 12 * ?c + monthIndex now]"
    using True assms upto_split1 [of "12 * s" "12 * ?c" "12 * ?c + monthIndex now"]
    by (simp add: algebra_simps)
  finally show ?thesis .
qed

lemma getMonthsSinceStart_fields:
  "m \<in> set (getMonthsSinceStart now s) \<Longrightarrow> 0 \<le> monthIndex now \<Longrightarrow> monthIndex now \<le> 11 \<Longrightarrow>
     1 \<le> m_month m \<and> m_month m \<le> 12 \<and> m_code m = monthCode (m_year m) (m_month m)"
  by (auto simp: getMonthsSinceStart_def monthsOfYear_def Let_def split: if_splits)

lemma getMonthsSinceStart_2020_at_2021_03:
  "map m_code (getMonthsSinceStart \<lparr>fullYear = 2021, monthIndex = 2\<rparr> 2020) =
     [''2020-01'', ''2020-02'', ''2020-03'', ''2020-04'', ''2020-05'', ''2020-06'',
      ''2020-07'', ''2020-08'', ''2020-09'', ''2020-10'', ''2020-11'', ''2020-12'',
      ''2021-01'', ''2021-02'', ''2021-03'']"
  by code_simp

text \<open>
  Claim C9. With the wall clock at a month of the year \<open>fullYear now\<close>
  (\<open>getMonth()\<close> between 0 and 11), \<open>getMonthsSinceStart\<close> returns the months from
  January of the start year through the current month inclusive: their calendar
  positions are exactly the consecutive integers from \<open>12 * startYear\<close> to the current
  month's position, so the sequence is ordered, strictly increasing and without a gap;
  every entry carries a month between 1 and 12 and the code \<open>YYYY-MM\<close> of its year
  and month. A start year after the current year gives the empty sequence, and
  the start year 2020 read at 2021-03 gives the 15 keys 2020-01 to 2021-03.
\<close>

theorem getMonthsSinceStart_complete:
  assumes "0 \<le> monthIndex now" and "monthIndex now \<le> 11"
  shows "map monthOrdinal (getMonthsSinceStart now s) =
           [12 * s .. 12 * fullYear now + monthIndex now]
       \<and> sorted_wrt (<) (map monthOrdinal (getMonthsSinceStart now s))
       \<and> (\<forall>m \<in> set (getMonthsSinceStart now s).
            1 \<le> m_month m \<and> m_month m \<le> 12 \<and> m_code m = monthCode (m_year m) (m_month m))
       \<and> (fullYear now < s \<longrightarrow> getMonthsSinceStart now s = [])
       \<and> map m_code (getMonthsSinceStart \<lparr>fullYear = 2021, monthIndex = 2\<rparr> 2020) =
           [''2020-01'', ''2020-02'', ''2020-03'', ''2020-04'', ''2020-05'', ''2020-06'',
            ''2020-07'', ''2020-08'', ''2020-09'', ''2020-10'', ''2020-11'', ''2020-12'',
            ''2021-01'', ''2021-02'', ''2021-03'']"
proof -
  have ords: "map monthOrdinal (getMonthsSinceStart now s) =
      [12 * s .. 12 * fullYear now + monthIndex now]"
    using assms by (rule getMonthsSinceStart_ordinals)
  have "sorted_wrt (<) [12 * s .. 12 * fullYear now + monthIndex now]"
    by (simp add: strict_sorted_iff)
  then have srt: "sorted_wrt (<) (map monthOrdinal (getMonthsSinceStart now s))"
    by (simp only: ords)
  have flds: "\<forall>m \<in> set (getMonthsSinceStart now s).
      1 \<le> m_month m \<and> m_month m \<le> 12 \<and> m_code m = monthCode (m_year m) (m_month m)"
    using assms getMonthsSinceStart_fields by blast
  have emp: "fullYear now < s \<longrightarrow> getMonthsSinceStart now s = []"
    by (simp add: getMonthsSinceStart_def)
  show ?thesis
    using ords srt flds emp getMonthsSinceStart_2020_at_2021_03 by blast
qed

theorem getMonthsSinceStart_complete_witness:
  "0 \<le> monthIndex \<lparr>fullYear = 2021, monthIndex = 2\<rparr>
   \<and> monthIndex \<lparr>fullYear = 2021, monthIndex = 2\<rparr> \<le> 11
   \<and> length (getMonthsSinceStart \<lparr>fullYear = 2021, monthIndex = 2\<rparr> 2020) = 15
   \<and> list_all (\<lambda>m. 1 \<le> m_month m \<and> m_month m \<le> 12)
        (getMonthsSinceStart \<lparr>fullYear = 2021, monthIndex = 2\<rparr> 2020)
   \<and> fullYear \<lparr>fullYear = 2021, monthIndex = 2\<rparr> < 2022
   \<and> getMonthsSinceStart \<lparr>fullYear = 2021, monthIndex = 2\<rparr> 2022 = []"
proof -
  let ?now = "\<lparr>fullYear = 2021, monthIndex = 2\<rparr>"
  have h1: "0 \<le> monthIndex ?now" and h2: "monthIndex ?now \<le> 11" by simp_all
  note a = getMonthsSinceStart_complete [OF h1 h2, of 2020]
  note b = getMonthsSinceStart_complete [OF h1 h2, of 2022]
  from a have "length (map monthOrdinal (getMonthsSinceStart ?now 2020)) = length [24240 .. (24254::int)]"
    by simp
  then have len: "length (getMonthsSinceStart ?now 2020) = 15" by simp
  from a have rng: "list_all (\<lambda>m. 1 \<le> m_month m \<and> m_month m \<le> 12) (getMonthsSinceStart ?now 2020)"
    unfolding list_all_iff by blast
  from b have emp: "getMonthsSinceStart ?now 2022 = []" by simp
  show ?thesis using len rng emp by simp
qed

section \<open>Fuel taxonomy normalizers\<close>

lemma startsWith_refl: "startsWith s s"
  by (induction s) simp_all

lemma str_includes_refl: "str_includes s s"
  by (cases s) (simp_all add: startsWith_refl)

lemma longestAliasLoop_no_match:
  "\<forall>(code, alias) \<in> set pairs. \<not> str_includes clean (cleanAlias alias) \<Longrightarrow>
     longestAliasLoop clean pairs None n = ''OTHER''"
proof (induction pairs arbitrary: n)
  case Nil
  then show ?case by simp
next
  case (Cons p pairs)
  obtain c a where p: "p = (c, a)" by (cases p)
  from Cons.prems p have no: "\<not> str_includes clean (cleanAlias a)" by simp
  then have "clean \<noteq> cleanAlias a" using str_includes_refl by metis
  with no Cons p show ?case by (simp add: Let_def)
qed

lemma equalAliasLoop_no_match:
  "\<forall>(code, alias) \<in> set pairs. clean \<noteq> toLowerCase alias \<Longrightarrow>
     equalAliasLoop clean pairs = ''OTHER''"
  by (induction pairs) auto

lemma includedAliasLoop_no_match:
  "\<forall>(code, alias) \<in> set pairs. \<not> str_includes clean alias \<Longrightarrow>
     includedAliasLoop clean pairs = ''OTHER''"
  by (induction pairs) auto

lemma firstIncludedKey_no_match:
  "\<forall>(key, v) \<in> set mapping. \<not> str_includes normalized key \<Longrightarrow>
     firstIncludedKey normalized mapping = None"
  by (induction mapping) auto

lemma lookupOr_not_owned:
  "key \<notin> fst ` set mapping \<Longrightarrow> key \<notin> set objectPrototypeMembers \<Longrightarrow>
     lookupOr mapping key fallback = Str fallback"
  by (simp add: lookupOr_def map_of_eq_None_iff [THEN iffD2])

lemma french_aliases:
  "list_all (\<lambda>(code, alias). normalizeFrenchFuel (Some alias) = code) (aliasPairs FRENCH_FUEL_MAP)"
  by code_simp

lemma swedish_aliases:
  "list_all (\<lambda>(code, alias). normalizeSwedishFuel (Some alias) = code) (aliasPairs SWEDISH_FUEL_MAP)"
  by code_simp

lemma chinese_aliases:
  "list_all (\<lambda>(code, alias). normalizeChineseFuel (Some alias) = code) (aliasPairs CHINESE_FUEL_MAP)"
  by code_simp

lemma dutch_aliases:
  "list_all (\<lambda>(key, code). mapFuelType_NL (Some key) = Str code) dutchMapping"
  by code_simp

lemma norwegian_aliases:
  "list_all (\<lambda>(key, code). mapFuelType_NO (Some key) = Str code) norwegianMapping"
  by code_simp

lemma startsWith_prefix: "startsWith s t \<longleftrightarrow> (\<exists>post. s = t @ post)"
  by (induction s t rule: startsWith.induct) auto

lemma str_includes_infix: "str_includes s t \<longleftrightarrow> (\<exists>pre post. s = pre @ t @ post)"
proof (induction s)
  case Nil
  then show ?case by auto
next
  case (Cons c cs)
  show ?case
  proof
    assume "str_includes (c # cs) t"
    then consider "startsWith (c # cs) t" | "str_includes cs t" by auto
    then show "\<exists>pre post. c # cs = pre @ t @ post"
    proof cases
      case 1
      then obtain post where "c # cs = t @ post" unfolding startsWith_prefix by blast
      then have "c # cs = [] @ t @ post" by simp
      then show ?thesis by blast
    next
      case 2
      then obtain pre post where "cs = pre @ t @ post" unfolding Cons.IH by blast
      then have "c # cs = (c # pre) @ t @ post" by simp
      then show ?thesis by blast
    qed
  next
    assume "\<exists>pre post. c # cs = pre @ t @ post"
    then obtain pre post where e: "c # cs = pre @ t @ post" by blast
    show "str_includes (c # cs) t"
    proof (cases pre)
      case Nil
      with e have "startsWith (c # cs) t" unfolding startsWith_prefix by auto
      then show ?thesis by simp
    next
      case (Cons p ps)
      with e have "cs = ps @ t @ post" by simp
      then have "str_includes cs t" unfolding Cons.IH by blast
      then show ?thesis by simp
    qed
  qed
qed

lemma trim_infix: "\<exists>pre post. l = pre @ trim l @ post"
proof -
  let ?d = "dropWhile isSpace l"
  have "l = takeWhile isSpace l @ ?d" by simp
  moreover have "rev ?d = takeWhile isSpace (rev ?d) @ dropWhile isSpace (rev ?d)" by simp
  then have "?d = rev (dropWhile isSpace (rev ?d)) @ rev (takeWhile isSpace (rev ?d))"
    by (metis rev_append rev_rev_ident)
  ultimately have "l = takeWhile isSpace l @ trim l @ rev (takeWhile isSpace (rev ?d))"
    by (simp add: trim_def)
  then show ?thesis by blast
qed

lemma str_includes_trim: "str_includes (trim l) t \<Longrightarrow> str_includes l t"
proof -
  assume "str_includes (trim l) t"
  then obtain pre post where a: "trim l = pre @ t @ post" unfolding str_includes_infix by blast
  obtain p q where "l = p @ trim l @ q" using trim_infix by blast
  with a have "l = (p @ pre) @ t @ (post @ q)" by simp
  then show ?thesis unfolding str_includes_infix by blast
qed

lemma german_ascii_aliases:
  "list_all (\<lambda>(key, code). \<not> asciiText key \<or> key \<in> set [''plug-in-hybrid'', ''plug-in hybrid'']
       \<or> mapGermanFuelType (Some key) = code) germanMapping"
  by code_simp

lemma acea_aliases:
  "list_all (\<lambda>(key, code). key = ''hybrid electric'' \<or> mapAceaFuelType (Some key) = code) aceaMapping"
  by code_simp

lemma ascii_tables:
  "list_all (\<lambda>(code, alias). asciiText alias) (aliasPairs FRENCH_FUEL_MAP)"
  "list_all (\<lambda>(code, alias). asciiText alias) (aliasPairs SWEDISH_FUEL_MAP)"
  "list_all (\<lambda>(key, code). asciiText key) aceaMapping"
  "list_all (\<lambda>(key, code). asciiText key \<or> key = ''fl'' @ [CHR 0xC3, CHR 0x83, CHR 0xC2, CHR 0xBC] @ ''ssiggas'') germanMapping"
  by code_simp+

text \<open>
  Claim C1, at the input where the code departs from it. \<open>mapGermanFuelType\<close>
  registers \<open>plug-in-hybrid\<close> and \<open>plug-in hybrid\<close> with the code PHEV, after the key
  \<open>hybrid\<close>; its loop returns at the first key the label contains, so both labels
  come out as HYBRID and the generic alias shadows the specific one. The loop of
  \<open>normalizeFrenchFuel\<close>, run on the same aliases, returns PHEV, as it does for
  \<open>Hybride Rechargeable\<close> against \<open>hybride\<close> and \<open>hybride rechargeable\<close>.
\<close>

theorem mapGermanFuelType_shadows_plug_in:
  "map_of germanMapping ''plug-in-hybrid'' = Some ''PHEV''
   \<and> mapGermanFuelType (Some ''plug-in-hybrid'') = ''HYBRID''
   \<and> map_of germanMapping ''plug-in hybrid'' = Some ''PHEV''
   \<and> mapGermanFuelType (Some ''Plug-in Hybrid'') = ''HYBRID''
   \<and> normalizeLongest [(''HYBRID'', [''hybrid'']), (''PHEV'', [''plug-in-hybrid'', ''plug-in hybrid''])]
        (Some ''Plug-in Hybrid'') = ''PHEV''
   \<and> normalizeLongest [(''HYBRID'', [''hybride'']), (''PHEV'', [''hybride rechargeable''])]
        (Some ''Hybride Rechargeable'') = ''PHEV''"
  by code_simp

text \<open>
  Claim C2 as stated fails: the Dutch \<open>mapFuelType\<close> answers OTHER for the empty
  label, and \<open>mapGermanFuelType\<close> answers UNKNOWN for a label that contains none of
  its keys.
\<close>

theorem normalizers_empty_and_unmatched_counterexample:
  "mapFuelType_NL (Some '''') = Str ''OTHER''
   \<and> mapFuelType_NL None = Str ''OTHER''
   \<and> list_all (\<lambda>(key, v). \<not> str_includes (trim (toLowerCase ''Ethanol'')) key) germanMapping
   \<and> mapGermanFuelType (Some ''Ethanol'') = ''UNKNOWN''"
  by code_simp

text \<open>
  Claim C2 as amended. \<open>normalizeFrenchFuel\<close>, \<open>normalizeSwedishFuel\<close> and
  \<open>normalizeChineseFuel\<close> return the declared code for each registered alias, UNKNOWN
  for an empty or absent label and OTHER for a non-empty label that matches no alias:
  an ASCII label whose cleaned text contains none for France, an ASCII label whose
  cleaned text equals none for Sweden, any label that contains none for China. The
  Dutch and Norwegian \<open>mapFuelType\<close> return the declared code for each key and their
  fallback (OTHER, respectively UNKNOWN) for every other label that is not the name of
  a member of \<open>Object.prototype\<close>, the empty and the absent one included.
  \<open>mapGermanFuelType\<close> and \<open>mapAceaFuelType\<close> return UNKNOWN for an empty or absent
  label and for an ASCII label containing none of their keys; the ASCII German keys
  other than the two \<open>plug-in\<close> keys, and the ACEA keys other than \<open>hybrid electric\<close>,
  return their declared code.
\<close>

theorem normalizers_by_design:
  "(\<forall>(code, alias) \<in> set (aliasPairs FRENCH_FUEL_MAP). normalizeFrenchFuel (Some alias) = code)
   \<and> normalizeFrenchFuel None = ''UNKNOWN'' \<and> normalizeFrenchFuel (Some '''') = ''UNKNOWN''
   \<and> (\<forall>l. l \<noteq> '''' \<and> asciiText l
              \<and> (\<forall>(code, alias) \<in> set (aliasPairs FRENCH_FUEL_MAP).
                    \<not> str_includes (cleanLabel l) (cleanAlias alias))
          \<longrightarrow> normalizeFrenchFuel (Some l) = ''OTHER'')
   \<and> (\<forall>(code, alias) \<in> set (aliasPairs SWEDISH_FUEL_MAP). normalizeSwedishFuel (Some alias) = code)
   \<and> normalizeSwedishFuel None = ''UNKNOWN'' \<and> normalizeSwedishFuel (Some '''') = ''UNKNOWN''
   \<and> (\<forall>l. l \<noteq> '''' \<and> asciiText l
              \<and> (\<forall>(code, alias) \<in> set (aliasPairs SWEDISH_FUEL_MAP).
                    toLowerCase (trim l) \<noteq> toLowerCase alias)
          \<longrightarrow> normalizeSwedishFuel (Some l) = ''OTHER'')
   \<and> (\<forall>(code, alias) \<in> set (aliasPairs CHINESE_FUEL_MAP). normalizeChineseFuel (Some alias) = code)
   \<and> normalizeChineseFuel None = ''UNKNOWN'' \<and> normalizeChineseFuel (Some '''') = ''UNKNOWN''
   \<and> (\<forall>l. l \<noteq> '''' \<and> (\<forall>(code, alias) \<in> set (aliasPairs CHINESE_FUEL_MAP). \<not> str_includes l alias)
          \<longrightarrow> normalizeChineseFuel (Some l) = ''OTHER'')
   \<and> (\<forall>(key, code) \<in> set dutchMapping. mapFuelType_NL (Some key) = Str code)
   \<and> mapFuelType_NL None = Str ''OTHER''
   \<and> (\<forall>k. k \<notin> fst ` set dutchMapping \<and> k \<notin> set objectPrototypeMembers
          \<longrightarrow> mapFuelType_NL (Some k) = Str ''OTHER'')
   \<and> (\<forall>(key, code) \<in> set norwegianMapping. mapFuelType_NO (Some key) = Str code)
   \<and> mapFuelType_NO None = Str ''UNKNOWN''
   \<and> (\<forall>k. k \<notin> fst ` set norwegianMapping \<and> k \<notin> set objectPrototypeMembers
          \<longrightarrow> mapFuelType_NO (Some k) = Str ''UNKNOWN'')
   \<and> mapGermanFuelType None = ''UNKNOWN'' \<and> mapGermanFuelType (Some '''') = ''UNKNOWN''
   \<and> (\<forall>n. asciiText n
              \<and> (\<forall>(key, v) \<in> set germanMapping. \<not> str_includes (trim (toLowerCase n)) key)
          \<longrightarrow> mapGermanFuelType (Some n) = ''UNKNOWN'')
   \<and> (\<forall>(key, code) \<in> set germanMapping.
          asciiText key \<and> key \<notin> set [''plug-in-hybrid'', ''plug-in hybrid'']
          \<longrightarrow> mapGermanFuelType (Some key) = code)
   \<and> mapAceaFuelType None = ''UNKNOWN'' \<and> mapAceaFuelType (Some '''') = ''UNKNOWN''
   \<and> (\<forall>n. asciiText n
              \<and> (\<forall>(key, v) \<in> set aceaMapping. \<not> str_includes (trim (toLowerCase n)) key)
          \<longrightarrow> mapAceaFuelType (Some n) = ''UNKNOWN'')
   \<and> (\<forall>(key, code) \<in> set aceaMapping.
          key \<noteq> ''hybrid electric'' \<longrightarrow> mapAceaFuelType (Some key) = code)"
proof -
  have fr1: "\<forall>(code, alias) \<in> set (aliasPairs FRENCH_FUEL_MAP). normalizeFrenchFuel (Some alias) = code"
    using french_aliases by (simp only: list_all_iff)
  have fr2: "normalizeFrenchFuel None = ''UNKNOWN''" "normalizeFrenchFuel (Some '''') = ''UNKNOWN''"
    by (simp_all add: normalizeFrenchFuel_def normalizeLongest_def)
  have fr3: "\<forall>l. l \<noteq> '''' \<and> asciiText l
              \<and> (\<forall>(code, alias) \<in> set (aliasPairs FRENCH_FUEL_MAP).
                    \<not> str_includes (cleanLabel l) (cleanAlias alias))
          \<longrightarrow> normalizeFrenchFuel (Some l) = ''OTHER''"
    by (simp add: normalizeFrenchFuel_def normalizeLongest_def longestAliasLoop_no_match)
  have se1: "\<forall>(code, alias) \<in> set (aliasPairs SWEDISH_FUEL_MAP). normalizeSwedishFuel (Some alias) = code"
    using swedish_aliases by (simp only: list_all_iff)
  have se2: "normalizeSwedishFuel None = ''UNKNOWN''" "normalizeSwedishFuel (Some '''') = ''UNKNOWN''"
    by (simp_all add: normalizeSwedishFuel_def)
  have se3: "\<forall>l. l \<noteq> '''' \<and> asciiText l
              \<and> (\<forall>(code, alias) \<in> set (aliasPairs SWEDISH_FUEL_MAP).
                    toLowerCase (trim l) \<noteq> toLowerCase alias)
          \<longrightarrow> normalizeSwedishFuel (Some l) = ''OTHER''"
    by (simp add: normalizeSwedishFuel_def equalAliasLoop_no_match)
  have cn1: "\<forall>(code, alias) \<in> set (aliasPairs CHINESE_FUEL_MAP). normalizeChineseFuel (Some alias) = code"
    using chinese_aliases by (simp only: list_all_iff)
  have cn2: "normalizeChineseFuel None = ''UNKNOWN''" "normalizeChineseFuel (Some '''') = ''UNKNOWN''"
    by (simp_all add: normalizeChineseFuel_def)
  have cn3: "\<forall>l. l \<noteq> '''' \<and> (\<forall>(code, alias) \<in> set (aliasPairs CHINESE_FUEL_MAP). \<not> str_includes l alias)
          \<longrightarrow> normalizeChineseFuel (Some l) = ''OTHER''"
  proof (intro allI impI)
    fix l :: string
    assume a: "l \<noteq> '''' \<and> (\<forall>(code, alias) \<in> set (aliasPairs CHINESE_FUEL_MAP). \<not> str_includes l alias)"
    then have "\<forall>(code, alias) \<in> set (aliasPairs CHINESE_FUEL_MAP). \<not> str_includes (trim l) alias"
      using str_includes_trim by fast
    then have "includedAliasLoop (trim l) (aliasPairs CHINESE_FUEL_MAP) = ''OTHER''"
      by (rule includedAliasLoop_no_match)
    with a show "normalizeChineseFuel (Some l) = ''OTHER''"
      by (simp add: normalizeChineseFuel_def)
  qed
  have nl1: "\<forall>(key, code) \<in> set dutchMapping. mapFuelType_NL (Some key) = Str code"
    using dutch_aliases by (simp only: list_all_iff)
  have nl2: "mapFuelType_NL None = Str ''OTHER''"
    by code_simp
  have nl3: "\<forall>k. k \<notin> fst ` set dutchMapping \<and> k \<notin> set objectPrototypeMembers
          \<longrightarrow> mapFuelType_NL (Some k) = Str ''OTHER''"
    by (simp add: mapFuelType_NL_def keyOfArgument_def lookupOr_not_owned)
  have no1: "\<forall>(key, code) \<in> set norwegianMapping. mapFuelType_NO (Some key) = Str code"
    using norwegian_aliases by (simp only: list_all_iff)
  have no2: "mapFuelType_NO None = Str ''UNKNOWN''"
    by code_simp
  have no3: "\<forall>k. k \<notin> fst ` set norwegianMapping \<and> k \<notin> set objectPrototypeMembers
          \<longrightarrow> mapFuelType_NO (Some k) = Str ''UNKNOWN''"
    by (simp add: mapFuelType_NO_def keyOfArgument_def lookupOr_not_owned)
  have de1: "mapGermanFuelType None = ''UNKNOWN''" "mapGermanFuelType (Some '''') = ''UNKNOWN''"
    by (simp_all add: mapGermanFuelType_def mapByFirstKey_def)
  have de2: "\<forall>n. asciiText n
              \<and> (\<forall>(key, v) \<in> set germanMapping. \<not> str_includes (trim (toLowerCase n)) key)
          \<longrightarrow> mapGermanFuelType (Some n) = ''UNKNOWN''"
    by (simp add: mapGermanFuelType_def mapByFirstKey_def firstIncludedKey_no_match)
  have de3: "\<forall>(key, code) \<in> set germanMapping.
          asciiText key \<and> key \<notin> set [''plug-in-hybrid'', ''plug-in hybrid'']
          \<longrightarrow> mapGermanFuelType (Some key) = code"
    using german_ascii_aliases unfolding list_all_iff by fast
  have ac1: "mapAceaFuelType None = ''UNKNOWN''" "mapAceaFuelType (Some '''') = ''UNKNOWN''"
    by (simp_all add: mapAceaFuelType_def mapByFirstKey_def)
  have ac2: "\<forall>n. asciiText n
              \<and> (\<forall>(key, v) \<in> set aceaMapping. \<not> str_includes (trim (toLowerCase n)) key)
          \<longrightarrow> mapAceaFuelType (Some n) = ''UNKNOWN''"
    by (simp add: mapAceaFuelType_def mapByFirstKey_def firstIncludedKey_no_match)
  have ac3: "\<forall>(key, code) \<in> set aceaMapping.
          key \<noteq> ''hybrid electric'' \<longrightarrow> mapAceaFuelType (Some key) = code"
    using acea_aliases unfolding list_all_iff by fast
  show ?thesis
    by (intro conjI fr1 fr2 fr3 se1 se2 se3 cn1 cn2 cn3 nl1 nl2 nl3 no1 no2 no3 de1 de2 de3 ac1 ac2 ac3)
qed


theorem normalizers_by_design_witness:
  "(''GASOLINE'', ''Essence'') \<in> set (aliasPairs FRENCH_FUEL_MAP)
   \<and> normalizeFrenchFuel (Some ''Essence'') = ''GASOLINE''
   \<and> asciiText ''Period''
   \<and> list_all (\<lambda>(code, alias). \<not> str_includes (cleanLabel ''Period'') (cleanAlias alias))
        (aliasPairs FRENCH_FUEL_MAP)
   \<and> normalizeFrenchFuel (Some ''Period'') = ''OTHER''
   \<and> asciiText ''plug-in hybrid diesel''
   \<and> list_all (\<lambda>(code, alias). toLowerCase (trim ''plug-in hybrid diesel'') \<noteq> toLowerCase alias)
        (aliasPairs SWEDISH_FUEL_MAP)
   \<and> normalizeSwedishFuel (Some ''plug-in hybrid diesel'') = ''OTHER''
   \<and> list_all (\<lambda>(code, alias). \<not> str_includes [CHR 0xE6, CHR 0x96, CHR 0xB0, CHR 0xE8, CHR 0x83, CHR 0xBD, CHR 0xE6, CHR 0xBA, CHR 0x90] alias)
        (aliasPairs CHINESE_FUEL_MAP)
   \<and> normalizeChineseFuel (Some [CHR 0xE6, CHR 0x96, CHR 0xB0, CHR 0xE8, CHR 0x83, CHR 0xBD, CHR 0xE6, CHR 0xBA, CHR 0x90]) = ''OTHER''
   \<and> ''Hybride'' \<notin> fst ` set dutchMapping \<and> ''Hybride'' \<notin> set objectPrototypeMembers
   \<and> mapFuelType_NL (Some ''Hybride'') = Str ''OTHER''
   \<and> asciiText ''Ethanol''
   \<and> list_all (\<lambda>(key, v). \<not> str_includes (trim (toLowerCase ''Ethanol'')) key) germanMapping
   \<and> mapGermanFuelType (Some ''Ethanol'') = ''UNKNOWN''
   \<and> (''diesel'', ''DIESEL'') \<in> set germanMapping \<and> asciiText ''diesel''
   \<and> ''diesel'' \<notin> set [''plug-in-hybrid'', ''plug-in hybrid'']
   \<and> mapGermanFuelType (Some ''diesel'') = ''DIESEL''
   \<and> list_all (\<lambda>(key, v). \<not> str_includes (trim (toLowerCase ''Ethanol'')) key) aceaMapping
   \<and> mapAceaFuelType (Some ''Ethanol'') = ''UNKNOWN''
   \<and> (''phev'', ''PHEV'') \<in> set aceaMapping \<and> ''phev'' \<noteq> ''hybrid electric''
   \<and> mapAceaFuelType (Some ''phev'') = ''PHEV''"
proof -
  note t = normalizers_by_design
  have a1: "(''GASOLINE'', ''Essence'') \<in> set (aliasPairs FRENCH_FUEL_MAP)"
    by code_simp
  have a2: "list_all (\<lambda>(code, alias). \<not> str_includes (cleanLabel ''Period'') (cleanAlias alias))
        (aliasPairs FRENCH_FUEL_MAP)"
    by code_simp
  have a3: "list_all (\<lambda>(code, alias). toLowerCase (trim ''plug-in hybrid diesel'') \<noteq> toLowerCase alias)
        (aliasPairs SWEDISH_FUEL_MAP)"
    by code_simp
  have a4: "''Hybride'' \<notin> fst ` set dutchMapping" "''Hybride'' \<notin> set objectPrototypeMembers"
    by (simp_all add: dutchMapping_def objectPrototypeMembers_def)
  have a5: "list_all (\<lambda>(key, v). \<not> str_includes (trim (toLowerCase ''Ethanol'')) key) germanMapping"
    by code_simp
  have a6: "(''diesel'', ''DIESEL'') \<in> set germanMapping"
    by (simp add: germanMapping_def)
  have a7: "list_all (\<lambda>(code, alias). \<not> str_includes [CHR 0xE6, CHR 0x96, CHR 0xB0, CHR 0xE8, CHR 0x83, CHR 0xBD, CHR 0xE6, CHR 0xBA, CHR 0x90] alias)
        (aliasPairs CHINESE_FUEL_MAP)"
    by code_simp
  have a8: "list_all (\<lambda>(key, v). \<not> str_includes (trim (toLowerCase ''Ethanol'')) key) aceaMapping"
    by code_simp
  have a9: "(''phev'', ''PHEV'') \<in> set aceaMapping" "''phev'' \<noteq> ''hybrid electric''"
    by (simp_all add: aceaMapping_def)
  have as: "asciiText ''Period''" "asciiText ''plug-in hybrid diesel''" "asciiText ''Ethanol''"
      "asciiText ''diesel''"
    by (simp_all add: asciiText_def)
  have pl: "''diesel'' \<notin> set [''plug-in-hybrid'', ''plug-in hybrid'']" by simp
  have b1: "normalizeFrenchFuel (Some ''Essence'') = ''GASOLINE''"
    using t a1 by fast
  have b2: "normalizeFrenchFuel (Some ''Period'') = ''OTHER''"
    using t a2 [unfolded list_all_iff] as(1) by simp
  have b3: "normalizeSwedishFuel (Some ''plug-in hybrid diesel'') = ''OTHER''"
    using t a3 [unfolded list_all_iff] as(2) by simp
  have b4: "mapFuelType_NL (Some ''Hybride'') = Str ''OTHER''"
    using t a4 by simp
  have b5: "mapGermanFuelType (Some ''Ethanol'') = ''UNKNOWN''"
    using t a5 [unfolded list_all_iff] as(3) by simp
  have b6: "mapGermanFuelType (Some ''diesel'') = ''DIESEL''"
    using t a6 as(4) pl by fast
  have b7: "normalizeChineseFuel (Some [CHR 0xE6, CHR 0x96, CHR 0xB0, CHR 0xE8, CHR 0x83, CHR 0xBD, CHR 0xE6, CHR 0xBA, CHR 0x90]) = ''OTHER''"
    using t a7 [unfolded list_all_iff] by simp
  have b8: "mapAceaFuelType (Some ''Ethanol'') = ''UNKNOWN''"
    using t a8 [unfolded list_all_iff] as(3) by simp
  have b9: "mapAceaFuelType (Some ''phev'') = ''PHEV''"
    using t a9 by fast
  show ?thesis
    by (intro conjI a1 a2 a3 a4 a5 a6 a7 a8 a9 as pl b1 b2 b3 b4 b5 b6 b7 b8 b9)
qed

section \<open>Spreadsheet extraction\<close>

lemma set_objPut: "set (objPut obj k v) \<subseteq> insert (k, v) (set obj)"
  by (induction obj) (auto split: if_splits)

lemma set_objectEntries: "set (objectEntries obj) = set obj"
  by (auto simp: objectEntries_def)

lemma aggregateColumns_positive:
  "\<forall>(k, v) \<in> set aggregated. 0 < v \<Longrightarrow>
     \<forall>(k, v) \<in> set (aggregateColumns colMapping row aggregated). 0 < v"
proof (induction colMapping arbitrary: aggregated)
  case Nil
  then show ?case by simp
next
  case (Cons cm colMapping)
  obtain colIdx fuelCode where cm: "cm = (colIdx, fuelCode)" by (cases cm)
  let ?val = "cellParseIntOr0 (cellAt row colIdx)"
  let ?old = "case map_of aggregated fuelCode of None \<Rightarrow> 0 | Some t \<Rightarrow> t"
  show ?case
  proof (cases "0 < ?val")
    case False
    then show ?thesis using Cons cm by simp
  next
    case True
    have old: "0 \<le> ?old"
    proof (cases "map_of aggregated fuelCode")
      case None
      then show ?thesis by simp
    next
      case (Some t)
      then have "(fuelCode, t) \<in> set aggregated" by (rule map_of_SomeD)
      with Cons.prems Some show ?thesis by fastforce
    qed
    have "\<forall>(k, v) \<in> set (objPut aggregated fuelCode (?old + ?val)). 0 < v"
      using set_objPut [of aggregated fuelCode "?old + ?val"] Cons.prems True old by fastforce
    from Cons.IH [OF this] True cm show ?thesis by (simp add: Let_def)
  qed
qed

lemma entriesOf_positive:
  "e \<in> set (entriesOf brand model (aggregateColumns colMapping row [])) \<Longrightarrow> 0 < total e"
  using aggregateColumns_positive [of "[]" colMapping row]
  by (fastforce simp: entriesOf_def set_objectEntries)

lemma processDataRow_cases:
  "processDataRow layout colMapping found row st k = Some f \<Longrightarrow>
     st k = Some f \<or> (st k = None \<and> (\<forall>e \<in> set (rec_data f). 0 < total e)
        \<and> rec_region f = Some (regionCode layout) \<and> rec_type f = Some ''all'')"
  by (auto simp: processDataRow_def Let_def writeFileSync_def existsSync_def entriesOf_positive
        split: if_splits)

lemma processDataRow_keeps:
  "st k = Some f \<Longrightarrow> processDataRow layout colMapping found row st k = Some f"
  by (auto simp: processDataRow_def Let_def writeFileSync_def existsSync_def)

lemma fold_processDataRow_keeps:
  "st k = Some f \<Longrightarrow> fold (processDataRow layout colMapping found) rows st k = Some f"
  by (induction rows arbitrary: st) (simp_all add: processDataRow_keeps)

lemma fold_processDataRow_cases:
  "fold (processDataRow layout colMapping found) rows st k = Some f \<Longrightarrow>
     st k = Some f \<or> (st k = None \<and> (\<forall>e \<in> set (rec_data f). 0 < total e)
        \<and> rec_region f = Some (regionCode layout) \<and> rec_type f = Some ''all'')"
proof (induction rows arbitrary: st)
  case Nil
  then show ?case by simp
next
  case (Cons row rows)
  let ?st1 = "processDataRow layout colMapping found row st"
  from Cons.prems have "fold (processDataRow layout colMapping found) rows ?st1 k = Some f" by simp
  from Cons.IH [OF this] show ?case
  proof
    assume "?st1 k = Some f"
    then show ?thesis by (rule processDataRow_cases)
  next
    assume a: "?st1 k = None \<and> (\<forall>e \<in> set (rec_data f). 0 < total e)
        \<and> rec_region f = Some (regionCode layout) \<and> rec_type f = Some ''all''"
    have "st k = None"
    proof (cases "st k")
      case None then show ?thesis .
    next
      case (Some g)
      then have "?st1 k = Some g" by (rule processDataRow_keeps)
      with a show ?thesis by simp
    qed
    with a show ?thesis by simp
  qed
qed

lemma processSheet_keeps:
  "st k = Some f \<Longrightarrow> processSheet layout rows st k = Some f"
  by (simp add: processSheet_def Let_def fold_processDataRow_keeps split: option.splits)

lemma processSheet_cases:
  "processSheet layout rows st k = Some f \<Longrightarrow>
     st k = Some f \<or> (st k = None \<and> (\<forall>e \<in> set (rec_data f). 0 < total e)
        \<and> rec_region f = Some (regionCode layout) \<and> rec_type f = Some ''all'')"
  by (auto simp: processSheet_def Let_def split: option.splits dest: fold_processDataRow_cases)

text \<open>
  Claim C7 as stated fails. On the sheet with the header row
  \<open>Period, Gazole, Essence, Electrique\<close> and the data row \<open>2023_05, 100, 50, 25\<close>
  the record written for 2023-05 holds GASOLINE 50 and BEV 25 and no DIESEL entry.
\<close>

theorem exampleSheet_has_no_diesel_counterexample:
  "map_option fuelTotals
     (snd (fetchAllEVData_FR (Sheet exampleSheet) Map.empty) (''FR'', ''2023-05.json''))
     = Some [(''GASOLINE'', 50), (''BEV'', 25)]
   \<and> map_option fuelTotals
     (snd (fetchAllEVData_FR (Sheet exampleSheet) Map.empty) (''FR'', ''2023-05.json''))
     \<noteq> Some [(''DIESEL'', 100), (''GASOLINE'', 50), (''BEV'', 25)]
   \<and> normalizeFrenchFuel (Some ''Gazole'') = ''OTHER''"
  by code_simp

text \<open>
  Claim C7 as amended. On that sheet the extractor writes the record of 2023-05 with
  exactly the entries GASOLINE 50 and BEV 25: the header \<open>Gazole\<close> contains no alias of
  \<open>FRENCH_FUEL_MAP\<close>, whose diesel aliases are \<open>Gazole (thermique)\<close> and
  \<open>Diesel\<close>, so its column is not mapped. With the header \<open>Gazole (thermique)\<close> in
  its place the entries are exactly DIESEL 100, GASOLINE 50 and BEV 25.
\<close>

theorem exampleSheet_extraction:
  "snd (fetchAllEVData_FR (Sheet exampleSheet) Map.empty) (''FR'', ''2023-05.json'') =
     Some \<lparr>rec_year = 2023, rec_month = 5,
          rec_data =
            [\<lparr>marque = ''Toutes marques'', modele = ''Tous mod'' @ [CHR 0xC3, CHR 0xA8] @ ''les'',
               total = 50, energie = ''GASOLINE''\<rparr>,
             \<lparr>marque = ''Toutes marques'', modele = ''Tous mod'' @ [CHR 0xC3, CHR 0xA8] @ ''les'',
               total = 25, energie = ''BEV''\<rparr>],
          rec_region = Some ''FR'', rec_type = Some ''all''\<rparr>
   \<and> map_option fuelTotals
       (snd (fetchAllEVData_FR (Sheet exampleSheetRegistered) Map.empty) (''FR'', ''2023-05.json''))
       = Some [(''DIESEL'', 100), (''GASOLINE'', 50), (''BEV'', 25)]"
  by code_simp

section \<open>ACEA press-release PDFs\<close>

lemmas string_eval = isSpace_def isDigit_def parseInt_def digitsVal_def digitVal_def trim_def Let_def
  List.map_filter_def

lemma mathRound_of_int: "mathRound (of_int k) = k"
  unfolding mathRound_def by (rule floor_unique) simp_all

lemma mathRound_numeral: "mathRound (numeral n) = numeral n"
  using mathRound_of_int [of "numeral n"] by simp

lemma assignSlots_degraded:
  "assignSlots [b, b', p, p', oth, oth', g, g', d, d', t, t'] = sixEntries b p 0 d g oth"
  by (simp add: assignSlots_def numberAt_def)

lemma assignSlots_full:
  "assignSlots [b, b', p, p', h, h', oth, oth', g, g', d, d', t, t'] = sixEntries b p h d g oth"
  by (simp add: assignSlots_def numberAt_def)

lemma assignSlots_text_degraded:
  "assignSlots_text [b, b', p, p', oth, oth', g, g', d, d', t, t'] = sixEntries b p oth t d g"
  by (simp add: assignSlots_text_def numberAt_def)

lemma parsePdfData_six:
  "parsePdfData pages cc = Inr result \<Longrightarrow>
     map fst result = [''BEV'', ''PHEV'', ''HYBRID'', ''DIESEL'', ''GASOLINE'', ''OTHER'']"
  by (auto simp: parsePdfData_def assignSlots_def sixEntries_def Let_def split: option.splits if_splits)

lemma parsePdfData_text_six:
  "parsePdfData_text pages cc = Inr result \<Longrightarrow>
     map fst result = [''BEV'', ''PHEV'', ''HYBRID'', ''DIESEL'', ''GASOLINE'', ''OTHER'']"
  by (auto simp: parsePdfData_text_def assignSlots_text_def sixEntries_def Let_def split: option.splits if_splits)

lemma processAceaMonth_writes:
  "fetchAceaPdf y m = Some doc \<Longrightarrow> parser doc cc = Inr result \<Longrightarrow>
     processAceaMonth parser fetchAceaPdf y m cc outDir st (outDir, monthCode y m @ ''.json'')
       = Some (aceaOutput y m result)"
  by (simp add: processAceaMonth_def writeFileSync_def)

lemma aceaOutput_keeps:
  "map (\<lambda>e. (energie e, total e)) (rec_data (aceaOutput y m result)) = result"
  by (simp add: aceaOutput_def o_def split_def)


lemma parsePdfData_degradedRowExample:
  "parsePdfData degradedRowExample ''FR'' =
     Inr [(''BEV'', 25000), (''PHEV'', 9000), (''HYBRID'', 0), (''DIESEL'', 8000),
          (''GASOLINE'', 30000), (''OTHER'', 3000)]"
  by (simp add: parsePdfData_def degradedRowExample_def lineOfFragments_def enumerate_eq_zip upt_rec
      enDash_def countryVariations_def countryNames_def findCountryRow_def sortedRows_def
      buildRowMap_def mathRound_numeral isCountryRow_def isDataRow_def rowNumbers_def
      hasSignOrPercent_def dashGlyphs_def unsignedNumber_def removeCommas_def string_eval
      assignSlots_def sixEntries_def numberAt_def)

lemma parsePdfData_text_degradedRowExample:
  "parsePdfData_text degradedRowExample ''FR'' =
     Inr [(''BEV'', 25000), (''PHEV'', 9000), (''HYBRID'', 3000), (''DIESEL'', 75000),
          (''GASOLINE'', 8000), (''OTHER'', 30000)]"
  by (simp add: parsePdfData_text_def degradedRowExample_def lineOfFragments_def enumerate_eq_zip
      upt_rec pdfText_def enDash_def countryVariations_def countryNames_def textNumbers_def
      numberMatchAt_def decimalPart_def stripNumber_def string_eval assignSlots_text_def
      sixEntries_def numberAt_def)

text \<open>
  Claim C8, at the input where the code departs from it. In \<open>degradedRowExample\<close> the
  hybrid pair of the row of France is replaced by en dashes, which leaves twelve
  numbers. The extractor of src/unnamed/part\_006 accepts twelve numbers and reads
  the even places 0 to 10 all the same: HYBRID receives the value of the other fuels
  (3000), OTHER that of petrol, GASOLINE that of diesel and DIESEL the total (75000).
  The extractor of scripts/parsers/FR.js on the same document sees fewer than 14
  numbers and returns BEV 25000, PHEV 9000, HYBRID 0, DIESEL 8000, GASOLINE 30000.
\<close>

theorem parsePdfData_text_misaligns_degraded_row:
  "parsePdfData_text degradedRowExample ''FR'' =
     Inr [(''BEV'', 25000), (''PHEV'', 9000), (''HYBRID'', 3000), (''DIESEL'', 75000),
          (''GASOLINE'', 8000), (''OTHER'', 30000)]
   \<and> parsePdfData degradedRowExample ''FR'' =
     Inr [(''BEV'', 25000), (''PHEV'', 9000), (''HYBRID'', 0), (''DIESEL'', 8000),
          (''GASOLINE'', 30000), (''OTHER'', 3000)]"
  using parsePdfData_text_degradedRowExample parsePdfData_degradedRowExample by (rule conjI)

text \<open>
  Claim C10. Whenever either PDF extractor succeeds, its result is the six entries
  BEV, PHEV, HYBRID, DIESEL, GASOLINE and OTHER in this order; \<open>processAceaMonth\<close>
  then writes the file of the month with exactly these entries and totals, a total
  of 0 included. The spreadsheet path differs: every entry of a file it writes has
  a positive total.
\<close>

theorem pdf_six_entries_zero_kept:
  "(parsePdfData pages cc = Inr result \<longrightarrow>
      map fst result = [''BEV'', ''PHEV'', ''HYBRID'', ''DIESEL'', ''GASOLINE'', ''OTHER''])
   \<and> (parsePdfData_text pages cc = Inr result \<longrightarrow>
      map fst result = [''BEV'', ''PHEV'', ''HYBRID'', ''DIESEL'', ''GASOLINE'', ''OTHER''])
   \<and> (fetchAceaPdf y m = Some doc \<and> parser doc cc = Inr result \<longrightarrow>
      map_option fuelTotals
        (processAceaMonth parser fetchAceaPdf y m cc outDir st (outDir, monthCode y m @ ''.json''))
        = Some result)
   \<and> (st k = None \<and> processSheet layout rows st k = Some f \<longrightarrow>
      (\<forall>e \<in> set (rec_data f). 0 < total e))"
proof (intro conjI impI)
  assume "parsePdfData pages cc = Inr result"
  then show "map fst result = [''BEV'', ''PHEV'', ''HYBRID'', ''DIESEL'', ''GASOLINE'', ''OTHER'']"
    by (rule parsePdfData_six)
next
  assume "parsePdfData_text pages cc = Inr result"
  then show "map fst result = [''BEV'', ''PHEV'', ''HYBRID'', ''DIESEL'', ''GASOLINE'', ''OTHER'']"
    by (rule parsePdfData_text_six)
next
  assume "fetchAceaPdf y m = Some doc \<and> parser doc cc = Inr result"
  then show "map_option fuelTotals
        (processAceaMonth parser fetchAceaPdf y m cc outDir st (outDir, monthCode y m @ ''.json''))
        = Some result"
    by (simp add: processAceaMonth_writes fuelTotals_def aceaOutput_keeps)
next
  assume "st k = None \<and> processSheet layout rows st k = Some f"
  then show "\<forall>e \<in> set (rec_data f). 0 < total e"
    using processSheet_cases [of layout rows st k f] by simp
qed

theorem pdf_six_entries_zero_kept_witness:
  "parsePdfData degradedRowExample ''FR'' =
     Inr [(''BEV'', 25000), (''PHEV'', 9000), (''HYBRID'', 0), (''DIESEL'', 8000),
          (''GASOLINE'', 30000), (''OTHER'', 3000)]
   \<and> map_option fuelTotals
       (processAceaMonth parsePdfData (\<lambda>y m. Some degradedRowExample) 2025 5 ''FR'' ''FR'' Map.empty
          (''FR'', monthCode 2025 5 @ ''.json''))
       = Some [(''BEV'', 25000), (''PHEV'', 9000), (''HYBRID'', 0), (''DIESEL'', 8000),
               (''GASOLINE'', 30000), (''OTHER'', 3000)]
   \<and> monthCode 2025 5 @ ''.json'' = ''2025-05.json''
   \<and> (Map.empty :: store) (''FR'', ''2023-05.json'') = None
   \<and> map_option fuelTotals (processSheet frenchLayout exampleSheetZero Map.empty (''FR'', ''2023-05.json''))
       = Some [(''DIESEL'', 100), (''BEV'', 25)]
   \<and> list_all (\<lambda>e. 0 < total e)
        (rec_data (the (processSheet frenchLayout exampleSheetZero Map.empty (''FR'', ''2023-05.json''))))"
proof -
  let ?result = "[(''BEV'', 25000), (''PHEV'', 9000), (''HYBRID'', 0), (''DIESEL'', 8000),
          (''GASOLINE'', 30000), (''OTHER'', 3000::int)]"
  let ?k = "(''FR'', ''2023-05.json'')"
  have p: "parsePdfData degradedRowExample ''FR'' = Inr ?result"
    by (rule parsePdfData_degradedRowExample)
  have w: "map_option fuelTotals
       (processAceaMonth parsePdfData (\<lambda>y m. Some degradedRowExample) 2025 5 ''FR'' ''FR'' Map.empty
          (''FR'', monthCode 2025 5 @ ''.json'')) = Some ?result"
    using pdf_six_entries_zero_kept [of degradedRowExample "''FR''" ?result
        "\<lambda>y m. Some degradedRowExample" 2025 5 degradedRowExample parsePdfData] p
    by simp
  have c: "monthCode 2025 5 @ ''.json'' = ''2025-05.json''"
    by code_simp
  have s: "map_option fuelTotals (processSheet frenchLayout exampleSheetZero Map.empty ?k)
       = Some [(''DIESEL'', 100), (''BEV'', 25)]"
    by code_simp
  then obtain f where f: "processSheet frenchLayout exampleSheetZero Map.empty ?k = Some f"
    by auto
  have "\<forall>e \<in> set (rec_data f). 0 < total e"
    using pdf_six_entries_zero_kept [where st = "Map.empty" and k = ?k and layout = frenchLayout
        and rows = exampleSheetZero and f = f] f
    by simp
  then have z: "list_all (\<lambda>e. 0 < total e)
        (rec_data (the (processSheet frenchLayout exampleSheetZero Map.empty ?k)))"
    using f by (simp add: list_all_iff)
  show ?thesis using p w c s z by simp
qed

section \<open>Write-once collection runs\<close>

lemma fold_writeStep_other_key:
  "\<forall>m \<in> set ms. key m \<noteq> k \<Longrightarrow> fold (writeStep f key) ms st k = st k"
  by (induction ms arbitrary: st) (auto simp: writeStep_def split: option.splits)

lemma fold_writeStep_nothing:
  "\<forall>m \<in> set ms. f m = None \<Longrightarrow> fold (writeStep f key) ms st = st"
  by (induction ms arbitrary: st) (auto simp: writeStep_def)

lemma fold_writeStep_dom_mono:
  "st k \<noteq> None \<Longrightarrow> fold (writeStep f key) ms st k \<noteq> None"
  by (induction ms arbitrary: st) (auto simp: writeStep_def split: option.splits)

lemma fold_writeStep_written:
  "m \<in> set ms \<Longrightarrow> f m \<noteq> None \<Longrightarrow> fold (writeStep f key) ms st (key m) \<noteq> None"
proof (induction ms arbitrary: st)
  case Nil
  then show ?case by simp
next
  case (Cons a ms)
  show ?case
  proof (cases "m = a")
    case True
    with Cons.prems obtain v where "f a = Some v" by auto
    then have "writeStep f key a st (key m) \<noteq> None" using True by (simp add: writeStep_def)
    then show ?thesis using fold_writeStep_dom_mono by simp
  next
    case False
    with Cons show ?thesis by simp
  qed
qed

lemma filtered_run_keeps:
  assumes "st k = Some v"
  shows "fold (writeStep f key) (filter (\<lambda>m. st (key m) = None) ms) st k = Some v"
proof -
  have "\<forall>m \<in> set (filter (\<lambda>m. st (key m) = None) ms). key m \<noteq> k"
    using assms by auto
  then show ?thesis using fold_writeStep_other_key [of _ key k f st] assms by simp
qed

lemma filtered_run_idem:
  "fold (writeStep f key)
     (filter (\<lambda>m. fold (writeStep f key) (filter (\<lambda>m. st (key m) = None) ms) st (key m) = None) ms)
     (fold (writeStep f key) (filter (\<lambda>m. st (key m) = None) ms) st)
   = fold (writeStep f key) (filter (\<lambda>m. st (key m) = None) ms) st"
proof -
  define st' where "st' = fold (writeStep f key) (filter (\<lambda>m. st (key m) = None) ms) st"
  have "f m = None" if m: "m \<in> set ms" and miss: "st' (key m) = None" for m
  proof (rule ccontr)
    assume fm: "f m \<noteq> None"
    show False
    proof (cases "st (key m)")
      case None
      then have "m \<in> set (filter (\<lambda>m. st (key m) = None) ms)" using m by simp
      then have "fold (writeStep f key) (filter (\<lambda>m. st (key m) = None) ms) st (key m) \<noteq> None"
        using fm by (rule fold_writeStep_written)
      with miss show False by (simp add: st'_def)
    next
      case (Some v)
      then have "fold (writeStep f key) (filter (\<lambda>m. st (key m) = None) ms) st (key m) = Some v"
        by (rule filtered_run_keeps)
      with miss show False by (simp add: st'_def)
    qed
  qed
  then have "\<forall>m \<in> set (filter (\<lambda>m. st' (key m) = None) ms). f m = None" by simp
  from fold_writeStep_nothing [OF this] show ?thesis by (simp add: st'_def)
qed

lemma fold_writeIfAbsent_keeps:
  "st k = Some v \<Longrightarrow> fold (writeIfAbsent g) rs st k = Some v"
  by (induction rs arbitrary: st) (auto simp: writeIfAbsent_def split: option.splits)

lemma fold_writeIfAbsent_present:
  "r \<in> set rs \<Longrightarrow> g r = Some (k, v) \<Longrightarrow> fold (writeIfAbsent g) rs st k \<noteq> None"
proof (induction rs arbitrary: st)
  case Nil
  then show ?case by simp
next
  case (Cons a rs)
  show ?case
  proof (cases "r = a")
    case True
    with Cons.prems have "writeIfAbsent g a st k \<noteq> None" by (simp add: writeIfAbsent_def)
    then obtain w where "writeIfAbsent g a st k = Some w" by auto
    then have "fold (writeIfAbsent g) rs (writeIfAbsent g a st) k = Some w"
      by (rule fold_writeIfAbsent_keeps)
    then show ?thesis by simp
  next
    case False
    with Cons show ?thesis by simp
  qed
qed

lemma fold_writeIfAbsent_fixed:
  "\<forall>r \<in> set rs. \<forall>k v. g r = Some (k, v) \<longrightarrow> st k \<noteq> None \<Longrightarrow> fold (writeIfAbsent g) rs st = st"
  by (induction rs arbitrary: st) (auto simp: writeIfAbsent_def split: option.splits)

lemma fold_writeIfAbsent_idem:
  "fold (writeIfAbsent g) rs (fold (writeIfAbsent g) rs st) = fold (writeIfAbsent g) rs st"
  by (rule fold_writeIfAbsent_fixed) (auto dest: fold_writeIfAbsent_present)

lemma processAceaMonth_writeStep:
  "processAceaMonth parser fetchAceaPdf (m_year m) (m_month m) countryCode outDir =
     writeStep (aceaMonthFile parser fetchAceaPdf countryCode)
       (\<lambda>m. (outDir, monthCode (m_year m) (m_month m) @ ''.json'')) m"
  by (rule ext) (simp add: processAceaMonth_def writeStep_def aceaMonthFile_def writeFileSync_def
      split: option.splits sum.splits)

lemma getMonthsSinceStart_code:
  "m \<in> set (getMonthsSinceStart now s) \<Longrightarrow> m_code m = monthCode (m_year m) (m_month m)"
  by (auto simp: getMonthsSinceStart_def monthsOfYear_def Let_def)

lemma filterMissingMonths_default:
  "filterMissingMonths disk (getMonthsSinceStart now s) dir defaultFileNamer st =
     (if disk dir
      then Some (filter (\<lambda>m. st (dir, monthCode (m_year m) (m_month m) @ ''.json'') = None)
                   (getMonthsSinceStart now s))
      else None)"
proof -
  have "filter (\<lambda>m. \<not> existsSync st dir (defaultFileNamer m)) (getMonthsSinceStart now s) =
      filter (\<lambda>m. st (dir, monthCode (m_year m) (m_month m) @ ''.json'') = None)
          (getMonthsSinceStart now s)"
    by (rule filter_cong [OF refl]) (simp add: existsSync_def defaultFileNamer_def getMonthsSinceStart_code)
  then show ?thesis by (simp add: filterMissingMonths_def ensureDir_def)
qed

lemma collectAceaData_outcome:
  "fst (collectAceaData disk parser fetchAceaPdf now cc s st) = (if disk cc then Returned else Threw)"
  by (simp add: collectAceaData_def Let_def filterMissingMonths_default ensureDir_def)

lemma collectAceaData_as_fold:
  "snd (collectAceaData disk parser fetchAceaPdf now cc s st) =
     (if disk cc
      then fold (writeStep (aceaMonthFile parser fetchAceaPdf cc)
                   (\<lambda>m. (cc, monthCode (m_year m) (m_month m) @ ''.json'')))
             (filter (\<lambda>m. st (cc, monthCode (m_year m) (m_month m) @ ''.json'') = None)
                (getMonthsSinceStart now s)) st
      else st)"
  by (simp add: collectAceaData_def Let_def filterMissingMonths_default ensureDir_def
      processAceaMonth_writeStep [abs_def])

lemma collectAceaData_keeps:
  "st k = Some f \<Longrightarrow> snd (collectAceaData disk parser fetchAceaPdf now cc s st) k = Some f"
proof (cases "disk cc")
  case True
  assume "st k = Some f"
  then have "fold (writeStep (aceaMonthFile parser fetchAceaPdf cc)
                   (\<lambda>m. (cc, monthCode (m_year m) (m_month m) @ ''.json'')))
             (filter (\<lambda>m. st (cc, monthCode (m_year m) (m_month m) @ ''.json'') = None)
                (getMonthsSinceStart now s)) st k = Some f"
    by (rule filtered_run_keeps)
  with True show ?thesis by (simp add: collectAceaData_as_fold)
next
  case False
  assume "st k = Some f"
  with False show ?thesis by (simp add: collectAceaData_as_fold)
qed

lemma collectAceaData_idem:
  "snd (collectAceaData disk parser fetchAceaPdf now cc s
          (snd (collectAceaData disk parser fetchAceaPdf now cc s st)))
     = snd (collectAceaData disk parser fetchAceaPdf now cc s st)"
proof (cases "disk cc")
  case True
  show ?thesis
    unfolding collectAceaData_as_fold if_P [OF True] by (rule filtered_run_idem)
next
  case False
  then show ?thesis by (simp add: collectAceaData_as_fold)
qed

lemma fetchAllEVData_DE_outcome:
  "fst (fetchAllEVData_DE disk kba now st) = (if disk ''DE'' then Returned else Threw)"
  by (simp add: fetchAllEVData_DE_def Let_def filterMissingMonths_default)

lemma fetchAllEVData_DE_as_fold:
  "snd (fetchAllEVData_DE disk kba now st) =
     (if disk ''DE''
      then fold (writeStep (germanMonthFile kba) (\<lambda>m. (''DE'', monthCode (m_year m) (m_month m) @ ''.json'')))
             (filter (\<lambda>m. st (''DE'', monthCode (m_year m) (m_month m) @ ''.json'') = None)
                (getMonthsSinceStart now 2021)) st
      else st)"
proof -
  have step: "processMonth_DE kba =
      writeStep (germanMonthFile kba) (\<lambda>m. (''DE'', monthCode (m_year m) (m_month m) @ ''.json''))"
    by (intro ext) (simp add: processMonth_DE_def writeStep_def germanMonthFile_def
        saveMonthlyData_DE_def writeFileSync_def split: option.splits)
  show ?thesis
    unfolding fetchAllEVData_DE_def Let_def filterMissingMonths_default step by simp
qed

lemma filterMissingMonths_code:
  "filterMissingMonths disk months dir defaultFileNamer st =
     (if disk dir then Some (filter (\<lambda>m. st (dir, m_code m @ ''.json'') = None) months) else None)"
  by (simp add: filterMissingMonths_def ensureDir_def existsSync_def defaultFileNamer_def)

lemma fetchAllEVData_NL_outcome:
  "fst (fetchAllEVData_NL disk memberText rdw now st) = (if disk ''NL'' then Returned else Threw)"
  by (simp add: fetchAllEVData_NL_def Let_def filterMissingMonths_code)

lemma fetchAllEVData_NL_as_fold:
  "snd (fetchAllEVData_NL disk memberText rdw now st) =
     (if disk ''NL''
      then fold (writeStep (dutchMonthFile memberText rdw) (\<lambda>m. (''NL'', m_code m @ ''.json'')))
             (filter (\<lambda>m. st (''NL'', m_code m @ ''.json'') = None) (getMonthsSinceStart now 2019)) st
      else st)"
proof -
  have step: "processMonth_NL memberText rdw =
      writeStep (dutchMonthFile memberText rdw) (\<lambda>m. (''NL'', m_code m @ ''.json''))"
    by (intro ext) (simp add: processMonth_NL_def writeStep_def dutchMonthFile_def
        saveMonthlyData_NL_def writeFileSync_def Let_def split_def)
  show ?thesis
    unfolding fetchAllEVData_NL_def Let_def filterMissingMonths_code step by simp
qed

lemma processDataRow_writeIfAbsent:
  "processDataRow layout colMapping found = writeIfAbsent (sheetRowFile layout colMapping found)"
  by (intro ext) (simp add: processDataRow_def writeIfAbsent_def sheetRowFile_def Let_def
      existsSync_def writeFileSync_def)

lemma processSheet_idem:
  "processSheet layout rows (processSheet layout rows st) = processSheet layout rows st"
  by (simp add: processSheet_def Let_def processDataRow_writeIfAbsent fold_writeIfAbsent_idem
      split: option.splits)

lemma fetchAllEVData_DE_keeps:
  "st k = Some f \<Longrightarrow> snd (fetchAllEVData_DE disk kba now st) k = Some f"
proof (cases "disk ''DE''")
  case True
  assume "st k = Some f"
  then have "fold (writeStep (germanMonthFile kba) (\<lambda>m. (''DE'', monthCode (m_year m) (m_month m) @ ''.json'')))
             (filter (\<lambda>m. st (''DE'', monthCode (m_year m) (m_month m) @ ''.json'') = None)
                (getMonthsSinceStart now 2021)) st k = Some f"
    by (rule filtered_run_keeps)
  with True show ?thesis by (simp add: fetchAllEVData_DE_as_fold)
next
  case False
  assume "st k = Some f"
  with False show ?thesis by (simp add: fetchAllEVData_DE_as_fold)
qed

lemma fetchAllEVData_DE_idem:
  "snd (fetchAllEVData_DE disk kba now (snd (fetchAllEVData_DE disk kba now st)))
     = snd (fetchAllEVData_DE disk kba now st)"
proof (cases "disk ''DE''")
  case True
  show ?thesis
    unfolding fetchAllEVData_DE_as_fold if_P [OF True] by (rule filtered_run_idem)
next
  case False
  then show ?thesis by (simp add: fetchAllEVData_DE_as_fold)
qed

lemma fetchAllEVData_NL_keeps:
  "st k = Some f \<Longrightarrow> snd (fetchAllEVData_NL disk memberText rdw now st) k = Some f"
proof (cases "disk ''NL''")
  case True
  assume "st k = Some f"
  then have "fold (writeStep (dutchMonthFile memberText rdw) (\<lambda>m. (''NL'', m_code m @ ''.json'')))
             (filter (\<lambda>m. st (''NL'', m_code m @ ''.json'') = None) (getMonthsSinceStart now 2019)) st k
        = Some f"
    by (rule filtered_run_keeps)
  with True show ?thesis by (simp add: fetchAllEVData_NL_as_fold)
next
  case False
  assume "st k = Some f"
  with False show ?thesis by (simp add: fetchAllEVData_NL_as_fold)
qed

lemma fetchAllEVData_NL_idem:
  "snd (fetchAllEVData_NL disk memberText rdw now (snd (fetchAllEVData_NL disk memberText rdw now st)))
     = snd (fetchAllEVData_NL disk memberText rdw now st)"
proof (cases "disk ''NL''")
  case True
  show ?thesis
    unfolding fetchAllEVData_NL_as_fold if_P [OF True] by (rule filtered_run_idem)
next
  case False
  then show ?thesis by (simp add: fetchAllEVData_NL_as_fold)
qed

lemma fetchAllEVData_FR_keeps:
  "st k = Some f \<Longrightarrow> snd (fetchAllEVData_FR src st) k = Some f"
  by (cases src) (simp_all add: fetchAllEVData_FR_def processSheet_keeps)

lemma fetchAllEVData_FR_idem:
  "snd (fetchAllEVData_FR src (snd (fetchAllEVData_FR src st))) = snd (fetchAllEVData_FR src st)"
  by (cases src) (simp_all add: fetchAllEVData_FR_def processSheet_idem)

lemma fetchAllEVData_SE_keeps:
  "st k = Some f \<Longrightarrow> snd (fetchAllEVData_SE src st) k = Some f"
  by (cases src) (simp_all add: fetchAllEVData_SE_def fold_writeIfAbsent_keeps)

lemma fetchAllEVData_SE_idem:
  "snd (fetchAllEVData_SE src (snd (fetchAllEVData_SE src st))) = snd (fetchAllEVData_SE src st)"
  by (cases src) (simp_all add: fetchAllEVData_SE_def fold_writeIfAbsent_idem)

lemma fetchAllEVData_CN_keeps:
  assumes "st k = Some f"
  shows "snd (fetchAllEVData_CN src now st) k = Some f"
proof (cases src)
  case (Posts cnevpost)
  have "fold (writeStep chineseFile chineseKey)
      (filter (\<lambda>item. st (chineseKey item) = None) (cnevpost (hasMonthFile st ''CN''))) st k = Some f"
    using assms by (rule filtered_run_keeps)
  with Posts assms show ?thesis
    by (simp add: fetchAllEVData_CN_def Let_def)
next
  case (Workbook w)
  with assms show ?thesis
    by (cases w) (simp_all add: fetchAllEVData_CN_def processSheet_keeps)
qed

lemma fetchAllEVData_CN_workbook_idem:
  "snd (fetchAllEVData_CN (Workbook w) now (snd (fetchAllEVData_CN (Workbook w) now st)))
     = snd (fetchAllEVData_CN (Workbook w) now st)"
  by (cases w) (simp_all add: fetchAllEVData_CN_def processSheet_idem)

lemma fetchAllEVData_CN_posts_idem:
  assumes same: "set (cnevpost (hasMonthFile (snd (fetchAllEVData_CN (Posts cnevpost) now st)) ''CN''))
      \<subseteq> set (cnevpost (hasMonthFile st ''CN''))"
  shows "snd (fetchAllEVData_CN (Posts cnevpost) now (snd (fetchAllEVData_CN (Posts cnevpost) now st)))
     = snd (fetchAllEVData_CN (Posts cnevpost) now st)"
proof (cases "list_all (hasMonthFile st ''CN'') (recentMonths now)")
  case True
  then show ?thesis by (simp add: fetchAllEVData_CN_def)
next
  case False
  define items where "items = cnevpost (hasMonthFile st ''CN'')"
  define st' where "st' = fold (writeStep chineseFile chineseKey)
      (filter (\<lambda>item. st (chineseKey item) = None) items) st"
  have run1: "snd (fetchAllEVData_CN (Posts cnevpost) now st) = st'"
    using False by (simp add: fetchAllEVData_CN_def Let_def st'_def items_def)
  have none: "chineseFile item = None" if it: "item \<in> set items" and miss: "st' (chineseKey item) = None" for item
  proof (rule ccontr)
    assume fm: "chineseFile item \<noteq> None"
    show False
    proof (cases "st (chineseKey item)")
      case None
      then have "item \<in> set (filter (\<lambda>item. st (chineseKey item) = None) items)" using it by simp
      then have "fold (writeStep chineseFile chineseKey)
          (filter (\<lambda>item. st (chineseKey item) = None) items) st (chineseKey item) \<noteq> None"
        using fm by (rule fold_writeStep_written)
      with miss show False by (simp add: st'_def)
    next
      case (Some v)
      then have "fold (writeStep chineseFile chineseKey)
          (filter (\<lambda>item. st (chineseKey item) = None) items) st (chineseKey item) = Some v"
        by (rule filtered_run_keeps)
      with miss show False by (simp add: st'_def)
    qed
  qed
  have sub: "set (cnevpost (hasMonthFile st' ''CN'')) \<subseteq> set items"
    using same unfolding run1 items_def .
  have "\<forall>item \<in> set (filter (\<lambda>item. st' (chineseKey item) = None) (cnevpost (hasMonthFile st' ''CN''))).
      chineseFile item = None"
    using none sub by auto
  then have "fold (writeStep chineseFile chineseKey)
      (filter (\<lambda>item. st' (chineseKey item) = None) (cnevpost (hasMonthFile st' ''CN''))) st' = st'"
    by (rule fold_writeStep_nothing)
  then have "snd (fetchAllEVData_CN (Posts cnevpost) now st') = st'"
    by (simp add: fetchAllEVData_CN_def Let_def)
  then show ?thesis unfolding run1 .
qed


subsection \<open>Norway: printing and reading a year\<close>

lemma digitChar_table:
  "list_all (\<lambda>d. isDigit (digitChar d) \<and> digitVal (digitChar d) = d) [0 ..< 10]"
  by code_simp

lemma digitChar_digit: "d < 10 \<Longrightarrow> isDigit (digitChar d) \<and> digitVal (digitChar d) = d"
  using digitChar_table unfolding list_all_iff by simp

lemma string_of_nat_digits: "list_all isDigit (string_of_nat n) \<and> string_of_nat n \<noteq> []"
proof (induction n rule: string_of_nat.induct)
  case (1 n)
  show ?case
  proof (cases "n < 10")
    case True
    then show ?thesis by (subst (1 2) string_of_nat.simps) (simp add: digitChar_digit)
  next
    case False
    with 1 show ?thesis by (subst (1 2) string_of_nat.simps) (simp add: digitChar_digit)
  qed
qed

lemma digitsVal_snoc: "digitsVal (ds @ [c]) = 10 * digitsVal ds + int (digitVal c)"
  by (simp add: digitsVal_def)

lemma digitsVal_string_of_nat: "digitsVal (string_of_nat n) = int n"
proof (induction n rule: string_of_nat.induct)
  case (1 n)
  show ?case
  proof (cases "n < 10")
    case True
    then show ?thesis
      by (subst string_of_nat.simps) (simp add: digitsVal_def digitChar_digit)
  next
    case False
    with 1 have ih: "digitsVal (string_of_nat (n div 10)) = int (n div 10)" by simp
    have ar: "10 * int (n div 10) + int (n mod 10) = int n"
      by (simp add: zdiv_int zmod_int)
    have "digitsVal (string_of_nat (n div 10) @ [digitChar (n mod 10)]) = int n"
      unfolding digitsVal_snoc ih using ar by (simp add: digitChar_digit)
    with False show ?thesis
      by (subst string_of_nat.simps) simp
  qed
qed

lemma isDigit_plain: "isDigit c \<Longrightarrow> \<not> isSpace c \<and> c \<noteq> CHR ''-'' \<and> c \<noteq> CHR ''+'' \<and> c \<noteq> CHR ''M''"
  by (auto simp: isDigit_def isSpace_def)

lemma parseInt_digits:
  assumes "ds \<noteq> []" "list_all isDigit ds"
  shows "parseInt ds = Some (digitsVal ds)"
proof -
  from assms obtain c cs where ds: "ds = c # cs" by (cases ds) auto
  with assms have c: "isDigit c" by simp
  have t: "takeWhile isDigit ds = ds"
    using assms(2) by (simp add: takeWhile_eq_all_conv list_all_iff)
  from c have d: "dropWhile isSpace ds = ds" by (simp add: ds isDigit_plain)
  have h: "hd ds = c" by (simp add: ds)
  show ?thesis
    using c assms(1) by (simp add: parseInt_def Let_def d h t isDigit_plain)
qed

lemma parseIntOr0_string_of_int: "0 \<le> y \<Longrightarrow> parseIntOr0 (string_of_int y) = y"
  using string_of_nat_digits [of "nat y"]
  by (simp add: parseIntOr0_def string_of_int_def parseInt_digits digitsVal_string_of_nat)

lemma period_prefix:
  assumes per: "isPeriod [sep] (ys @ sep # ps)" and dig: "list_all isDigit ys" and sep: "\<not> isDigit sep"
  shows "take 4 (ys @ sep # ps) = ys \<and> drop 5 (ys @ sep # ps) = ps"
proof -
  from per have four: "list_all isDigit (take 4 (ys @ sep # ps))" and at: "(ys @ sep # ps) ! 4 = sep"
    by (simp_all add: isPeriod_def)
  have "length ys = 4"
  proof (rule ccontr)
    assume ne: "length ys \<noteq> 4"
    show False
    proof (cases "length ys < 4")
      case True
      then obtain k where k: "4 - length ys = Suc k" by (cases "4 - length ys") auto
      then have "sep \<in> set (take 4 (ys @ sep # ps))" by simp
      with four sep show False by (simp add: list_all_iff)
    next
      case False
      with ne have "4 < length ys" by simp
      then have "(ys @ sep # ps) ! 4 = ys ! 4" and "ys ! 4 \<in> set ys" by (simp_all add: nth_append)
      with at dig sep show False by (simp add: list_all_iff)
    qed
  qed
  then show ?thesis by simp
qed

lemma getMonthsSinceStart_year:
  "m \<in> set (getMonthsSinceStart now s) \<Longrightarrow> s \<le> m_year m"
  by (auto simp: getMonthsSinceStart_def monthsOfYear_def Let_def)

lemma norwegianKey_code:
  assumes "isMonthCodeM (norwegianCode m)" "0 \<le> m_year m"
  shows "norwegianKey (norwegianCode m) = (''NO'', monthCode (m_year m) (m_month m) @ ''.json'')"
proof -
  let ?ys = "string_of_int (m_year m)" and ?ps = "padStart2 (string_of_int (m_month m))"
  have code: "norwegianCode m = ?ys @ CHR ''M'' # ?ps" by (simp add: norwegianCode_def)
  have dig: "list_all isDigit ?ys"
    using assms(2) string_of_nat_digits [of "nat (m_year m)"] by (simp add: string_of_int_def)
  have "\<not> isDigit CHR ''M''" by (simp add: isDigit_def)
  with assms(1) dig have "take 4 (?ys @ CHR ''M'' # ?ps) = ?ys \<and> drop 5 (?ys @ CHR ''M'' # ?ps) = ?ps"
    unfolding isMonthCodeM_def code by (intro period_prefix) simp_all
  then show ?thesis
    using assms(2) unfolding norwegianKey_def code
    by (simp add: parseIntOr0_string_of_int monthCode_def)
qed

lemma norwegianFile_key:
  "norwegianFile memberText code fuelData = Some (k, f) \<Longrightarrow> k = norwegianKey code \<and> isMonthCodeM code"
  by (auto simp: norwegianFile_def norwegianKey_def Let_def split: if_splits)

subsection \<open>Norway: the run as nested loops of writes\<close>

lemma fold_same_at:
  "(\<And>x s. x \<in> set xs \<Longrightarrow> step x s k = s k) \<Longrightarrow> fold step xs s k = s k"
  by (induction xs arbitrary: s) simp_all

lemma fold_stays_written:
  "(\<And>x s. x \<in> set xs \<Longrightarrow> s k \<noteq> None \<Longrightarrow> step x s k \<noteq> None) \<Longrightarrow> s k \<noteq> None \<Longrightarrow>
     fold step xs s k \<noteq> None"
  by (induction xs arbitrary: s) simp_all

lemma fold_some_step_writes:
  assumes "x \<in> set xs" and w: "\<And>s. step x s k \<noteq> None"
    and mono: "\<And>y s. y \<in> set xs \<Longrightarrow> s k \<noteq> None \<Longrightarrow> step y s k \<noteq> None"
  shows "fold step xs s k \<noteq> None"
  using assms(1) mono
proof (induction xs arbitrary: s)
  case Nil
  then show ?case by simp
next
  case (Cons a xs)
  show ?case
  proof (cases "x = a")
    case True
    have "fold step xs (step a s) k \<noteq> None"
      using Cons.prems(2) w True by (intro fold_stays_written) simp_all
    then show ?thesis by simp
  next
    case False
    with Cons.prems have "x \<in> set xs" by simp
    then have "fold step xs (step a s) k \<noteq> None"
      using Cons.prems(2) by (intro Cons.IH) simp_all
    then show ?thesis by simp
  qed
qed

lemma fold_fold_concat: "fold (fold f) xss s = fold f (concat xss) s"
  by (induction xss arbitrary: s) simp_all

lemma chunksOf_subset: "b \<in> set (chunksOf fuel n xs) \<Longrightarrow> set b \<subseteq> set xs"
proof (induction fuel n xs rule: chunksOf.induct)
  case (3 fuel n v va)
  from "3.prems" have "b = take n (v # va) \<or> b \<in> set (chunksOf fuel n (drop n (v # va)))" by simp
  then show ?case
  proof
    assume "b = take n (v # va)"
    then show ?thesis using set_take_subset [of n "v # va"] by simp
  next
    assume "b \<in> set (chunksOf fuel n (drop n (v # va)))"
    then have "set b \<subseteq> set (drop n (v # va))" by (rule "3.IH")
    then show ?thesis using set_drop_subset [of n "v # va"] by blast
  qed
qed simp_all

lemma chunksOf_concat: "0 < n \<Longrightarrow> length xs \<le> fuel \<Longrightarrow> concat (chunksOf fuel n xs) = xs"
proof (induction fuel n xs rule: chunksOf.induct)
  case (3 fuel n v va)
  have "length (drop n (v # va)) \<le> fuel" using "3.prems" by simp
  with "3.prems"(1) have "concat (chunksOf fuel n (drop n (v # va))) = drop n (v # va)"
    by (rule "3.IH")
  then show ?case by simp
qed simp_all

lemma processBatch_NO_as_fold:
  "processBatch_NO memberText ssb monthCodes =
     fold (writeStep (\<lambda>c. map_option snd (norwegianMonthFile memberText ssb monthCodes c)) norwegianKey)
       monthCodes"
proof (cases "fetchMonthsBatch ssb monthCodes")
  case None
  have "fetchSingle_NO memberText ssb =
      writeStep (\<lambda>c. map_option snd (norwegianMonthFile memberText ssb monthCodes c)) norwegianKey"
    using None
    by (intro ext) (auto simp: fetchSingle_NO_def saveFromResults_def saveMonthlyData_NO_def writeStep_def
        norwegianMonthFile_def norwegianData_def writeFileSync_def
        split: option.splits dest: norwegianFile_key)
  with None show ?thesis by (intro ext) (simp add: processBatch_NO_def)
next
  case (Some results)
  have "saveFromResults memberText results =
      writeStep (\<lambda>c. map_option snd (norwegianMonthFile memberText ssb monthCodes c)) norwegianKey"
    using Some
    by (intro ext) (auto simp: saveFromResults_def saveMonthlyData_NO_def writeStep_def
        norwegianMonthFile_def norwegianData_def writeFileSync_def
        split: option.splits dest: norwegianFile_key)
  with Some show ?thesis by (intro ext) (simp add: processBatch_NO_def)
qed

lemma norwegianCodes_missing:
  "map m_code (filter (\<lambda>m. \<not> existsSync st ''NO'' (monthCode (m_year m) (m_month m) @ ''.json''))
       (map (\<lambda>m. m\<lparr>m_code := norwegianCode m\<rparr>) months)) =
   map norwegianCode (filter (\<lambda>m. st (''NO'', monthCode (m_year m) (m_month m) @ ''.json'') = None) months)"
  by (induction months) (simp_all add: existsSync_def norwegianCode_def)

lemma fetchAllEVData_NO_outcome:
  "fst (fetchAllEVData_NO disk memberText ssb now st) = (if disk ''NO'' then Returned else Threw)"
  by (simp add: fetchAllEVData_NO_def Let_def filterMissingMonths_def ensureDir_def)

lemma fetchAllEVData_NO_batches:
  "snd (fetchAllEVData_NO disk memberText ssb now st) =
     (if disk ''NO''
      then (let codes = map norwegianCode
                  (filter (\<lambda>m. st (''NO'', monthCode (m_year m) (m_month m) @ ''.json'') = None)
                     (getMonthsSinceStart now 2011))
            in fold (processBatch_NO memberText ssb) (chunksOf (length codes) 36 codes) st)
      else st)"
  by (simp add: fetchAllEVData_NO_def Let_def filterMissingMonths_def ensureDir_def
      norwegianCodes_missing [symmetric])

lemma norwegian_write_key:
  assumes m: "m \<in> set (getMonthsSinceStart now 2011)"
    and f: "norwegianMonthFile memberText ssb b (norwegianCode m) \<noteq> None"
  shows "norwegianKey (norwegianCode m) = (''NO'', monthCode (m_year m) (m_month m) @ ''.json'')"
proof -
  from f obtain fd k v where "norwegianFile memberText (norwegianCode m) fd = Some (k, v)"
    by (auto simp: norwegianMonthFile_def split: option.splits)
  then have "isMonthCodeM (norwegianCode m)" by (simp add: norwegianFile_key)
  moreover have "0 \<le> m_year m" using getMonthsSinceStart_year [OF m] by simp
  ultimately show ?thesis by (rule norwegianKey_code)
qed

lemma fetchAllEVData_NO_keeps:
  assumes "st k = Some f"
  shows "snd (fetchAllEVData_NO disk memberText ssb now st) k = Some f"
proof (cases "disk ''NO''")
  case False
  with assms show ?thesis by (simp add: fetchAllEVData_NO_batches)
next
  case True
  let ?ms = "filter (\<lambda>m. st (''NO'', monthCode (m_year m) (m_month m) @ ''.json'') = None)
                     (getMonthsSinceStart now 2011)"
  let ?codes = "map norwegianCode ?ms"
  have month: "writeStep (\<lambda>c. map_option snd (norwegianMonthFile memberText ssb b c)) norwegianKey c s k = s k"
    if c: "c \<in> set ?codes" for b c s
  proof (cases "norwegianMonthFile memberText ssb b c")
    case None
    then show ?thesis by (simp add: writeStep_def)
  next
    case (Some kv)
    from c obtain m where m: "m \<in> set (getMonthsSinceStart now 2011)"
        "st (''NO'', monthCode (m_year m) (m_month m) @ ''.json'') = None" "c = norwegianCode m"
      by auto
    from Some m(3) have "norwegianMonthFile memberText ssb b (norwegianCode m) \<noteq> None" by simp
    with m(1) have "norwegianKey c = (''NO'', monthCode (m_year m) (m_month m) @ ''.json'')"
      unfolding m(3) by (rule norwegian_write_key)
    with m(2) assms have "norwegianKey c \<noteq> k" by auto
    then show ?thesis by (simp add: writeStep_def split: option.splits)
  qed
  have batch: "processBatch_NO memberText ssb b s k = s k"
    if b: "b \<in> set (chunksOf (length ?codes) 36 ?codes)" for b s
    unfolding processBatch_NO_as_fold
    using chunksOf_subset [OF b] by (intro fold_same_at month) blast
  have "fold (processBatch_NO memberText ssb) (chunksOf (length ?codes) 36 ?codes) st k = st k"
    by (intro fold_same_at batch)
  with True assms show ?thesis by (simp add: fetchAllEVData_NO_batches Let_def)
qed

lemma fetchAllEVData_NO_written:
  assumes disk: "disk ''NO''" and m: "m \<in> set (getMonthsSinceStart now 2011)"
    and miss: "st (''NO'', monthCode (m_year m) (m_month m) @ ''.json'') = None"
    and data: "\<forall>b. norwegianCode m \<in> set b \<longrightarrow>
        norwegianMonthFile memberText ssb b (norwegianCode m) \<noteq> None"
  shows "snd (fetchAllEVData_NO disk memberText ssb now st)
     (''NO'', monthCode (m_year m) (m_month m) @ ''.json'') \<noteq> None"
proof -
  let ?ms = "filter (\<lambda>m. st (''NO'', monthCode (m_year m) (m_month m) @ ''.json'') = None)
                     (getMonthsSinceStart now 2011)"
  let ?codes = "map norwegianCode ?ms"
  let ?k = "(''NO'', monthCode (m_year m) (m_month m) @ ''.json'')"
  let ?c = "norwegianCode m"
  have "?c \<in> set ?codes" using m miss by simp
  then have "?c \<in> set (concat (chunksOf (length ?codes) 36 ?codes))"
    by (simp add: chunksOf_concat)
  then obtain b where b: "b \<in> set (chunksOf (length ?codes) 36 ?codes)" "?c \<in> set b" by auto
  from data b(2) have fl: "norwegianMonthFile memberText ssb b ?c \<noteq> None" by simp
  from m fl have key: "norwegianKey ?c = ?k" by (rule norwegian_write_key)
  have writes: "processBatch_NO memberText ssb b s ?k \<noteq> None" for s
  proof -
    have "fold (writeStep (\<lambda>c. map_option snd (norwegianMonthFile memberText ssb b c)) norwegianKey) b s
        (norwegianKey ?c) \<noteq> None"
      using b(2) fl by (intro fold_writeStep_written) simp_all
    then show ?thesis by (simp add: processBatch_NO_as_fold key)
  qed
  have mono: "processBatch_NO memberText ssb y s ?k \<noteq> None" if "s ?k \<noteq> None" for y s
    unfolding processBatch_NO_as_fold using that by (rule fold_writeStep_dom_mono)
  have "fold (processBatch_NO memberText ssb) (chunksOf (length ?codes) 36 ?codes) st ?k \<noteq> None"
    using b(1) writes mono by (rule fold_some_step_writes)
  with disk show ?thesis by (simp add: fetchAllEVData_NO_batches Let_def)
qed

lemma fetchAllEVData_NO_as_fold:
  assumes same: "\<forall>b c. c \<in> set b \<longrightarrow> norwegianData ssb b c = norwegianData ssb [c] c"
  shows "snd (fetchAllEVData_NO disk memberText ssb now st) =
     (if disk ''NO''
      then fold (writeStep (\<lambda>m. map_option snd
                     (norwegianMonthFile memberText ssb [norwegianCode m] (norwegianCode m)))
                   (\<lambda>m. (''NO'', monthCode (m_year m) (m_month m) @ ''.json'')))
             (filter (\<lambda>m. st (''NO'', monthCode (m_year m) (m_month m) @ ''.json'') = None)
                (getMonthsSinceStart now 2011)) st
      else st)"
proof (cases "disk ''NO''")
  case False
  then show ?thesis by (simp add: fetchAllEVData_NO_batches)
next
  case True
  let ?ms = "filter (\<lambda>m. st (''NO'', monthCode (m_year m) (m_month m) @ ''.json'') = None)
                     (getMonthsSinceStart now 2011)"
  let ?codes = "map norwegianCode ?ms"
  let ?G = "\<lambda>c. map_option snd (norwegianMonthFile memberText ssb [c] c)"
  have batch: "processBatch_NO memberText ssb = fold (writeStep ?G norwegianKey)"
  proof (rule ext)
    fix b
    have eq: "writeStep (\<lambda>c. map_option snd (norwegianMonthFile memberText ssb b c)) norwegianKey c
        = writeStep ?G norwegianKey c" if "c \<in> set b" for c
    proof -
      from same that have "norwegianData ssb b c = norwegianData ssb [c] c" by blast
      then show ?thesis by (simp add: writeStep_def norwegianMonthFile_def fun_eq_iff)
    qed
    have "fold (writeStep (\<lambda>c. map_option snd (norwegianMonthFile memberText ssb b c)) norwegianKey) b
        = fold (writeStep ?G norwegianKey) b"
    proof (rule ext)
      fix s
      show "fold (writeStep (\<lambda>c. map_option snd (norwegianMonthFile memberText ssb b c)) norwegianKey) b s
        = fold (writeStep ?G norwegianKey) b s"
        by (rule fold_cong [OF refl refl]) (rule eq)
    qed
    then show "processBatch_NO memberText ssb b = fold (writeStep ?G norwegianKey) b"
      by (simp add: processBatch_NO_as_fold)
  qed
  have "fold (processBatch_NO memberText ssb) (chunksOf (length ?codes) 36 ?codes) st
      = fold (fold (writeStep ?G norwegianKey)) (chunksOf (length ?codes) 36 ?codes) st"
    by (simp only: batch)
  also have "\<dots> = fold (writeStep ?G norwegianKey) (concat (chunksOf (length ?codes) 36 ?codes)) st"
    by (rule fold_fold_concat)
  also have "\<dots> = fold (writeStep ?G norwegianKey) ?codes st"
    by (simp add: chunksOf_concat)
  also have "\<dots> = fold (writeStep ?G norwegianKey \<circ> norwegianCode) ?ms st"
    by (simp add: fold_map)
  also have "\<dots> = fold (writeStep (\<lambda>m. ?G (norwegianCode m))
        (\<lambda>m. (''NO'', monthCode (m_year m) (m_month m) @ ''.json''))) ?ms st"
  proof (rule fold_cong [OF refl refl])
    fix m
    assume "m \<in> set ?ms"
    then have m: "m \<in> set (getMonthsSinceStart now 2011)" by simp
    show "(writeStep ?G norwegianKey \<circ> norwegianCode) m =
        writeStep (\<lambda>m. ?G (norwegianCode m)) (\<lambda>m. (''NO'', monthCode (m_year m) (m_month m) @ ''.json'')) m"
    proof (cases "norwegianMonthFile memberText ssb [norwegianCode m] (norwegianCode m)")
      case None
      then show ?thesis by (simp add: writeStep_def fun_eq_iff)
    next
      case (Some kv)
      then have "norwegianMonthFile memberText ssb [norwegianCode m] (norwegianCode m) \<noteq> None" by simp
      with m have k: "norwegianKey (norwegianCode m) = (''NO'', monthCode (m_year m) (m_month m) @ ''.json'')"
        by (rule norwegian_write_key)
      show ?thesis by (rule ext) (simp only: comp_def writeStep_def k)
    qed
  qed
  finally show ?thesis using True by (simp add: fetchAllEVData_NO_batches Let_def)
qed

lemma fetchAllEVData_NO_idem:
  assumes "\<forall>b c. c \<in> set b \<longrightarrow> norwegianData ssb b c = norwegianData ssb [c] c"
  shows "snd (fetchAllEVData_NO disk memberText ssb now (snd (fetchAllEVData_NO disk memberText ssb now st)))
     = snd (fetchAllEVData_NO disk memberText ssb now st)"
proof (cases "disk ''NO''")
  case True
  show ?thesis
    unfolding fetchAllEVData_NO_as_fold [OF assms] if_P [OF True] by (rule filtered_run_idem)
next
  case False
  then show ?thesis by (simp add: fetchAllEVData_NO_as_fold [OF assms])
qed

text \<open>
  Claim C3. A file that is in the store when a run starts is still there, unchanged,
  when the run ends: this holds for the runs of ACEA (for every country code, parser
  and start year), Germany, the Netherlands, Norway, France, Sweden and China, whatever
  the network answers and whether or not the output directory can be created. A second
  run right after the first, on the store that the first run left and with the same
  answers of the network, leaves that store as it is. For the Chinese scrape, whose
  answer depends on the store it is given, the same answers means that the second
  scrape finds no item that the first did not find. For Norway, where the months are
  requested in batches that depend on the store, it means that the data of a month are
  the same in whichever batch the month is requested.
\<close>

theorem collection_write_once_idempotent:
  "(st k = Some f \<longrightarrow>
      snd (collectAceaData disk parser fetchAceaPdf now cc startYear st) k = Some f
      \<and> snd (fetchAllEVData_DE disk kba now st) k = Some f
      \<and> snd (fetchAllEVData_NL disk memberText rdw now st) k = Some f
      \<and> snd (fetchAllEVData_NO disk memberText ssb now st) k = Some f
      \<and> snd (fetchAllEVData_FR excel st) k = Some f
      \<and> snd (fetchAllEVData_SE csv st) k = Some f
      \<and> snd (fetchAllEVData_CN cn now st) k = Some f)
   \<and> snd (collectAceaData disk parser fetchAceaPdf now cc startYear
              (snd (collectAceaData disk parser fetchAceaPdf now cc startYear st)))
       = snd (collectAceaData disk parser fetchAceaPdf now cc startYear st)
   \<and> snd (fetchAllEVData_DE disk kba now (snd (fetchAllEVData_DE disk kba now st)))
       = snd (fetchAllEVData_DE disk kba now st)
   \<and> snd (fetchAllEVData_NL disk memberText rdw now (snd (fetchAllEVData_NL disk memberText rdw now st)))
       = snd (fetchAllEVData_NL disk memberText rdw now st)
   \<and> ((\<forall>b c. c \<in> set b \<longrightarrow> norwegianData ssb b c = norwegianData ssb [c] c) \<longrightarrow>
        snd (fetchAllEVData_NO disk memberText ssb now (snd (fetchAllEVData_NO disk memberText ssb now st)))
        = snd (fetchAllEVData_NO disk memberText ssb now st))
   \<and> snd (fetchAllEVData_FR excel (snd (fetchAllEVData_FR excel st)))
       = snd (fetchAllEVData_FR excel st)
   \<and> snd (fetchAllEVData_SE csv (snd (fetchAllEVData_SE csv st)))
       = snd (fetchAllEVData_SE csv st)
   \<and> snd (fetchAllEVData_CN (Workbook w) now (snd (fetchAllEVData_CN (Workbook w) now st)))
       = snd (fetchAllEVData_CN (Workbook w) now st)
   \<and> (set (cnevpost (hasMonthFile (snd (fetchAllEVData_CN (Posts cnevpost) now st)) ''CN''))
          \<subseteq> set (cnevpost (hasMonthFile st ''CN'')) \<longrightarrow>
        snd (fetchAllEVData_CN (Posts cnevpost) now (snd (fetchAllEVData_CN (Posts cnevpost) now st)))
        = snd (fetchAllEVData_CN (Posts cnevpost) now st))"
  by (intro conjI impI collectAceaData_keeps fetchAllEVData_DE_keeps fetchAllEVData_NL_keeps
      fetchAllEVData_NO_keeps fetchAllEVData_FR_keeps fetchAllEVData_SE_keeps fetchAllEVData_CN_keeps
      collectAceaData_idem fetchAllEVData_DE_idem fetchAllEVData_NL_idem fetchAllEVData_NO_idem
      fetchAllEVData_FR_idem fetchAllEVData_SE_idem fetchAllEVData_CN_workbook_idem
      fetchAllEVData_CN_posts_idem)

lemma getMonthsSinceStart_2025_06:
  "getMonthsSinceStart \<lparr>fullYear = 2025, monthIndex = 5\<rparr> 2025 =
     [\<lparr>m_year = 2025, m_month = 1, m_code = ''2025-01''\<rparr>,
      \<lparr>m_year = 2025, m_month = 2, m_code = ''2025-02''\<rparr>,
      \<lparr>m_year = 2025, m_month = 3, m_code = ''2025-03''\<rparr>,
      \<lparr>m_year = 2025, m_month = 4, m_code = ''2025-04''\<rparr>,
      \<lparr>m_year = 2025, m_month = 5, m_code = ''2025-05''\<rparr>,
      \<lparr>m_year = 2025, m_month = 6, m_code = ''2025-06''\<rparr>]"
  by code_simp

lemma monthCode_2025:
  "monthCode 2025 1 = ''2025-01''" "monthCode 2025 2 = ''2025-02''" "monthCode 2025 3 = ''2025-03''"
  "monthCode 2025 4 = ''2025-04''" "monthCode 2025 5 = ''2025-05''" "monthCode 2025 6 = ''2025-06''"
  by (simp_all add: monthCode_def string_of_int_def string_of_nat.simps digitChar_def padStart2_def)

lemma collectAceaData_2025_06:
  "map_option fuelTotals
     (snd (collectAceaData (\<lambda>dir. True) parsePdfData (\<lambda>y m. Some degradedRowExample)
        \<lparr>fullYear = 2025, monthIndex = 5\<rparr> ''FR'' 2025
        [(''FR'', ''2025-05.json'') \<mapsto> aceaOutput 2025 5 []]) (''FR'', ''2025-06.json''))
   = Some [(''BEV'', 25000), (''PHEV'', 9000), (''HYBRID'', 0), (''DIESEL'', 8000),
           (''GASOLINE'', 30000), (''OTHER'', 3000)]"
  by (simp add: collectAceaData_def Let_def getMonthsSinceStart_2025_06 monthCode_2025
      filterMissingMonths_def ensureDir_def existsSync_def defaultFileNamer_def processAceaMonth_def
      parsePdfData_degradedRowExample writeFileSync_def fuelTotals_def aceaOutput_def)

theorem collection_write_once_idempotent_witness:
  "[(''FR'', ''2025-05.json'') \<mapsto> aceaOutput 2025 5 []] (''FR'', ''2025-05.json'')
     = Some (aceaOutput 2025 5 [])
   \<and> snd (collectAceaData (\<lambda>dir. True) parsePdfData (\<lambda>y m. Some degradedRowExample)
        \<lparr>fullYear = 2025, monthIndex = 5\<rparr> ''FR'' 2025
        [(''FR'', ''2025-05.json'') \<mapsto> aceaOutput 2025 5 []]) (''FR'', ''2025-05.json'')
       = Some (aceaOutput 2025 5 [])
   \<and> map_option fuelTotals
        (snd (collectAceaData (\<lambda>dir. True) parsePdfData (\<lambda>y m. Some degradedRowExample)
        \<lparr>fullYear = 2025, monthIndex = 5\<rparr> ''FR'' 2025
           [(''FR'', ''2025-05.json'') \<mapsto> aceaOutput 2025 5 []]) (''FR'', ''2025-06.json''))
       = Some [(''BEV'', 25000), (''PHEV'', 9000), (''HYBRID'', 0), (''DIESEL'', 8000),
               (''GASOLINE'', 30000), (''OTHER'', 3000)]
   \<and> snd (collectAceaData (\<lambda>dir. True) parsePdfData (\<lambda>y m. Some degradedRowExample)
        \<lparr>fullYear = 2025, monthIndex = 5\<rparr> ''FR'' 2025
        (snd (collectAceaData (\<lambda>dir. True) parsePdfData (\<lambda>y m. Some degradedRowExample)
        \<lparr>fullYear = 2025, monthIndex = 5\<rparr> ''FR'' 2025
           [(''FR'', ''2025-05.json'') \<mapsto> aceaOutput 2025 5 []])))
       = snd (collectAceaData (\<lambda>dir. True) parsePdfData (\<lambda>y m. Some degradedRowExample)
        \<lparr>fullYear = 2025, monthIndex = 5\<rparr> ''FR'' 2025
           [(''FR'', ''2025-05.json'') \<mapsto> aceaOutput 2025 5 []])
   \<and> set ((\<lambda>ex. [\<lparr>nev_year = 2025, nev_month = 5, nev_NEV = Some 1000000,
                    nev_BEV = Some 600000, nev_PHEV = Some 400000, nev_TOTAL = Some 2500000\<rparr>])
             (hasMonthFile (snd (fetchAllEVData_CN (Posts (\<lambda>ex. [\<lparr>nev_year = 2025, nev_month = 5, nev_NEV = Some 1000000,
                    nev_BEV = Some 600000, nev_PHEV = Some 400000, nev_TOTAL = Some 2500000\<rparr>]))
            \<lparr>fullYear = 2025, monthIndex = 5\<rparr> Map.empty)) ''CN''))
       \<subseteq> set ((\<lambda>ex. [\<lparr>nev_year = 2025, nev_month = 5, nev_NEV = Some 1000000,
                    nev_BEV = Some 600000, nev_PHEV = Some 400000, nev_TOTAL = Some 2500000\<rparr>])
                 (hasMonthFile Map.empty ''CN''))
   \<and> snd (fetchAllEVData_CN (Posts (\<lambda>ex. [\<lparr>nev_year = 2025, nev_month = 5, nev_NEV = Some 1000000,
                    nev_BEV = Some 600000, nev_PHEV = Some 400000, nev_TOTAL = Some 2500000\<rparr>]))
            \<lparr>fullYear = 2025, monthIndex = 5\<rparr>
            (snd (fetchAllEVData_CN (Posts (\<lambda>ex. [\<lparr>nev_year = 2025, nev_month = 5, nev_NEV = Some 1000000,
                    nev_BEV = Some 600000, nev_PHEV = Some 400000, nev_TOTAL = Some 2500000\<rparr>]))
            \<lparr>fullYear = 2025, monthIndex = 5\<rparr> Map.empty)))
       = snd (fetchAllEVData_CN (Posts (\<lambda>ex. [\<lparr>nev_year = 2025, nev_month = 5, nev_NEV = Some 1000000,
                    nev_BEV = Some 600000, nev_PHEV = Some 400000, nev_TOTAL = Some 2500000\<rparr>]))
            \<lparr>fullYear = 2025, monthIndex = 5\<rparr> Map.empty)
   \<and> snd (fetchAllEVData_NO (\<lambda>dir. True) (\<lambda>member. member) (\<lambda>codes. Some exampleResponse)
            \<lparr>fullYear = 2024, monthIndex = 0\<rparr>
            (snd (fetchAllEVData_NO (\<lambda>dir. True) (\<lambda>member. member) (\<lambda>codes. Some exampleResponse)
            \<lparr>fullYear = 2024, monthIndex = 0\<rparr> Map.empty)))
       = snd (fetchAllEVData_NO (\<lambda>dir. True) (\<lambda>member. member) (\<lambda>codes. Some exampleResponse)
            \<lparr>fullYear = 2024, monthIndex = 0\<rparr> Map.empty)"
proof -
  let ?st0 = "[(''FR'', ''2025-05.json'') \<mapsto> aceaOutput 2025 5 []]"
  let ?k = "(''FR'', ''2025-05.json'')"
  let ?now = "\<lparr>fullYear = 2025, monthIndex = 5\<rparr>"
  let ?post = "\<lambda>ex :: string \<Rightarrow> bool. [\<lparr>nev_year = 2025, nev_month = 5, nev_NEV = Some 1000000,
      nev_BEV = Some 600000, nev_PHEV = Some 400000, nev_TOTAL = Some 2500000\<rparr>]"
  let ?ssb = "\<lambda>codes :: string list. Some exampleResponse"
  let ?acea = "collectAceaData (\<lambda>dir. True) parsePdfData (\<lambda>y m. Some degradedRowExample) ?now ''FR'' 2025"
  let ?no = "fetchAllEVData_NO (\<lambda>dir. True) (\<lambda>member. member) ?ssb \<lparr>fullYear = 2024, monthIndex = 0\<rparr>"
  note t = collection_write_once_idempotent [where st = ?st0 and k = ?k
      and f = "aceaOutput 2025 5 []" and parser = parsePdfData and disk = "\<lambda>dir. True"
      and fetchAceaPdf = "\<lambda>y m. Some degradedRowExample" and now = ?now
      and cc = "''FR''" and startYear = 2025]
  note u = collection_write_once_idempotent [where st = Map.empty and cnevpost = ?post and now = ?now]
  note v = collection_write_once_idempotent [where st = Map.empty and ssb = ?ssb
      and disk = "\<lambda>dir. True" and memberText = "\<lambda>member. member"
      and now = "\<lparr>fullYear = 2024, monthIndex = 0\<rparr>"]
  have a: "?st0 ?k = Some (aceaOutput 2025 5 [])" by simp
  have b: "snd (?acea ?st0) ?k = Some (aceaOutput 2025 5 [])"
    by (rule t [THEN conjunct1, THEN mp, OF a, THEN conjunct1])
  have d: "snd (?acea (snd (?acea ?st0))) = snd (?acea ?st0)"
    by (rule t [THEN conjunct2, THEN conjunct1])
  have e: "set (?post (hasMonthFile (snd (fetchAllEVData_CN (Posts ?post) ?now Map.empty)) ''CN''))
       \<subseteq> set (?post (hasMonthFile Map.empty ''CN''))"
    by simp
  have g: "snd (fetchAllEVData_CN (Posts ?post) ?now (snd (fetchAllEVData_CN (Posts ?post) ?now Map.empty)))
       = snd (fetchAllEVData_CN (Posts ?post) ?now Map.empty)"
    by (rule u [THEN conjunct2, THEN conjunct2, THEN conjunct2, THEN conjunct2, THEN conjunct2, THEN conjunct2, THEN conjunct2, THEN conjunct2, THEN mp, OF e])
  have h: "\<forall>b c. c \<in> set b \<longrightarrow> norwegianData ?ssb b c = norwegianData ?ssb [c] c"
    by (simp add: norwegianData_def fetchMonthsBatch_def)
  have i: "snd (?no (snd (?no Map.empty))) = snd (?no Map.empty)"
    by (rule v [THEN conjunct2, THEN conjunct2, THEN conjunct2, THEN conjunct2, THEN conjunct1, THEN mp, OF h])
  show ?thesis
    by (intro conjI a b collectAceaData_2025_06 d e g i)
qed

section \<open>JSON-stat extraction\<close>

lemma map_of_objPut: "map_of (objPut obj k v) = (map_of obj)(k \<mapsto> v)"
  by (induction obj) (auto simp: fun_eq_iff)

lemma resultAt_resultsPut:
  "resultAt (resultsPut results m c v) m' c' =
     (if m' = m \<and> c' = c then Some v else resultAt results m' c')"
  by (auto simp: resultAt_def resultsPut_def map_of_objPut split: option.splits)

lemma resultAt_fill:
  assumes "distinct (map (\<lambda>(i, (f, t)). (codeAt months t, codeAt fuels f)) ws)"
    and "(i, (f, t)) \<in> set ws"
  shows "resultAt (foldl (\<lambda>results (valueIndex, (iFuel, iTime)).
              resultsPut results (codeAt months iTime) (codeAt fuels iFuel) (valueOr0 vs valueIndex))
            r ws) (codeAt months t) (codeAt fuels f) = Some (valueOr0 vs i)"
  using assms
proof (induction ws rule: rev_induct)
  case Nil
  then show ?case by simp
next
  case (snoc w ws)
  obtain j g u where w: "w = (j, (g, u))" by (cases w) auto
  show ?case
  proof (cases "(i, (f, t)) = w")
    case True
    then show ?thesis using w by (simp add: resultAt_resultsPut)
  next
    case False
    with snoc.prems have mem: "(i, (f, t)) \<in> set ws" by simp
    from snoc.prems(1) have d: "distinct (map (\<lambda>(i, (f, t)). (codeAt months t, codeAt fuels f)) ws)"
      and nw: "(codeAt months u, codeAt fuels g) \<notin> (\<lambda>(i, (f, t)). (codeAt months t, codeAt fuels f)) ` set ws"
      using w by simp_all
    from nw mem have "(codeAt months t, codeAt fuels f) \<noteq> (codeAt months u, codeAt fuels g)"
      by force
    then show ?thesis using snoc.IH [OF d mem] w by (auto simp: resultAt_resultsPut)
  qed
qed

lemma loopCells_flat:
  "loopCells 1 F 1 T = map (\<lambda>n. (n div T, n mod T)) [0 ..< F * T]"
proof (cases "T = 0")
  case True
  then show ?thesis by (simp add: loopCells_def)
next
  case False
  have "concat (map (\<lambda>f. map (\<lambda>t. (f, t)) [0 ..< T]) [0 ..< F]) = map (\<lambda>n. (n div T, n mod T)) [0 ..< F * T]"
  proof (induction F)
    case 0
    then show ?case by simp
  next
    case (Suc F)
    have "[0 ..< F * T + T] = [0 ..< F * T] @ [F * T ..< F * T + T]"
      by (rule upt_add_eq_append) simp
    moreover have "[F * T ..< F * T + T] = map (\<lambda>t. F * T + t) [0 ..< T]"
      using map_add_upt [of "F * T" T] by (simp add: add.commute)
    ultimately have split: "[0 ..< F * T + T] = [0 ..< F * T] @ map (\<lambda>t. F * T + t) [0 ..< T]"
      by simp
    have last: "map (\<lambda>n. (n div T, n mod T)) (map (\<lambda>t. F * T + t) [0 ..< T]) = map (\<lambda>t. (F, t)) [0 ..< T]"
      using False by (auto simp: o_def)
    have "concat (map (\<lambda>f. map (\<lambda>t. (f, t)) [0 ..< T]) [0 ..< Suc F])
        = concat (map (\<lambda>f. map (\<lambda>t. (f, t)) [0 ..< T]) [0 ..< F]) @ map (\<lambda>t. (F, t)) [0 ..< T]"
      by simp
    also have "\<dots> = map (\<lambda>n. (n div T, n mod T)) [0 ..< F * T]
        @ map (\<lambda>n. (n div T, n mod T)) (map (\<lambda>t. F * T + t) [0 ..< T])"
      unfolding Suc last ..
    also have "\<dots> = map (\<lambda>n. (n div T, n mod T)) [0 ..< F * T + T]"
      unfolding split by simp
    also have "F * T + T = Suc F * T" by simp
    finally show ?case .
  qed
  then show ?thesis by (simp add: loopCells_def)
qed

lemma enumerate_flat:
  "enumerate 0 (loopCells 1 F 1 T) = map (\<lambda>n. (n, (n div T, n mod T))) [0 ..< F * T]"
  unfolding loopCells_flat by (rule enumerate_map_upt)

lemma codeAt_inj:
  "distinct codes \<Longrightarrow> i < length codes \<Longrightarrow> j < length codes \<Longrightarrow> codeAt codes i = codeAt codes j \<Longrightarrow> i = j"
  by (simp add: codeAt_def nth_eq_iff_index_eq)

lemma flat_keys_distinct:
  assumes "distinct months" "length months = T" "distinct fuels" "length fuels = F"
  shows "distinct (map (\<lambda>(i, (f, t)). (codeAt months t, codeAt fuels f))
            (map (\<lambda>n. (n, (n div T, n mod T))) [0 ..< F * T]))"
proof -
  have "inj_on (\<lambda>n. (codeAt months (n mod T), codeAt fuels (n div T))) {0 ..< F * T}"
  proof (rule inj_onI)
    fix a b assume a: "a \<in> {0 ..< F * T}" and b: "b \<in> {0 ..< F * T}"
      and eq: "(codeAt months (a mod T), codeAt fuels (a div T)) = (codeAt months (b mod T), codeAt fuels (b div T))"
    from a have T: "0 < T" by (cases T) auto
    from a T have ad: "a div T < F" by (simp add: less_mult_imp_div_less mult.commute)
    from b T have bd: "b div T < F" by (simp add: less_mult_imp_div_less mult.commute)
    have am: "a mod T < length months" and bm: "b mod T < length months"
      using T assms(2) by simp_all
    from eq have "codeAt months (a mod T) = codeAt months (b mod T)" by simp
    with assms(1) am bm have "a mod T = b mod T" by (rule codeAt_inj)
    moreover from eq have "codeAt fuels (a div T) = codeAt fuels (b div T)" by simp
    with assms(3) have "a div T = b div T" using ad bd assms(4) by (intro codeAt_inj) simp_all
    ultimately show "a = b" by (metis div_mult_mod_eq)
  qed
  then show ?thesis by (simp add: distinct_map o_def split_def)
qed


lemma parseJsonStat_exampleResponse:
  "parseJsonStat exampleResponse =
     Inr [(''2024M01'', [(''19'', 10), (''20'', 40)]), (''2024M02'', [(''19'', 20), (''20'', 50)]),
          (''2024M03'', [(''19'', 30), (''20'', 60)])]"
  by code_simp

text \<open>
  Claim C4 as stated fails. \<open>periodFirstResponse\<close> declares the period as its first
  dimension, \<open>id = [Tid, DrivstoffType, TypeRegistrering, ContentsCode]\<close> with
  \<open>size = [3, 2, 1, 1]\<close>; in row-major order of that declaration the flat index 2
  is the period 2024M02 with the fuel 19 and the value 30. \<open>parseJsonStat\<close> takes the
  first size for the registration type and the last for the period, whatever \<open>id\<close>
  says: its result has the single period 2024M01, with the values 50 and 60.
\<close>

theorem parseJsonStat_fixed_order_counterexample:
  "spec_rowMajorCell periodFirstResponse 2 = Some (''2024M02'', ''19'', 30)
   \<and> parseJsonStat periodFirstResponse = Inr [(''2024M01'', [(''19'', 50), (''20'', 60)])]
   \<and> resultAt [(''2024M01'', [(''19'', 50), (''20'', 60)])] ''2024M02'' ''19'' = None"
  by code_simp

text \<open>
  Claim C4 as amended. \<open>parseJsonStat\<close> reads the four sizes and the category
  orderings of \<open>DrivstoffType\<close> and \<open>Tid\<close> from the response and assumes the
  dimension order registration type, fuel type, contents, period. For a response that
  declares this order with \<open>size = [1, F, 1, T]\<close>, and whose two category indexes
  list \<open>F\<close> and \<open>T\<close> distinct codes, every flat index \<open>n < F * T\<close> is stored
  under the period and fuel that row-major order gives it (period \<open>n mod T\<close>, fuel
  \<open>n div T\<close>), with the value at \<open>n\<close>, a missing or null value read as 0. For
  \<open>size = [1, 2, 1, 3]\<close> and the values 10 to 60 this is the mapping of the
  example.
\<close>

theorem parseJsonStat_row_major:
  assumes id: "js_id r = [''TypeRegistrering'', ''DrivstoffType'', ''ContentsCode'', ''Tid'']"
    and size: "js_size r = Some [1, F, 1, T]"
    and val: "js_value r = Some vs"
    and dim: "js_dimension r = Some d"
    and fi: "map_of d ''DrivstoffType'' = Some fuelTypeIndex"
    and ti: "map_of d ''Tid'' = Some tidIndex"
    and fd: "distinct (codesInOrder fuelTypeIndex)" and fl: "length (codesInOrder fuelTypeIndex) = F"
    and td: "distinct (codesInOrder tidIndex)" and tl: "length (codesInOrder tidIndex) = T"
    and n: "n < F * T"
  shows "(\<exists>results. parseJsonStat r = Inr results
            \<and> spec_rowMajorCell r n =
                Some (codeAt (codesInOrder tidIndex) (n mod T),
                      codeAt (codesInOrder fuelTypeIndex) (n div T), valueOr0 vs n)
            \<and> resultAt results (codeAt (codesInOrder tidIndex) (n mod T))
                  (codeAt (codesInOrder fuelTypeIndex) (n div T)) = Some (valueOr0 vs n))
       \<and> parseJsonStat exampleResponse =
           Inr [(''2024M01'', [(''19'', 10), (''20'', 40)]), (''2024M02'', [(''19'', 20), (''20'', 50)]),
                (''2024M03'', [(''19'', 30), (''20'', 60)])]"
proof -
  let ?months = "codesInOrder tidIndex" and ?fuels = "codesInOrder fuelTypeIndex"
  let ?results = "fillResults ?fuels ?months vs (loopCells 1 F 1 T)"
  from n have T: "0 < T" by (cases T) auto
  from n T have nd: "n div T < F" by (simp add: less_mult_imp_div_less mult.commute)
  have parse: "parseJsonStat r = Inr ?results"
    by (simp add: parseJsonStat_def size val dim fi ti)
  have posT: "positionOf ''Tid'' (js_id r) = Some 3" and posF: "positionOf ''DrivstoffType'' (js_id r) = Some 1"
    by (simp_all add: id)
  have cT: "coordinateOf [Suc 0, F, Suc 0, T] 3 n = n mod T"
    by (simp add: coordinateOf_def)
  have cF: "coordinateOf [Suc 0, F, Suc 0, T] (Suc 0) n = n div T"
    using nd by (simp add: coordinateOf_def)
  have spec: "spec_rowMajorCell r n = Some (codeAt ?months (n mod T), codeAt ?fuels (n div T), valueOr0 vs n)"
    using n by (simp add: spec_rowMajorCell_def size val dim fi ti posT posF cT cF)
  have mem: "(n, (n div T, n mod T)) \<in> set (map (\<lambda>n. (n, (n div T, n mod T))) [0 ..< F * T])"
    using n by simp
  have "resultAt ?results (codeAt ?months (n mod T)) (codeAt ?fuels (n div T)) = Some (valueOr0 vs n)"
    unfolding fillResults_def enumerate_flat
    by (rule resultAt_fill [OF flat_keys_distinct [OF td tl fd fl] mem])
  with parse spec show ?thesis
    using parseJsonStat_exampleResponse by blast
qed

theorem parseJsonStat_row_major_witness:
  "js_id exampleResponse = [''TypeRegistrering'', ''DrivstoffType'', ''ContentsCode'', ''Tid'']
   \<and> js_size exampleResponse = Some [1, 2, 1, 3]
   \<and> distinct (codesInOrder [(''19'', 0), (''20'', 1)])
   \<and> length (codesInOrder [(''19'', 0), (''20'', 1)]) = 2
   \<and> distinct (codesInOrder [(''2024M01'', 0), (''2024M02'', 1), (''2024M03'', 2)])
   \<and> length (codesInOrder [(''2024M01'', 0), (''2024M02'', 1), (''2024M03'', 2)]) = 3
   \<and> (4::nat) < 2 * 3
   \<and> spec_rowMajorCell exampleResponse 4 = Some (''2024M02'', ''20'', 50)
   \<and> (\<exists>results. parseJsonStat exampleResponse = Inr results
          \<and> resultAt results ''2024M02'' ''20'' = Some 50)"
proof -
  let ?fi = "[(''19'', 0::nat), (''20'', 1)]"
  let ?ti = "[(''2024M01'', 0::nat), (''2024M02'', 1), (''2024M03'', 2)]"
  let ?vs = "[Some 10, Some 20, Some 30, Some 40, Some 50, Some (60::int)]"
  have h1: "js_id exampleResponse = [''TypeRegistrering'', ''DrivstoffType'', ''ContentsCode'', ''Tid'']"
    and h2: "js_size exampleResponse = Some [1, 2, 1, 3]"
    and h3: "js_value exampleResponse = Some ?vs"
    and h4: "js_dimension exampleResponse = Some [(''TypeRegistrering'', [(''N'', 0)]),
                           (''DrivstoffType'', ?fi), (''ContentsCode'', [(''Personbiler'', 0)]),
                           (''Tid'', ?ti)]"
    by (simp_all add: exampleResponse_def)
  have cf: "codesInOrder ?fi = [''19'', ''20'']" by code_simp
  have ct: "codesInOrder ?ti = [''2024M01'', ''2024M02'', ''2024M03'']" by code_simp
  have h7: "distinct (codesInOrder ?fi)" and h8: "length (codesInOrder ?fi) = 2"
    and h9: "distinct (codesInOrder ?ti)" and h10: "length (codesInOrder ?ti) = 3"
    unfolding cf ct by simp_all
  have h11: "(4::nat) < 2 * 3" by simp
  note t = parseJsonStat_row_major [OF h1 h2 h3 h4 _ _ h7 h8 h9 h10 h11, simplified]
  have at: "codeAt (codesInOrder ?ti) (4 mod 3) = ''2024M02''" "codeAt (codesInOrder ?fi) (4 div 3) = ''20''"
    "valueOr0 ?vs 4 = 50"
    unfolding cf ct by (simp_all add: codeAt_def valueOr0_def)
  from t at show ?thesis
    using h1 h2 h7 h8 h9 h10 by auto
qed

section \<open>The orchestrator and the errors of a run\<close>

lemma runCalls_all_return:
  assumes "\<forall>(zc, c, i) \<in> set calls. \<forall>exports. mods (pi_script i) = Some exports \<longrightarrow>
      (\<exists>p. exports (pi_function i) = Some p \<and> (\<forall>st'. fst (p st') = Returned))"
  shows "fst (runCalls mods calls s) = Returned
     \<and> rs_started (snd (runCalls mods calls s)) =
         rs_started s @ map (\<lambda>(zc, c, i). (c, zc)) (filter (\<lambda>(zc, c, i). mods (pi_script i) \<noteq> None) calls)"
  using assms
proof (induction calls arbitrary: s)
  case Nil
  then show ?case by simp
next
  case (Cons call calls)
  obtain zc c i where call: "call = (zc, c, i)" by (cases call) auto
  have rest: "\<forall>(zc, c, i) \<in> set calls. \<forall>exports. mods (pi_script i) = Some exports \<longrightarrow>
      (\<exists>p. exports (pi_function i) = Some p \<and> (\<forall>st'. fst (p st') = Returned))"
    using Cons.prems by simp
  show ?case
  proof (cases "mods (pi_script i)")
    case None
    then show ?thesis using Cons.IH [OF rest] call by simp
  next
    case (Some exports)
    with Cons.prems call obtain p where p: "exports (pi_function i) = Some p"
      and ret: "\<forall>st'. fst (p st') = Returned" by auto
    let ?s1 = "s\<lparr>rs_started := rs_started s @ [(c, zc)]\<rparr>"
    obtain st' where pst: "p (rs_store ?s1) = (Returned, st')"
      using ret by (metis prod.collapse)
    show ?thesis
      using Cons.IH [OF rest, of "?s1\<lparr>rs_store := st'\<rparr>"] call Some p pst
      by (simp add: Let_def)
  qed
qed

lemma runCalls_append:
  "runCalls mods (pre @ rest) s =
     (case runCalls mods pre s of (Returned, s') \<Rightarrow> runCalls mods rest s' | (Threw, s') \<Rightarrow> (Threw, s'))"
proof (induction pre arbitrary: s)
  case Nil
  then show ?case by simp
next
  case (Cons call pre)
  obtain zc c i where call: "call = (zc, c, i)" by (cases call) auto
  show ?case
    using Cons.IH call
    by (auto simp: Let_def split: option.splits prod.splits outcome.splits)
qed

lemma runCalls_throwing_call:
  assumes "mods (pi_script i) = Some exports" "exports (pi_function i) = Some p"
    "fst (p (rs_store s)) = Threw"
  shows "runCalls mods ((zc, c, i) # rest) s =
     (Threw, s\<lparr>rs_started := rs_started s @ [(c, zc)], rs_store := snd (p (rs_store s))\<rparr>)"
proof -
  obtain st' where "p (rs_store s) = (Threw, st')"
    using assms(3) by (metis prod.collapse)
  then show ?thesis using assms by (simp add: Let_def)
qed

lemma runCalls_stops_at_throw:
  assumes "runCalls mods pre s0 = (Returned, s1)"
    "mods (pi_script i) = Some exports" "exports (pi_function i) = Some p"
    "fst (p (rs_store s1)) = Threw"
  shows "runCalls mods (pre @ (zc, c, i) # rest) s0 =
     (Threw, s1\<lparr>rs_started := rs_started s1 @ [(c, zc)], rs_store := snd (p (rs_store s1))\<rparr>)"
proof -
  have "runCalls mods (pre @ (zc, c, i) # rest) s0 = runCalls mods ((zc, c, i) # rest) s1"
    by (simp add: runCalls_append assms(1) del: runCalls.simps)
  moreover have "runCalls mods ((zc, c, i) # rest) s1 =
      (Threw, s1\<lparr>rs_started := rs_started s1 @ [(c, zc)], rs_store := snd (p (rs_store s1))\<rparr>)"
    using assms(2,3,4) by (rule runCalls_throwing_call)
  ultimately show ?thesis by (simp only:)
qed

lemma month_written_despite_failures:
  "m \<in> set ms \<Longrightarrow> st (key m) = None \<Longrightarrow> f m \<noteq> None \<Longrightarrow>
     fold (writeStep f key) (filter (\<lambda>m. st (key m) = None) ms) st (key m) \<noteq> None"
  by (rule fold_writeStep_written) simp_all

lemma exampleZones_run:
  "runAllParsers exampleZones exampleModules None Map.empty =
     (1, \<lparr>rs_store = Map.empty, rs_started = [(''ev'', ''FR'')], rs_warnings = []\<rparr>)"
  by (simp add: runAllParsers_def exampleZones_def exampleModules_def parserCalls_def
      objectEntries_def isArrayIndex_def isDigit_def fetchAllEVData_FR_def)

lemma exampleModules_NL_alone:
  "map_option fuelTotals
     (snd (fetchAllEVData_NL (\<lambda>dir. True) (\<lambda>member. member) (\<lambda>code. [Some ''Benzine''])
             exampleClock Map.empty)
        (''NL'', ''2019-01.json'')) = Some [(''GASOLINE'', 1)]"
  by code_simp

text \<open>
  Claim C5 as stated fails. With the zones France and the Netherlands configured in
  this order and the French workbook failing to download, \<open>fetchAllEVData\<close> of
  FR.js rejects; \<open>runAllParsers\<close> has no handler around the call, so the process
  exits with code 1 after starting the French parser only. The Dutch parser, which
  alone would have written the file of 2019-01, is never started.
\<close>

theorem parser_error_aborts_run_counterexample:
  "runAllParsers exampleZones exampleModules None Map.empty =
     (1, \<lparr>rs_store = Map.empty, rs_started = [(''ev'', ''FR'')], rs_warnings = []\<rparr>)
   \<and> map_option fuelTotals
       (snd (fetchAllEVData_NL (\<lambda>dir. True) (\<lambda>member. member) (\<lambda>code. [Some ''Benzine''])
               exampleClock Map.empty)
          (''NL'', ''2019-01.json'')) = Some [(''GASOLINE'', 1)]"
  using exampleZones_run exampleModules_NL_alone by (rule conjI)

text \<open>
  Claim C5 as amended. In the runs that loop over months, those of ACEA, Germany, the
  Netherlands and Norway, an error at one month is caught at that month: when the
  output directory can be created, every missing month for which the network gives
  data has its file after the run, whatever happened at the other months (for Norway:
  data in whichever batch the month is requested). These runs throw exactly when
  \<open>ensureDir\<close> throws, which they call before the loop and outside any \<open>try\<close>;
  otherwise they return, months having failed or not. \<open>runAllParsers\<close> exits with code
  1 and starts nothing for a zone code that is not configured and is not the name of
  a member of \<open>Object.prototype\<close>; it exits with code 0, having started every parser
  whose script exists, when every parser returns; and when a parser throws (the
  French run when a download fails, a run whose directory cannot be created) it exits
  with code 1 at that parser: the parsers and zones after it are not started.
\<close>

theorem run_error_isolation:
  "(disk cc \<and> m \<in> set (getMonthsSinceStart now s) \<and> st (cc, m_code m @ ''.json'') = None
      \<and> aceaMonthFile parser fetchAceaPdf cc m \<noteq> None
      \<longrightarrow> snd (collectAceaData disk parser fetchAceaPdf now cc s st) (cc, m_code m @ ''.json'') \<noteq> None)
   \<and> (disk ''DE'' \<and> m \<in> set (getMonthsSinceStart now 2021) \<and> st (''DE'', m_code m @ ''.json'') = None
      \<and> germanMonthFile kba m \<noteq> None
      \<longrightarrow> snd (fetchAllEVData_DE disk kba now st) (''DE'', m_code m @ ''.json'') \<noteq> None)
   \<and> (disk ''NL'' \<and> m \<in> set (getMonthsSinceStart now 2019) \<and> st (''NL'', m_code m @ ''.json'') = None
      \<and> dutchMonthFile memberText rdw m \<noteq> None
      \<longrightarrow> snd (fetchAllEVData_NL disk memberText rdw now st) (''NL'', m_code m @ ''.json'') \<noteq> None)
   \<and> (disk ''NO'' \<and> m \<in> set (getMonthsSinceStart now 2011) \<and> st (''NO'', m_code m @ ''.json'') = None
      \<and> (\<forall>b. norwegianCode m \<in> set b \<longrightarrow>
             norwegianMonthFile memberText ssb b (norwegianCode m) \<noteq> None)
      \<longrightarrow> snd (fetchAllEVData_NO disk memberText ssb now st) (''NO'', m_code m @ ''.json'') \<noteq> None)
   \<and> fst (collectAceaData disk parser fetchAceaPdf now cc s st) = (if disk cc then Returned else Threw)
   \<and> fst (fetchAllEVData_DE disk kba now st) = (if disk ''DE'' then Returned else Threw)
   \<and> fst (fetchAllEVData_NL disk memberText rdw now st) = (if disk ''NL'' then Returned else Threw)
   \<and> fst (fetchAllEVData_NO disk memberText ssb now st) = (if disk ''NO'' then Returned else Threw)
   \<and> (z \<noteq> [] \<and> z \<notin> set objectPrototypeMembers \<and> map_of zones z = None
      \<longrightarrow> runAllParsers zones mods (Some z) st =
            (1, \<lparr>rs_store = st, rs_started = [], rs_warnings = []\<rparr>))
   \<and> ((\<forall>(zc, c, i) \<in> set (parserCalls zones). \<forall>exports. mods (pi_script i) = Some exports \<longrightarrow>
          (\<exists>p. exports (pi_function i) = Some p \<and> (\<forall>st'. fst (p st') = Returned)))
      \<longrightarrow> fst (runAllParsers zones mods None st) = 0
          \<and> rs_started (snd (runAllParsers zones mods None st)) =
              map (\<lambda>(zc, c, i). (c, zc))
                (filter (\<lambda>(zc, c, i). mods (pi_script i) \<noteq> None) (parserCalls zones)))
   \<and> (parserCalls zones = pre @ (zc, c, i) # rest
      \<and> runCalls mods pre \<lparr>rs_store = st, rs_started = [], rs_warnings = []\<rparr> = (Returned, s1)
      \<and> mods (pi_script i) = Some exports \<and> exports (pi_function i) = Some p
      \<and> fst (p (rs_store s1)) = Threw
      \<longrightarrow> runAllParsers zones mods None st =
            (1, s1\<lparr>rs_started := rs_started s1 @ [(c, zc)], rs_store := snd (p (rs_store s1))\<rparr>))"
proof (intro conjI impI)
  assume a: "disk cc \<and> m \<in> set (getMonthsSinceStart now s) \<and> st (cc, m_code m @ ''.json'') = None
      \<and> aceaMonthFile parser fetchAceaPdf cc m \<noteq> None"
  have code: "m_code m = monthCode (m_year m) (m_month m)"
    using a getMonthsSinceStart_code [of m now s] by blast
  have "fold (writeStep (aceaMonthFile parser fetchAceaPdf cc)
             (\<lambda>m. (cc, monthCode (m_year m) (m_month m) @ ''.json'')))
       (filter (\<lambda>m. st (cc, monthCode (m_year m) (m_month m) @ ''.json'') = None)
          (getMonthsSinceStart now s)) st (cc, monthCode (m_year m) (m_month m) @ ''.json'') \<noteq> None"
    using a code
    by (intro month_written_despite_failures
          [where key = "\<lambda>m. (cc, monthCode (m_year m) (m_month m) @ ''.json'')"
             and f = "aceaMonthFile parser fetchAceaPdf cc"]) simp_all
  with a show "snd (collectAceaData disk parser fetchAceaPdf now cc s st) (cc, m_code m @ ''.json'') \<noteq> None"
    by (simp add: collectAceaData_as_fold code)
next
  assume a: "disk ''DE'' \<and> m \<in> set (getMonthsSinceStart now 2021) \<and> st (''DE'', m_code m @ ''.json'') = None
      \<and> germanMonthFile kba m \<noteq> None"
  have code: "m_code m = monthCode (m_year m) (m_month m)"
    using a getMonthsSinceStart_code [of m now 2021] by blast
  have "fold (writeStep (germanMonthFile kba)
             (\<lambda>m. (''DE'', monthCode (m_year m) (m_month m) @ ''.json'')))
       (filter (\<lambda>m. st (''DE'', monthCode (m_year m) (m_month m) @ ''.json'') = None)
          (getMonthsSinceStart now 2021)) st (''DE'', monthCode (m_year m) (m_month m) @ ''.json'') \<noteq> None"
    using a code
    by (intro month_written_despite_failures
          [where key = "\<lambda>m. (''DE'', monthCode (m_year m) (m_month m) @ ''.json'')"
             and f = "germanMonthFile kba"]) simp_all
  with a show "snd (fetchAllEVData_DE disk kba now st) (''DE'', m_code m @ ''.json'') \<noteq> None"
    by (simp add: fetchAllEVData_DE_as_fold code)
next
  assume a: "disk ''NL'' \<and> m \<in> set (getMonthsSinceStart now 2019) \<and> st (''NL'', m_code m @ ''.json'') = None
      \<and> dutchMonthFile memberText rdw m \<noteq> None"
  have "fold (writeStep (dutchMonthFile memberText rdw) (\<lambda>m. (''NL'', m_code m @ ''.json'')))
       (filter (\<lambda>m. st (''NL'', m_code m @ ''.json'') = None) (getMonthsSinceStart now 2019)) st
       (''NL'', m_code m @ ''.json'') \<noteq> None"
    using a
    by (intro month_written_despite_failures
          [where key = "\<lambda>m. (''NL'', m_code m @ ''.json'')"
             and f = "dutchMonthFile memberText rdw"]) simp_all
  with a show "snd (fetchAllEVData_NL disk memberText rdw now st) (''NL'', m_code m @ ''.json'') \<noteq> None"
    by (simp add: fetchAllEVData_NL_as_fold)
next
  assume a: "disk ''NO'' \<and> m \<in> set (getMonthsSinceStart now 2011) \<and> st (''NO'', m_code m @ ''.json'') = None
      \<and> (\<forall>b. norwegianCode m \<in> set b \<longrightarrow>
             norwegianMonthFile memberText ssb b (norwegianCode m) \<noteq> None)"
  have code: "m_code m = monthCode (m_year m) (m_month m)"
    using a getMonthsSinceStart_code [of m now 2011] by blast
  have "snd (fetchAllEVData_NO disk memberText ssb now st)
      (''NO'', monthCode (m_year m) (m_month m) @ ''.json'') \<noteq> None"
    using a unfolding code by (intro fetchAllEVData_NO_written) simp_all
  then show "snd (fetchAllEVData_NO disk memberText ssb now st) (''NO'', m_code m @ ''.json'') \<noteq> None"
    by (simp add: code)
next
  show "fst (collectAceaData disk parser fetchAceaPdf now cc s st) = (if disk cc then Returned else Threw)"
    by (rule collectAceaData_outcome)
next
  show "fst (fetchAllEVData_DE disk kba now st) = (if disk ''DE'' then Returned else Threw)"
    by (rule fetchAllEVData_DE_outcome)
next
  show "fst (fetchAllEVData_NL disk memberText rdw now st) = (if disk ''NL'' then Returned else Threw)"
    by (rule fetchAllEVData_NL_outcome)
next
  show "fst (fetchAllEVData_NO disk memberText ssb now st) = (if disk ''NO'' then Returned else Threw)"
    by (rule fetchAllEVData_NO_outcome)
next
  assume "z \<noteq> [] \<and> z \<notin> set objectPrototypeMembers \<and> map_of zones z = None"
  then show "runAllParsers zones mods (Some z) st =
      (1, \<lparr>rs_store = st, rs_started = [], rs_warnings = []\<rparr>)"
    by (simp add: runAllParsers_def)
next
  assume a: "\<forall>(zc, c, i) \<in> set (parserCalls zones). \<forall>exports. mods (pi_script i) = Some exports \<longrightarrow>
          (\<exists>p. exports (pi_function i) = Some p \<and> (\<forall>st'. fst (p st') = Returned))"
  note r = runCalls_all_return [OF a, of "\<lparr>rs_store = st, rs_started = [], rs_warnings = []\<rparr>"]
  obtain o1 s1 where run: "runCalls mods (parserCalls zones)
      \<lparr>rs_store = st, rs_started = [], rs_warnings = []\<rparr> = (o1, s1)"
    by (cases "runCalls mods (parserCalls zones) \<lparr>rs_store = st, rs_started = [], rs_warnings = []\<rparr>")
  from r run have o1: "o1 = Returned" by simp
  from r run o1 show "fst (runAllParsers zones mods None st) = 0"
    by (simp add: runAllParsers_def)
  from r run o1 show "rs_started (snd (runAllParsers zones mods None st)) =
              map (\<lambda>(zc, c, i). (c, zc))
                (filter (\<lambda>(zc, c, i). mods (pi_script i) \<noteq> None) (parserCalls zones))"
    by (simp add: runAllParsers_def)
next
  assume a: "parserCalls zones = pre @ (zc, c, i) # rest
      \<and> runCalls mods pre \<lparr>rs_store = st, rs_started = [], rs_warnings = []\<rparr> = (Returned, s1)
      \<and> mods (pi_script i) = Some exports \<and> exports (pi_function i) = Some p
      \<and> fst (p (rs_store s1)) = Threw"
  have a1: "runCalls mods pre \<lparr>rs_store = st, rs_started = [], rs_warnings = []\<rparr> = (Returned, s1)"
    and a2: "mods (pi_script i) = Some exports" and a3: "exports (pi_function i) = Some p"
    and a4: "fst (p (rs_store s1)) = Threw"
    using a by simp_all
  have "runCalls mods (pre @ (zc, c, i) # rest) \<lparr>rs_store = st, rs_started = [], rs_warnings = []\<rparr>
      = (Threw, s1\<lparr>rs_started := rs_started s1 @ [(c, zc)], rs_store := snd (p (rs_store s1))\<rparr>)"
    using a1 a2 a3 a4 by (rule runCalls_stops_at_throw)
  with a show "runAllParsers zones mods None st =
            (1, s1\<lparr>rs_started := rs_started s1 @ [(c, zc)], rs_store := snd (p (rs_store s1))\<rparr>)"
    by (simp add: runAllParsers_def del: runCalls.simps)
qed

theorem run_error_isolation_witness:
  "snd (collectAceaData (\<lambda>dir. True) parsePdfData (\<lambda>y mo. if mo = 2 then Some degradedRowExample else None)
       \<lparr>fullYear = 2025, monthIndex = 5\<rparr> ''FR'' 2025 Map.empty) (''FR'', ''2025-02.json'') \<noteq> None
   \<and> aceaMonthFile parsePdfData (\<lambda>y mo. if mo = 2 then Some degradedRowExample else None) ''FR''
       \<lparr>m_year = 2025, m_month = 1, m_code = ''2025-01''\<rparr> = None
   \<and> snd (fetchAllEVData_DE (\<lambda>dir. True)
            (\<lambda>y mo. if mo = 2 then [None, Some \<lparr>kba_TOTAL = Some 10, kba_DIESEL = Some 1, kba_BEV = Some 2,
                                       kba_PHEV = None, kba_HYBRID = None, kba_ALL_HYBRIDS = None\<rparr>]
                     else [])
            \<lparr>fullYear = 2025, monthIndex = 5\<rparr> Map.empty) (''DE'', ''2025-02.json'') \<noteq> None
   \<and> snd (fetchAllEVData_NL (\<lambda>dir. True) (\<lambda>member. member)
            (\<lambda>code. if code = ''2025-02'' then [Some ''Benzine''] else [])
            \<lparr>fullYear = 2025, monthIndex = 5\<rparr> Map.empty) (''NL'', ''2025-02.json'') \<noteq> None
   \<and> snd (fetchAllEVData_NO (\<lambda>dir. True) (\<lambda>member. member) (\<lambda>codes. Some exampleResponse)
            \<lparr>fullYear = 2024, monthIndex = 0\<rparr> Map.empty) (''NO'', ''2024-01.json'') \<noteq> None
   \<and> fst (fetchAllEVData_NL (\<lambda>dir. True) (\<lambda>member. member)
            (\<lambda>code. if code = ''2025-02'' then [Some ''Benzine''] else [])
            \<lparr>fullYear = 2025, monthIndex = 5\<rparr> Map.empty) = Returned
   \<and> fst (fetchAllEVData_NL (\<lambda>dir. False) (\<lambda>member. member)
            (\<lambda>code. if code = ''2025-02'' then [Some ''Benzine''] else [])
            \<lparr>fullYear = 2025, monthIndex = 5\<rparr> Map.empty) = Threw
   \<and> runAllParsers exampleZones exampleModules (Some ''XX'') Map.empty =
       (1, \<lparr>rs_store = Map.empty, rs_started = [], rs_warnings = []\<rparr>)
   \<and> fst (runAllParsers [(''NL'', Some [(''ev'', \<lparr>pi_script = ''NL'', pi_function = ''fetchAllEVData''\<rparr>)])]
            exampleModules None Map.empty) = 0
   \<and> rs_started (snd (runAllParsers
            [(''NL'', Some [(''ev'', \<lparr>pi_script = ''NL'', pi_function = ''fetchAllEVData''\<rparr>)])]
            exampleModules None Map.empty)) = [(''ev'', ''NL'')]
   \<and> runAllParsers exampleZones exampleModules None Map.empty =
       (1, \<lparr>rs_store = Map.empty, rs_started = [(''ev'', ''FR'')], rs_warnings = []\<rparr>)"
proof -
  let ?m = "\<lparr>m_year = 2025, m_month = 2, m_code = ''2025-02''\<rparr>"
  let ?mn = "\<lparr>m_year = 2024, m_month = 1, m_code = ''2024-01''\<rparr>"
  let ?now = "\<lparr>fullYear = 2025, monthIndex = 5\<rparr>"
  let ?F = "\<lambda>(y::int) (mo::int). if mo = 2 then Some degradedRowExample else None"
  let ?K = "\<lambda>(y::int) (mo::int). if mo = 2 then [None, Some \<lparr>kba_TOTAL = Some 10, kba_DIESEL = Some 1, kba_BEV = Some 2,
                                       kba_PHEV = None, kba_HYBRID = None, kba_ALL_HYBRIDS = None\<rparr>]
                     else []"
  let ?R = "\<lambda>code. if code = ''2025-02'' then [Some ''Benzine''] else []"
  let ?ssb = "\<lambda>codes :: string list. Some exampleResponse"
  let ?iFR = "\<lparr>pi_script = ''FR'', pi_function = ''fetchAllEVData''\<rparr>"
  let ?iNL = "\<lparr>pi_script = ''NL'', pi_function = ''fetchAllEVData''\<rparr>"
  let ?s0 = "\<lparr>rs_store = Map.empty, rs_started = [], rs_warnings = []\<rparr>"
  let ?ex = "\<lambda>name. if name = ''fetchAllEVData''
                         then Some (fetchAllEVData_FR WorkbookFetchFails) else None"
  note A = run_error_isolation [where m = ?m and now = ?now and s = 2025 and st = Map.empty
      and cc = "''FR''" and parser = parsePdfData and fetchAceaPdf = ?F and kba = ?K
      and disk = "\<lambda>dir. True"
      and memberText = "\<lambda>member. member" and rdw = ?R and z = "''XX''" and zones = exampleZones
      and mods = exampleModules and pre = "[]" and zc = "''FR''" and c = "''ev''" and i = ?iFR
      and rest = "[(''NL'', ''ev'', ?iNL)]" and ?s1.0 = ?s0 and exports = ?ex
      and p = "fetchAllEVData_FR WorkbookFetchFails"]
  note B = run_error_isolation [where zones = "[(''NL'', Some [(''ev'', ?iNL)])]"
      and mods = exampleModules and st = Map.empty]
  note C = run_error_isolation [where m = ?mn and now = "\<lparr>fullYear = 2024, monthIndex = 0\<rparr>"
      and st = Map.empty and disk = "\<lambda>dir. True" and memberText = "\<lambda>member. member" and ssb = ?ssb]
  note D = run_error_isolation [where now = ?now and st = Map.empty and disk = "\<lambda>dir. False"
      and memberText = "\<lambda>member. member" and rdw = ?R]
  have in25: "?m \<in> set (getMonthsSinceStart ?now 2025)" by code_simp
  have in21: "?m \<in> set (getMonthsSinceStart ?now 2021)" by code_simp
  have in19: "?m \<in> set (getMonthsSinceStart ?now 2019)" by code_simp
  have in11: "?mn \<in> set (getMonthsSinceStart \<lparr>fullYear = 2024, monthIndex = 0\<rparr> 2011)" by code_simp
  have f1: "aceaMonthFile parsePdfData ?F ''FR'' ?m \<noteq> None"
    by (simp add: aceaMonthFile_def parsePdfData_degradedRowExample)
  have f2: "germanMonthFile ?K ?m \<noteq> None"
    by (simp add: germanMonthFile_def fetchMonthData_DE_def parseKbaTotals_def putIfPositive_def
        objGetOr0_def Let_def)
  have f3: "dutchMonthFile (\<lambda>member. member) ?R ?m \<noteq> None"
    by (simp add: dutchMonthFile_def fetchMonthData_NL_def Let_def split_def)
  have nc: "norwegianCode ?mn = ''2024M01''" by code_simp
  have nf: "norwegianFile (\<lambda>member. member) ''2024M01'' [(''19'', 10), (''20'', 40)] \<noteq> None"
    by code_simp
  have f4: "\<forall>b. norwegianCode ?mn \<in> set b \<longrightarrow>
      norwegianMonthFile (\<lambda>member. member) ?ssb b (norwegianCode ?mn) \<noteq> None"
    using nf
    by (simp add: nc norwegianMonthFile_def norwegianData_def fetchMonthsBatch_def
        parseJsonStat_exampleResponse)
  have c1: "snd (collectAceaData (\<lambda>dir. True) parsePdfData ?F ?now ''FR'' 2025 Map.empty)
      (''FR'', ''2025-02.json'') \<noteq> None"
    using A [THEN conjunct1] in25 f1 by simp
  have c2: "aceaMonthFile parsePdfData ?F ''FR'' \<lparr>m_year = 2025, m_month = 1, m_code = ''2025-01''\<rparr> = None"
    by (simp add: aceaMonthFile_def)
  have c3: "snd (fetchAllEVData_DE (\<lambda>dir. True) ?K ?now Map.empty) (''DE'', ''2025-02.json'') \<noteq> None"
    using A [THEN conjunct2, THEN conjunct1] in21 f2 by simp
  have c4: "snd (fetchAllEVData_NL (\<lambda>dir. True) (\<lambda>member. member) ?R ?now Map.empty)
      (''NL'', ''2025-02.json'') \<noteq> None"
    using A [THEN conjunct2, THEN conjunct2, THEN conjunct1] in19 f3 by simp
  have c4n: "snd (fetchAllEVData_NO (\<lambda>dir. True) (\<lambda>member. member) ?ssb
      \<lparr>fullYear = 2024, monthIndex = 0\<rparr> Map.empty) (''NO'', ''2024-01.json'') \<noteq> None"
    using C [THEN conjunct2, THEN conjunct2, THEN conjunct2, THEN conjunct1] in11 f4 by simp
  have c4r: "fst (fetchAllEVData_NL (\<lambda>dir. True) (\<lambda>member. member) ?R ?now Map.empty) = Returned"
    using A [THEN conjunct2, THEN conjunct2, THEN conjunct2, THEN conjunct2, THEN conjunct2,
        THEN conjunct2, THEN conjunct1] by simp
  have c4t: "fst (fetchAllEVData_NL (\<lambda>dir. False) (\<lambda>member. member) ?R ?now Map.empty) = Threw"
    using D [THEN conjunct2, THEN conjunct2, THEN conjunct2, THEN conjunct2, THEN conjunct2,
        THEN conjunct2, THEN conjunct1] by simp
  have c5: "runAllParsers exampleZones exampleModules (Some ''XX'') Map.empty = (1, ?s0)"
    using A [THEN conjunct2, THEN conjunct2, THEN conjunct2, THEN conjunct2, THEN conjunct2,
        THEN conjunct2, THEN conjunct2, THEN conjunct2, THEN conjunct1]
    by (simp add: exampleZones_def objectPrototypeMembers_def)
  have calls: "parserCalls [(''NL'', Some [(''ev'', ?iNL)])] = [(''NL'', ''ev'', ?iNL)]"
    by (simp add: parserCalls_def objectEntries_def isArrayIndex_def isDigit_def)
  have ret: "\<forall>(zc, c, i) \<in> set (parserCalls [(''NL'', Some [(''ev'', ?iNL)])]).
      \<forall>exports. exampleModules (pi_script i) = Some exports \<longrightarrow>
          (\<exists>p. exports (pi_function i) = Some p \<and> (\<forall>st'. fst (p st') = Returned))"
    unfolding calls by (simp add: exampleModules_def fetchAllEVData_NL_outcome)
  have c67: "fst (runAllParsers [(''NL'', Some [(''ev'', ?iNL)])] exampleModules None Map.empty) = 0
     \<and> rs_started (snd (runAllParsers [(''NL'', Some [(''ev'', ?iNL)])] exampleModules None Map.empty))
        = [(''ev'', ''NL'')]"
    using B [THEN conjunct2, THEN conjunct2, THEN conjunct2, THEN conjunct2, THEN conjunct2,
        THEN conjunct2, THEN conjunct2, THEN conjunct2, THEN conjunct2, THEN conjunct1, THEN mp, OF ret]
    unfolding calls by (simp add: exampleModules_def)
  have calls2: "parserCalls exampleZones = [] @ (''FR'', ''ev'', ?iFR) # [(''NL'', ''ev'', ?iNL)]"
    by (simp add: parserCalls_def exampleZones_def objectEntries_def isArrayIndex_def isDigit_def)
  have c8: "runAllParsers exampleZones exampleModules None Map.empty =
       (1, \<lparr>rs_store = Map.empty, rs_started = [(''ev'', ''FR'')], rs_warnings = []\<rparr>)"
    using A [THEN conjunct2, THEN conjunct2, THEN conjunct2, THEN conjunct2, THEN conjunct2,
        THEN conjunct2, THEN conjunct2, THEN conjunct2, THEN conjunct2, THEN conjunct2] calls2
    by (simp add: exampleModules_def fetchAllEVData_FR_def)
  from c1 c2 c3 c4 c4n c4r c4t c5 c67 c8 show ?thesis by (simp only: simp_thms)
qed

end
